theory Spec2Isabelle
  imports Complex_Main "HOL-Library.AList"
begin

section \<open>Data model\<close>

text \<open>
  Python floats are modelled as \<^typ>\<open>real\<close>; rounding is not modelled. Every raise of the
  source, and every Python run-time error a source line can provoke, is a value of
  \<open>error\<close>; a function that can raise returns \<open>error + 'a\<close> with \<open>Inl\<close> for the error.
\<close>

datatype error =
    CompartmentNotFound     \<comment> \<open>\<open>Exception("Compartment not found in model : ...")\<close>\<close>
  | SeedIdMissing           \<comment> \<open>\<open>Exception("seed_id missing for ...")\<close>\<close>
  | CannotFindProton        \<comment> \<open>\<open>Exception("Cannot find proton")\<close>\<close>
  | FluxBoundsTooWide       \<comment> \<open>\<open>Exception('flux bounds too wide or big M not big enough')\<close>\<close>
  | ThermoDataMissing       \<comment> \<open>\<open>Exception('Reaction thermo data missing. ...')\<close>\<close>
  | KeyError | TypeError | ValueError | ZeroDivisionError | IndexError
  | NameError | AttributeError | SolverError
  | ContainerAlreadyContains  \<comment> \<open>raised by the solver when a name is already in use\<close>

text \<open>
  The classes of \<open>optim.variables\<close> and \<open>optim.constraints\<close> that the two source files
  instantiate. The classes themselves are not defined in these two modules; a class is
  represented by its name, and an instance by the arguments the source passes to it.
\<close>

datatype var_kind =
    LogConcentration | DeltaG | DeltaGstd | ForwardUseVariable | BackwardUseVariable
  | ThermoDisplacement | ChebyshevRadius

datatype cons_kind =
    SimultaneousUse | NegativeDeltaG | BackwardDeltaGCoupling | ForwardDeltaGCoupling
  | BackwardDirectionCoupling | ForwardDirectionCoupling | DisplacementCoupling

text \<open>
  A solver variable: the variable behind a typed pyTFA variable (class and hook id), or
  the \<open>forward_variable\<close> / \<open>reverse_variable\<close> of a reaction (by reaction id).
\<close>

datatype var = TVar var_kind string | forward_variable string | reverse_variable string

text \<open>
  A linear expression is the list of its terms, in the order the source adds them; adding
  two expressions appends them. \<open>coeff\<close> and \<open>free_symbols\<close> read it as sympy does: the
  coefficient of a variable is the sum over its terms, and a variable is a free symbol
  when that sum is not zero.
\<close>

type_synonym expr = "(var \<times> real) list"

definition coeff :: "expr \<Rightarrow> var \<Rightarrow> real" where
  "coeff e x = sum_list (map snd (filter (\<lambda>t. fst t = x) e))"

definition free_symbols :: "expr \<Rightarrow> var list" where
  "free_symbols e = filter (\<lambda>x. coeff e x \<noteq> 0) (remdups (map fst e))"

definition expr_value :: "(var \<Rightarrow> real) \<Rightarrow> expr \<Rightarrow> real" where
  "expr_value sol e = sum_list (map (\<lambda>t. snd t * sol (fst t)) e)"

text \<open>
  A typed variable as \<open>add_variable(kind, hook, **kwargs)\<close> creates it: \<open>v_lb\<close> and \<open>v_ub\<close>
  are the keyword arguments \<open>lb\<close> and \<open>ub\<close>, \<open>None\<close> when the call passes none. A typed
  constraint likewise; \<open>c_lb\<close> / \<open>c_ub\<close> are the bounds of the solver constraint, \<open>None\<close>
  for an open bound.
\<close>

record variable =
  v_kind :: var_kind
  v_hook :: string
  v_lb :: "real option"
  v_ub :: "real option"

record constraint =
  c_kind :: cons_kind
  c_hook :: string
  c_expr :: expr
  c_lb :: "real option"
  c_ub :: "real option"

text \<open>
  \<open>_var_dict\<close> and \<open>_cons_dict\<close> are keyed by the name of the instance, which the classes
  build from the class prefix and the id of the hook; the key is modelled as the pair of
  class and hook id. A Python dict keeps insertion order and overwrites in place, which
  is \<^const>\<open>AList.update\<close> on an association list.
\<close>

type_synonym var_name = "var_kind \<times> string"
type_synonym cons_name = "cons_kind \<times> string"

definition var_name :: "variable \<Rightarrow> var_name" where
  "var_name v = (v_kind v, v_hook v)"

definition cons_name :: "constraint \<Rightarrow> cons_name" where
  "cons_name c = (c_kind c, c_hook c)"

definition variable_of :: "variable \<Rightarrow> var" where
  "variable_of v = TVar (v_kind v) (v_hook v)"

record met_thermo =
  deltaGf_std :: real
  deltaGf_tr :: real
  deltaGf_err :: real

record metabolite =
  met_id :: string
  met_name :: string
  formula :: string
  met_compartment :: string
  seed_id :: "string option"       \<comment> \<open>\<open>annotation['seed_id']\<close>, \<open>None\<close> when the key is absent\<close>
  met_thermo :: "met_thermo option"  \<comment> \<open>the attribute \<open>thermo\<close>, absent before \<open>prepare\<close>\<close>

text \<open>The dict \<open>reaction.thermo\<close>: a field is \<open>None\<close> when its key is not in the dict.\<close>

record rxn_thermo =
  isTrans :: "bool option"
  computed :: "bool option"
  deltaGR :: "real option"
  deltaGRerr :: "real option"
  deltaGrxn :: "real option"

record reaction =
  rxn_id :: string
  rxn_name :: string
  rxn_metabolites :: "(string \<times> real) list"  \<comment> \<open>metabolite id and stoichiometric coefficient\<close>
  lower_bound :: real
  upper_bound :: real
  rxn_compartment :: "string option"
  rxn_thermo :: "rxn_thermo option"  \<comment> \<open>the attribute \<open>thermo\<close>, absent before \<open>prepare\<close>\<close>

record compartment =
  pH :: real
  ionicStr :: real
  c_min :: real
  c_max :: real

text \<open>
  Modelled from the spec: the records of the thermodynamic reference database
  (\<open>thermo_data['metabolites']\<close>), which the source only passes on to \<open>MetaboliteThermo\<close>.
\<close>

record compound =
  cpd_deltaGf_std :: real
  cpd_formula :: string
  cpd_charge :: real
  cpd_error :: real

text \<open>
  The state of a \<open>ThermoModel\<close>. Reactions refer to metabolites by id, and a metabolite is
  looked up in \<open>metabolites\<close>, so that the \<open>thermo\<close> attribute \<open>prepare\<close> sets on a
  metabolite is the one a reaction sees. \<open>tol_feasibility\<close> and \<open>tol_optimality\<close> are
  \<open>solver.configuration.tolerances\<close>.
\<close>

record thermo_model =
  reactions :: "reaction list"
  metabolites :: "metabolite list"
  compartments :: "string \<rightharpoonup> compartment"
  compounds_data :: "string \<rightharpoonup> compound"
  thermo_unit :: string
  TEMPERATURE :: real
  MIN_pH :: real
  MAX_pH :: real
  Debye_Huckel_B :: real
  RT :: real
  var_dict :: "(var_name \<times> variable) list"
  cons_dict :: "(cons_name \<times> constraint) list"
  LC_vars :: "string \<rightharpoonup> variable"
  P_vars :: "string \<rightharpoonup> variable"
  proton_of :: "(string \<times> metabolite) list"
  objective :: "var option"
  objective_direction :: string
  tol_feasibility :: real
  tol_optimality :: real

text \<open>The constants of \<open>utils.numerics\<close>, a module outside \<open>core/tmodel.py\<close>; they are parameters here.\<close>

record numerics =
  BIGM :: real
  BIGM_THERMO :: real
  BIGM_DG :: real
  BIGM_P :: real
  EPSILON :: real

section \<open>The registry: \<open>add_variable\<close> and \<open>add_constraint\<close>\<close>

definition add_variable ::
  "thermo_model \<Rightarrow> var_kind \<Rightarrow> string \<Rightarrow> real option \<Rightarrow> real option \<Rightarrow> variable \<times> thermo_model" where
  "add_variable m kind hook lb ub =
     (let var = \<lparr>v_kind = kind, v_hook = hook, v_lb = lb, v_ub = ub\<rparr>
      in (var, m\<lparr>var_dict := AList.update (var_name var) var (var_dict m)\<rparr>))"

definition add_constraint ::
  "thermo_model \<Rightarrow> cons_kind \<Rightarrow> string \<Rightarrow> expr \<Rightarrow> real option \<Rightarrow> real option \<Rightarrow> thermo_model" where
  "add_constraint m kind hook e lb ub =
     (let cons = \<lparr>c_kind = kind, c_hook = hook, c_expr = e, c_lb = lb, c_ub = ub\<rparr>
      in m\<lparr>cons_dict := AList.update (cons_name cons) cons (cons_dict m)\<rparr>)"

text \<open>A solution satisfies a constraint when the value of its expression is within its bounds.\<close>

definition satisfies :: "(var \<Rightarrow> real) \<Rightarrow> constraint \<Rightarrow> bool" where
  "satisfies sol c \<longleftrightarrow>
     (case c_lb c of None \<Rightarrow> True | Some l \<Rightarrow> l \<le> expr_value sol (c_expr c)) \<and>
     (case c_ub c of None \<Rightarrow> True | Some u \<Rightarrow> expr_value sol (c_expr c) \<le> u)"

section \<open>\<open>analysis/chebyshev.py\<close>\<close>

definition is_inequality :: "constraint \<Rightarrow> bool" where
  "is_inequality cons \<longleftrightarrow> c_lb cons = None \<or> c_ub cons = None"

text \<open>\<open>numpy.linalg.norm(..., ord=2)\<close> of a vector.\<close>

definition norm2 :: "real list \<Rightarrow> real" where
  "norm2 xs = sqrt (sum_list (map (\<lambda>x. x * x) xs))"

text \<open>\<open>set(cons.expr.free_symbols).intersection(vars)\<close>; an entry \<open>None\<close> of \<open>vars\<close> is in no expression.\<close>

definition var_intersection :: "expr \<Rightarrow> var option list \<Rightarrow> var list" where
  "var_intersection e vars = filter (\<lambda>x. Some x \<in> set vars) (free_symbols e)"

text \<open>
  The first loop of \<open>chebyshev_center\<close> (lines 81 to 98): \<open>cons_to_edit\<close> maps each
  constraint that passes the three tests to the norm of its coefficients on the target
  variables. The constraint object is represented by its key in \<open>_cons_dict\<close>.
\<close>

fun find_constraints ::
  "cons_kind list \<Rightarrow> cons_kind list \<Rightarrow> var option list \<Rightarrow> (cons_name \<times> constraint) list
     \<Rightarrow> (cons_name \<times> real) list" where
  "find_constraints incl excl vars [] = []"
| "find_constraints incl excl vars ((n, cons) # rest) =
     (if c_kind cons \<in> set excl \<or> c_kind cons \<notin> set incl
        then find_constraints incl excl vars rest
      else if \<not> is_inequality cons
        then find_constraints incl excl vars rest
      else if var_intersection (c_expr cons) vars = []
        then find_constraints incl excl vars rest
      else (n, norm2 (map (coeff (c_expr cons)) (var_intersection (c_expr cons) vars)))
             # find_constraints incl excl vars rest)"

text \<open>
  What \<open>chebyshev_center\<close> takes from the solver and from the constraint classes, which
  are defined outside these modules: the lookup of a solver variable by name
  (\<open>new.variables.get\<close>); the solver run behind \<open>optimize\<close>, which gives the primal values
  or raises; \<open>model.copy()\<close>, which rebuilds a model from a clone of the solver state
  (\<open>self.solver.clone\<close>) and either gives the new model or raises; and whether
  \<open>cons.change_expr\<close> raises. \<open>change_expr\<close> replaces the expression of a constraint in the
  solver under the name of the constraint, and the solver refuses that, with
  \<open>ContainerAlreadyContains\<close>, when the name is also that of a variable: a
  \<open>ForwardDeltaGCoupling\<close> constraint is named \<open>FU_\<close> and a \<open>BackwardDeltaGCoupling\<close>
  constraint \<open>BU_\<close> followed by the id of the reaction (comments of lines 494 and 502 of
  \<open>tmodel.py\<close>), as the two use variables of the reaction are.
\<close>

record solver =
  variables_get :: "thermo_model \<Rightarrow> string \<Rightarrow> var option"
  solver_optimize :: "thermo_model \<Rightarrow> error + (var \<Rightarrow> real)"
  model_copy :: "thermo_model \<Rightarrow> error + thermo_model"
  change_expr_raises :: "thermo_model \<Rightarrow> constraint \<Rightarrow> error option"

definition change_expr :: "solver \<Rightarrow> thermo_model \<Rightarrow> constraint \<Rightarrow> expr \<Rightarrow> error + constraint" where
  "change_expr sv m cons new_expr =
     (case change_expr_raises sv m cons of
        Some e \<Rightarrow> Inl e
      | None \<Rightarrow> Inr (cons\<lparr>c_expr := new_expr\<rparr>))"

text \<open>The body of the second loop (lines 105 to 114).\<close>

definition edit_constraint ::
  "solver \<Rightarrow> thermo_model \<Rightarrow> var \<Rightarrow> real \<Rightarrow> constraint \<Rightarrow> error + constraint" where
  "edit_constraint sv m r a_sq cons =
     change_expr sv m cons
       (if c_lb cons = None then c_expr cons @ [(r, a_sq)]
        else if c_ub cons = None then c_expr cons @ [(r, - a_sq)]
        else c_expr cons)"

text \<open>
  The second loop (lines 103 to 114), over the items of \<open>cons_to_edit\<close>; it stops at the
  first \<open>change_expr\<close> that raises. Every key of \<open>cons_to_edit\<close> is a constraint of
  \<open>_cons_dict\<close>.
\<close>

fun edit_constraints ::
  "solver \<Rightarrow> thermo_model \<Rightarrow> var \<Rightarrow> (cons_name \<times> real) list \<Rightarrow> (cons_name \<times> constraint) list
     \<Rightarrow> error + (cons_name \<times> constraint) list" where
  "edit_constraints sv m r [] cd = Inr cd"
| "edit_constraints sv m r ((n, a_sq) # rest) cd =
     (case map_of cd n of
        None \<Rightarrow> edit_constraints sv m r rest cd
      | Some cons \<Rightarrow>
          (case edit_constraint sv m r a_sq cons of
             Inl e \<Rightarrow> Inl e
           | Inr cons' \<Rightarrow> edit_constraints sv m r rest (AList.update n cons' cd)))"

text \<open>
  Steps 0 to 3 of \<open>chebyshev_center\<close> (lines 66 to 114) on the model \<open>new\<close>: the radius
  variable is added with \<open>id_='radius', lb=0, ub=big_m\<close>, then the two loops run.
\<close>

definition chebyshev_reformulation ::
  "solver \<Rightarrow> thermo_model \<Rightarrow> var option list \<Rightarrow> real \<Rightarrow> cons_kind list \<Rightarrow> cons_kind list
     \<Rightarrow> error + (variable \<times> thermo_model)" where
  "chebyshev_reformulation sv new vars big_m incl excl =
     (let (r, new1) = add_variable new ChebyshevRadius ''radius'' (Some 0) (Some big_m);
          cons_to_edit = find_constraints incl excl vars (cons_dict new1)
      in case edit_constraints sv new1 (variable_of r) cons_to_edit (cons_dict new1) of
           Inl e \<Rightarrow> Inl e
         | Inr cd \<Rightarrow> Inr (r, new1\<lparr>cons_dict := cd\<rparr>))"

text \<open>The argument \<open>variables\<close>: a list of names or a list of pyTFA variables.\<close>

datatype variables_arg = Names "string list" | GenericVariables "variable list"

definition resolve_variables :: "solver \<Rightarrow> thermo_model \<Rightarrow> variables_arg \<Rightarrow> error + var option list" where
  "resolve_variables sv new variables =
     (case variables of
        Names [] \<Rightarrow> Inl IndexError
      | GenericVariables [] \<Rightarrow> Inl IndexError
      | Names xs \<Rightarrow> Inr (map (variables_get sv new) xs)
      | GenericVariables xs \<Rightarrow> Inr (map (\<lambda>x. Some (variable_of x)) xs))"

text \<open>
  The dict \<open>{k.name: k.primal for k in vars}\<close>; an entry \<open>None\<close> of \<open>vars\<close> has no
  attribute \<open>name\<close>.
\<close>

fun var_values :: "(var \<Rightarrow> real) \<Rightarrow> var option list \<Rightarrow> (var \<times> real) list \<Rightarrow> error + (var \<times> real) list" where
  "var_values sol [] acc = Inr acc"
| "var_values sol (None # ks) acc = Inl AttributeError"
| "var_values sol (Some k # ks) acc = var_values sol ks (AList.update k (sol k) acc)"

text \<open>
  \<open>chebyshev_center\<close>. The radius variable is created with \<open>hook=model\<close>, the model the
  function was given: with \<open>inplace\<close> that is the model \<open>new\<close> that is optimised, and without
  it the solver variable of the radius does not belong to the copy \<open>new\<close>, so that reading
  its primal value on line 144 raises \<open>AttributeError\<close>. The module never imports or defines
  \<open>warn\<close>, so the call on line 146 raises \<open>NameError\<close>. The result is the series of centre
  values together with the model \<open>new\<close> the function has worked on.
\<close>

definition chebyshev_center ::
  "solver \<Rightarrow> thermo_model \<Rightarrow> variables_arg \<Rightarrow> bool \<Rightarrow> real \<Rightarrow> cons_kind list \<Rightarrow> cons_kind list
     \<Rightarrow> error + ((var \<times> real) list \<times> thermo_model)" where
  "chebyshev_center sv model variables inplace big_m incl excl =
     (case (if \<not> inplace
            then (case model_copy sv model of
                    Inl e \<Rightarrow> Inl e
                  | Inr new \<Rightarrow> (case solver_optimize sv new of Inl e \<Rightarrow> Inl e | Inr _ \<Rightarrow> Inr new))
            else Inr model) of
        Inl e \<Rightarrow> Inl e
      | Inr new \<Rightarrow>
     (case resolve_variables sv new variables of
        Inl e \<Rightarrow> Inl e
      | Inr vars \<Rightarrow>
     (case chebyshev_reformulation sv new vars big_m incl excl of
        Inl e \<Rightarrow> Inl e
      | Inr (r, new2) \<Rightarrow>
     (let new3 = new2\<lparr>objective_direction := ''max'', objective := Some (variable_of r)\<rparr>
      in case solver_optimize sv new3 of
           Inl e \<Rightarrow> Inl e
         | Inr sol \<Rightarrow>
             if \<not> inplace then Inl AttributeError
             else
             (case v_ub r of
                None \<Rightarrow> Inl TypeError
              | Some ub \<Rightarrow>
                  if ub - sol (variable_of r) \<le> tol_optimality new3
                  then Inl NameError
                  else (case var_values sol vars [] of
                          Inl e \<Rightarrow> Inl e
                        | Inr series \<Rightarrow> Inr (series, new3)))))))"

section \<open>\<open>core/tmodel.py\<close>: \<open>prepare\<close>\<close>

text \<open>
  The functions of \<open>core.thermo\<close> and \<open>core.utils\<close> that \<open>tmodel.py\<close> calls. They are
  parameters: each takes the metabolites of the model (through which a reaction reaches
  its metabolite objects) and the reaction. \<open>check_reaction_balance\<close> is given the proton of
  the compartment to balance the reaction with, and may add protons to the reaction: it
  gives its result together with the stoichiometry of the reaction after the call.
  \<open>calcDGtpt_rhs\<close> gives \<open>rhs\<close> and \<open>breakdown['sum_deltaGFis']\<close>, \<open>calcDGR_cues\<close> the second
  component of its result.
\<close>

record transported =
  t_coeff :: real
  t_reactant :: metabolite
  t_product :: metabolite

record thermo_lib =
  MetaboliteThermo ::
    "compound option \<Rightarrow> real \<Rightarrow> real \<Rightarrow> real \<Rightarrow> real \<Rightarrow> real \<Rightarrow> real \<Rightarrow> string \<Rightarrow> met_thermo"
  check_reaction_balance ::
    "metabolite list \<Rightarrow> reaction \<Rightarrow> metabolite option \<Rightarrow> string \<times> (string \<times> real) list"
  check_transport_reaction :: "metabolite list \<Rightarrow> reaction \<Rightarrow> bool"
  find_transported_mets :: "metabolite list \<Rightarrow> reaction \<Rightarrow> (string \<times> transported) list"
  calcDGtpt_rhs :: "metabolite list \<Rightarrow> reaction \<Rightarrow> real \<times> real"
  calcDGR_cues :: "metabolite list \<Rightarrow> reaction \<Rightarrow> real"

definition prepare_metabolite :: "thermo_lib \<Rightarrow> thermo_model \<Rightarrow> metabolite \<Rightarrow> error + metabolite" where
  "prepare_metabolite lib m met =
     (case compartments m (met_compartment met) of
        None \<Rightarrow> Inl CompartmentNotFound
      | Some cpt \<Rightarrow>
          (case seed_id met of
             None \<Rightarrow> Inl SeedIdMissing
           | Some sid \<Rightarrow>
               Inr (met\<lparr>met_thermo := Some (MetaboliteThermo lib (compounds_data m sid)
                      (pH cpt) (ionicStr cpt) (TEMPERATURE m) (MIN_pH m) (MAX_pH m)
                      (Debye_Huckel_B m) (thermo_unit m))\<rparr>)))"

fun prepare_metabolites :: "thermo_lib \<Rightarrow> thermo_model \<Rightarrow> metabolite list \<Rightarrow> error + metabolite list" where
  "prepare_metabolites lib m [] = Inr []"
| "prepare_metabolites lib m (met # mets) =
     (case prepare_metabolite lib m met of
        Inl e \<Rightarrow> Inl e
      | Inr met' \<Rightarrow>
          (case prepare_metabolites lib m mets of
             Inl e \<Rightarrow> Inl e
           | Inr mets' \<Rightarrow> Inr (met' # mets')))"

text \<open>The loop of \<open>prepare\<close> that fills the dict \<open>proton\<close> (lines 263 to 269).\<close>

fun find_protons :: "metabolite list \<Rightarrow> (string \<times> metabolite) list \<Rightarrow> (string \<times> metabolite) list" where
  "find_protons [] proton = proton"
| "find_protons (met # mets) proton =
     find_protons mets
       (if formula met = ''H'' \<or> seed_id met = Some ''cpd00067''
        then AList.update (met_compartment met) met proton
        else proton)"

text \<open>
  The metabolite objects of a reaction, found by id among the metabolites of the model.
  A reaction of a model holds metabolites of that model only; an id that belongs to no
  metabolite has no counterpart in the source and is reported as \<open>KeyError\<close>.
\<close>

definition get_by_id :: "metabolite list \<Rightarrow> string \<Rightarrow> metabolite option" where
  "get_by_id mets i = find (\<lambda>met. met_id met = i) mets"

fun reaction_metabolites :: "metabolite list \<Rightarrow> (string \<times> real) list \<Rightarrow> error + (metabolite \<times> real) list" where
  "reaction_metabolites mets [] = Inr []"
| "reaction_metabolites mets ((i, v) # rest) =
     (case get_by_id mets i of
        None \<Rightarrow> Inl KeyError
      | Some met \<Rightarrow>
          (case reaction_metabolites mets rest of
             Inl e \<Rightarrow> Inl e
           | Inr ms \<Rightarrow> Inr ((met, v) # ms)))"

text \<open>Lines 170 to 175: the compartment of the reaction.\<close>

fun reaction_compartment :: "(metabolite \<times> real) list \<Rightarrow> string option \<Rightarrow> string option" where
  "reaction_compartment [] c = c"
| "reaction_compartment ((met, v) # rest) c =
     reaction_compartment rest
       (if c = None then Some (met_compartment met)
        else if Some (met_compartment met) \<noteq> c then Some ''c''
        else c)"

text \<open>Lines 187 to 192: the loop with \<open>break\<close> that computes \<open>correctThermoValues\<close>.\<close>

fun correctThermoValues :: "numerics \<Rightarrow> (metabolite \<times> real) list \<Rightarrow> error + bool" where
  "correctThermoValues num [] = Inr True"
| "correctThermoValues num ((met, v) # rest) =
     (case met_thermo met of
        None \<Rightarrow> Inl AttributeError
      | Some th \<Rightarrow>
          if deltaGf_std th > 0.9 * BIGM_DG num then Inr False
          else correctThermoValues num rest)"

text \<open>Lines 217 to 224: the sum \<open>DeltaGrxn\<close> of a reaction that is not a transport.\<close>

fun DeltaGrxn_sum :: "(metabolite \<times> real) list \<Rightarrow> real \<Rightarrow> error + real" where
  "DeltaGrxn_sum [] acc = Inr acc"
| "DeltaGrxn_sum ((met, v) # rest) acc =
     (if formula met \<noteq> ''H'' \<or> (seed_id met \<noteq> None \<and> seed_id met \<noteq> Some ''cpd00067'')
      then (case met_thermo met of
              None \<Rightarrow> Inl AttributeError
            | Some th \<Rightarrow> DeltaGrxn_sum rest (acc + v * deltaGf_tr th))
      else DeltaGrxn_sum rest acc)"

text \<open>
  Lines 167 to 175: the reaction as the balance check receives it, with
  \<open>thermo = {'isTrans': False}\<close> and its compartment set.
\<close>

definition reaction_start :: "(metabolite \<times> real) list \<Rightarrow> reaction \<Rightarrow> reaction" where
  "reaction_start mets reaction =
     reaction\<lparr>rxn_thermo := Some \<lparr>isTrans = Some False, computed = None, deltaGR = None,
                                    deltaGRerr = None, deltaGrxn = None\<rparr>,
              rxn_compartment := reaction_compartment mets None\<rparr>"

text \<open>
  \<open>_prepare_reaction\<close>. \<open>NotDrain\<close> (lines 161 to 164) and the compartment (lines 170 to
  175) are computed from the metabolites the reaction has on entry. The balance check of
  line 179 is given the proton of the compartment if there is one, and leaves the reaction
  with the stoichiometry \<open>stoich\<close>; everything after it (the transport check, the loop of
  lines 189 to 192, \<open>len(reaction.metabolites)\<close> on line 196, the sum of lines 217 to 224)
  reads the metabolites of the reaction as they are then.
\<close>

definition prepare_reaction :: "thermo_lib \<Rightarrow> numerics \<Rightarrow> thermo_model \<Rightarrow> reaction \<Rightarrow> error + reaction" where
  "prepare_reaction lib num m reaction =
     (case reaction_metabolites (metabolites m) (rxn_metabolites reaction) of
        Inl e \<Rightarrow> Inl e
      | Inr mets0 \<Rightarrow>
     (let NotDrain = (length (rxn_metabolites reaction) \<noteq> 1);
          reaction0 = reaction_start mets0 reaction;
          (balanceResult, stoich) =
             check_reaction_balance lib (metabolites m) reaction0
               (case rxn_compartment reaction0 of
                  None \<Rightarrow> None
                | Some c \<Rightarrow> map_of (proton_of m) c);
          reaction1 = reaction0\<lparr>rxn_metabolites := stoich\<rparr>;
          th1 = \<lparr>isTrans = Some (check_transport_reaction lib (metabolites m) reaction1),
                 computed = None, deltaGR = None, deltaGRerr = None, deltaGrxn = None\<rparr>
      in case reaction_metabolites (metabolites m) stoich of
           Inl e \<Rightarrow> Inl e
         | Inr mets \<Rightarrow>
        (case correctThermoValues num mets of
           Inl e \<Rightarrow> Inl e
         | Inr correct \<Rightarrow>
             if \<not> NotDrain \<or> \<not> correct \<or> length stoich \<ge> 100
                \<or> balanceResult \<in> set [''missing atoms'', ''drain flux'']
             then Inr (reaction1\<lparr>rxn_thermo := Some (th1
                    \<lparr>computed := Some False, deltaGR := Some (BIGM_DG num),
                     deltaGRerr := Some (BIGM_DG num)\<rparr>)\<rparr>)
             else
               (let th2 = th1\<lparr>computed := Some True\<rparr>
                in case (if isTrans th2 = Some True
                         then (let (rhs, sum_deltaGFis) =
                                     calcDGtpt_rhs lib (metabolites m) (reaction1\<lparr>rxn_thermo := Some th2\<rparr>)
                               in Inr (th2\<lparr>deltaGR := Some rhs, deltaGrxn := Some sum_deltaGFis\<rparr>))
                         else (case DeltaGrxn_sum mets 0 of
                                 Inl e \<Rightarrow> Inl e
                               | Inr DeltaGrxn \<Rightarrow> Inr (th2\<lparr>deltaGR := Some DeltaGrxn\<rparr>))) of
                     Inl e \<Rightarrow> Inl e
                   | Inr th3 \<Rightarrow>
                       (let DeltaGRerr = calcDGR_cues lib (metabolites m) (reaction1\<lparr>rxn_thermo := Some th3\<rparr>)
                        in Inr (reaction1\<lparr>rxn_thermo := Some (th3
                              \<lparr>deltaGRerr := Some (if DeltaGRerr = 0 then 2 else DeltaGRerr)\<rparr>)\<rparr>))))))"

fun prepare_reactions :: "thermo_lib \<Rightarrow> numerics \<Rightarrow> thermo_model \<Rightarrow> reaction list \<Rightarrow> error + reaction list" where
  "prepare_reactions lib num m [] = Inr []"
| "prepare_reactions lib num m (reaction # rest) =
     (case prepare_reaction lib num m reaction of
        Inl e \<Rightarrow> Inl e
      | Inr reaction' \<Rightarrow>
          (case prepare_reactions lib num m rest of
             Inl e \<Rightarrow> Inl e
           | Inr rest' \<Rightarrow> Inr (reaction' # rest')))"

definition prepare :: "thermo_lib \<Rightarrow> numerics \<Rightarrow> thermo_model \<Rightarrow> error + thermo_model" where
  "prepare lib num m =
     (case prepare_metabolites lib m (metabolites m) of
        Inl e \<Rightarrow> Inl e
      | Inr mets \<Rightarrow>
          (let m1 = m\<lparr>metabolites := mets\<rparr>;
               proton = find_protons mets []
           in if length proton = 0 then Inl CannotFindProton
              else (let m2 = m1\<lparr>proton_of := proton\<rparr>
                    in case prepare_reactions lib num m2 (reactions m2) of
                         Inl e \<Rightarrow> Inl e
                       | Inr rs \<Rightarrow> Inr (m2\<lparr>reactions := rs\<rparr>))))"

section \<open>\<open>core/tmodel.py\<close>: \<open>convert\<close>\<close>

text \<open>
  \<open>_convert_metabolite\<close>. The values read before the branches are read in the order of
  the source: \<open>met.thermo\<close>, the compartment, and the two logarithms, where \<open>math.log\<close>
  raises \<open>ValueError\<close> on a value that is not positive. With \<open>add_potentials\<close>, line 331
  calls \<open>add_variable\<close> with three positional arguments, which its signature
  \<open>(self, kind, hook, **kwargs)\<close> rejects with \<open>TypeError\<close>; nothing ever enters \<open>P_vars\<close>.
\<close>

definition convert_metabolite :: "numerics \<Rightarrow> thermo_model \<Rightarrow> metabolite \<Rightarrow> bool \<Rightarrow> error + thermo_model" where
  "convert_metabolite num m met add_potentials =
     (case met_thermo met of
        None \<Rightarrow> Inl AttributeError
      | Some th \<Rightarrow>
     (case compartments m (met_compartment met) of
        None \<Rightarrow> Inl KeyError
      | Some cpt \<Rightarrow>
          if c_min cpt \<le> 0 \<or> c_max cpt \<le> 0 then Inl ValueError
          else
            (let metformula = formula met;
                 metDeltaGF = deltaGf_tr th;
                 metLConc_lb = ln (c_min cpt);
                 metLConc_ub = ln (c_max cpt);
                 Comp_pH = pH cpt
             in if metformula = ''H2O''
                then (let (LC, m') = add_variable m LogConcentration (met_id met) (Some 0) (Some 0)
                      in Inr (m'\<lparr>LC_vars := (LC_vars m')(met_id met \<mapsto> LC)\<rparr>))
                else if metformula = ''H''
                then (let (LC, m') = add_variable m LogConcentration (met_id met)
                                       (Some (ln (10 powr (- Comp_pH))))
                                       (Some (ln (10 powr (- Comp_pH))))
                      in Inr (m'\<lparr>LC_vars := (LC_vars m')(met_id met \<mapsto> LC)\<rparr>))
                else if seed_id met = Some ''cpd11416''
                then Inr m
                else if metDeltaGF < 10 ^ 6
                then (let (LC, m') = add_variable m LogConcentration (met_id met)
                                       (Some metLConc_lb) (Some metLConc_ub)
                      in if add_potentials then Inl TypeError
                         else Inr (m'\<lparr>LC_vars := (LC_vars m')(met_id met \<mapsto> LC)\<rparr>))
                else Inr m)))"

text \<open>\<open>Reaction.reactants\<close> of cobra: the metabolites with a negative coefficient.\<close>

definition reactants :: "reaction \<Rightarrow> string list" where
  "reactants rxn = map fst (filter (\<lambda>kv. snd kv < 0) (rxn_metabolites rxn))"

text \<open>Lines 370 to 373: is the reaction a water transport?\<close>

definition H2OtRxns :: "metabolite list \<Rightarrow> reaction \<Rightarrow> error + bool" where
  "H2OtRxns mets rxn =
     (case rxn_thermo rxn of
        None \<Rightarrow> Inl AttributeError
      | Some th \<Rightarrow>
     (case isTrans th of
        None \<Rightarrow> Inl KeyError
      | Some tr \<Rightarrow>
          if tr \<and> length (reactants rxn) = 1
          then (case reactants rxn of
                  [] \<Rightarrow> Inr False
                | i # _ \<Rightarrow>
                    (case get_by_id mets i of
                       None \<Rightarrow> Inl KeyError
                     | Some met \<Rightarrow>
                         (case seed_id met of
                            None \<Rightarrow> Inl KeyError
                          | Some sid \<Rightarrow> Inr (sid = ''cpd00001''))))
          else Inr False))"

text \<open>
  Lines 418 to 428: the body of the loop over \<open>['reactant', 'product']\<close> for one transported
  metabolite. \<open>LC_vars\<close> and \<open>chem_stoich\<close> are keyed by metabolite, here by its id.
  The loops read \<open>self.LC_vars\<close>, \<open>self.P_vars\<close>, \<open>self.RT\<close> and the metabolites of the
  model; these are passed as arguments \<open>lc\<close>, \<open>pv\<close>, \<open>rt\<close> and \<open>mets\<close>.
\<close>

definition transport_type ::
  "(string \<rightharpoonup> variable) \<Rightarrow> real \<Rightarrow> transported \<Rightarrow> bool \<Rightarrow> expr \<times> (string \<times> real) list
     \<Rightarrow> error + (expr \<times> (string \<times> real) list)" where
  "transport_type lc rt tmet is_reactant acc =
     (let (LC_TransMet, chem_stoich) = acc;
          met = (if is_reactant then t_reactant tmet else t_product tmet)
      in case (if formula met \<noteq> ''H''
               then (case lc (met_id met) of
                       None \<Rightarrow> Inl KeyError
                     | Some LC \<Rightarrow>
                         Inr (LC_TransMet @
                           [(variable_of LC, rt * t_coeff tmet * (if is_reactant then - 1 else 1))]))
               else Inr LC_TransMet) of
           Inl e \<Rightarrow> Inl e
         | Inr LC_TransMet' \<Rightarrow>
             (case map_of chem_stoich (met_id met) of
                None \<Rightarrow> Inl KeyError
              | Some v \<Rightarrow>
                  Inr (LC_TransMet',
                       AList.update (met_id met)
                         (v + t_coeff tmet * (if is_reactant then 1 else - 1)) chem_stoich)))"

fun transport_terms ::
  "(string \<rightharpoonup> variable) \<Rightarrow> real \<Rightarrow> (string \<times> transported) list \<Rightarrow> expr \<times> (string \<times> real) list
     \<Rightarrow> error + (expr \<times> (string \<times> real) list)" where
  "transport_terms lc rt [] acc = Inr acc"
| "transport_terms lc rt ((sid, tmet) # rest) acc =
     (case transport_type lc rt tmet True acc of
        Inl e \<Rightarrow> Inl e
      | Inr acc1 \<Rightarrow>
          (case transport_type lc rt tmet False acc1 of
             Inl e \<Rightarrow> Inl e
           | Inr acc2 \<Rightarrow> transport_terms lc rt rest acc2))"

text \<open>
  The loops of lines 434 to 437 and of lines 456 to 463, which have the same body: the
  term \<open>LC_vars[met] * RT * coefficient\<close> for every metabolite that is neither \<open>H\<close> nor \<open>H2O\<close>.
\<close>

fun chem_terms ::
  "metabolite list \<Rightarrow> (string \<rightharpoonup> variable) \<Rightarrow> real \<Rightarrow> (string \<times> real) list \<Rightarrow> expr \<Rightarrow> error + expr" where
  "chem_terms mets lc rt [] LC_ChemMet = Inr LC_ChemMet"
| "chem_terms mets lc rt ((i, v) # rest) LC_ChemMet =
     (case get_by_id mets i of
        None \<Rightarrow> Inl KeyError
      | Some met \<Rightarrow>
          if formula met \<notin> set [''H'', ''H2O'']
          then (case lc i of
                  None \<Rightarrow> Inl KeyError
                | Some LC \<Rightarrow> chem_terms mets lc rt rest (LC_ChemMet @ [(variable_of LC, rt * v)]))
          else chem_terms mets lc rt rest LC_ChemMet)"

text \<open>
  Lines 442 to 451, the loop under \<open>add_potentials\<close>. It builds \<open>P_expr\<close> (and \<open>RHS_DG\<close>, a
  number that nothing reads afterwards).
\<close>

fun potential_terms ::
  "metabolite list \<Rightarrow> (string \<rightharpoonup> variable) \<Rightarrow> (string \<times> real) list \<Rightarrow> expr \<Rightarrow> error + expr" where
  "potential_terms mets pv [] P_expr = Inr P_expr"
| "potential_terms mets pv ((i, v) # rest) P_expr =
     (case get_by_id mets i of
        None \<Rightarrow> Inl KeyError
      | Some met \<Rightarrow>
          (case met_thermo met of
             None \<Rightarrow> Inl AttributeError
           | Some th \<Rightarrow>
               if formula met = ''H2O'' then potential_terms mets pv rest P_expr
               else if formula met \<noteq> ''H''
               then (case pv i of
                       None \<Rightarrow> Inl KeyError
                     | Some P \<Rightarrow> potential_terms mets pv rest (P_expr @ [(variable_of P, v)]))
               else potential_terms mets pv rest P_expr))"

text \<open>
  Lines 400 to 463: \<open>LC_TransMet\<close> and \<open>LC_ChemMet\<close>. \<open>P_expr\<close> is built and then left out
  of the constraint, as in the source.
\<close>

definition energy_terms ::
  "thermo_lib \<Rightarrow> metabolite list \<Rightarrow> (string \<rightharpoonup> variable) \<Rightarrow> (string \<rightharpoonup> variable) \<Rightarrow> real
     \<Rightarrow> reaction \<Rightarrow> bool \<Rightarrow> bool \<Rightarrow> error + (expr \<times> expr)" where
  "energy_terms lib mets lc pv rt rxn add_potentials tr =
     (if tr
      then (case transport_terms lc rt (find_transported_mets lib mets rxn)
                   ([], rxn_metabolites rxn) of
              Inl e \<Rightarrow> Inl e
            | Inr (LC_TransMet, chem_stoich) \<Rightarrow>
                (case chem_terms mets lc rt (filter (\<lambda>kv. snd kv \<noteq> 0) chem_stoich) [] of
                   Inl e \<Rightarrow> Inl e
                 | Inr LC_ChemMet \<Rightarrow> Inr (LC_TransMet, LC_ChemMet)))
      else if add_potentials
      then (case potential_terms mets pv (rxn_metabolites rxn) [] of
              Inl e \<Rightarrow> Inl e
            | Inr P_expr \<Rightarrow> Inr ([], []))
      else (case chem_terms mets lc rt (rxn_metabolites rxn) [] of
              Inl e \<Rightarrow> Inl e
            | Inr LC_ChemMet \<Rightarrow> Inr ([], LC_ChemMet)))"

text \<open>
  Lines 384 to 509, the branch of \<open>_convert_reaction\<close> that adds the thermodynamic
  constraints; it gives \<open>FU_rxn\<close>, \<open>BU_rxn\<close> and the model. \<open>1/RT\<close> raises
  \<open>ZeroDivisionError\<close> when \<open>RT\<close> is zero.
\<close>

definition thermo_constraints ::
  "thermo_lib \<Rightarrow> numerics \<Rightarrow> thermo_model \<Rightarrow> reaction \<Rightarrow> rxn_thermo \<Rightarrow> bool \<Rightarrow> bool
     \<Rightarrow> error + (variable \<times> variable \<times> thermo_model)" where
  "thermo_constraints lib num m rxn th add_potentials add_displacement =
     (let DGR_lb = - BIGM_THERMO num;
          DGR_ub = BIGM_THERMO num;
          epsilon = tol_feasibility m;
          (DGR, m1) = add_variable m DeltaG (rxn_id rxn) (Some DGR_lb) (Some DGR_ub)
      in case deltaGRerr th of
           None \<Rightarrow> Inl KeyError
         | Some RxnDGerror \<Rightarrow>
        (case deltaGR th of
           None \<Rightarrow> Inl KeyError
         | Some dGR \<Rightarrow>
        (let (DGoR, m2) = add_variable m1 DeltaGstd (rxn_id rxn)
                            (Some (dGR - RxnDGerror)) (Some (dGR + RxnDGerror))
         in case isTrans th of
              None \<Rightarrow> Inl KeyError
            | Some tr \<Rightarrow>
           (case energy_terms lib (metabolites m2) (LC_vars m2) (P_vars m2) (RT m2) rxn add_potentials tr of
              Inl e \<Rightarrow> Inl e
            | Inr (LC_TransMet, LC_ChemMet) \<Rightarrow>
           (let m3 = add_constraint m2 NegativeDeltaG (rxn_id rxn)
                       ([(variable_of DGoR, 1), (variable_of DGR, - 1)] @ LC_TransMet @ LC_ChemMet)
                       (Some 0) (Some 0)
            in case (if add_displacement
                     then (let (lngamma, m4) = add_variable m3 ThermoDisplacement (rxn_id rxn)
                                                 (Some (- BIGM_P num)) (Some (BIGM_P num))
                           in if RT m4 = 0 then Inl ZeroDivisionError
                              else Inr (add_constraint m4 DisplacementCoupling (rxn_id rxn)
                                          [(variable_of lngamma, 1), (variable_of DGR, - (1 / RT m4))]
                                          (Some 0) (Some 0)))
                     else Inr m3) of
                 Inl e \<Rightarrow> Inl e
               | Inr m5 \<Rightarrow>
                   (let (FU_rxn, m6) = add_variable m5 ForwardUseVariable (rxn_id rxn) None None;
                        m7 = add_constraint m6 ForwardDeltaGCoupling (rxn_id rxn)
                               [(variable_of DGR, 1), (variable_of FU_rxn, BIGM_THERMO num)]
                               None (Some (BIGM_THERMO num - epsilon));
                        (BU_rxn, m8) = add_variable m7 BackwardUseVariable (rxn_id rxn) None None;
                        m9 = add_constraint m8 BackwardDeltaGCoupling (rxn_id rxn)
                               [(variable_of BU_rxn, BIGM_THERMO num), (variable_of DGR, - 1)]
                               None (Some (BIGM_THERMO num - epsilon))
                    in Inr (FU_rxn, BU_rxn, m9)))))))"

definition convert_reaction ::
  "thermo_lib \<Rightarrow> numerics \<Rightarrow> thermo_model \<Rightarrow> reaction \<Rightarrow> bool \<Rightarrow> bool \<Rightarrow> error + thermo_model" where
  "convert_reaction lib num m rxn add_potentials add_displacement =
     (case H2OtRxns (metabolites m) rxn of
        Inl e \<Rightarrow> Inl e
      | Inr h2ot \<Rightarrow>
     (case rxn_thermo rxn of
        None \<Rightarrow> Inl AttributeError
      | Some th \<Rightarrow>
     (case computed th of
        None \<Rightarrow> Inl KeyError
      | Some cmp \<Rightarrow>
     (case (if cmp \<and> \<not> h2ot
            then thermo_constraints lib num m rxn th add_potentials add_displacement
            else (let (FU_rxn, m1) = add_variable m ForwardUseVariable (rxn_id rxn) None None;
                      (BU_rxn, m2) = add_variable m1 BackwardUseVariable (rxn_id rxn) None None
                  in Inr (FU_rxn, BU_rxn, m2))) of
        Inl e \<Rightarrow> Inl e
      | Inr (FU_rxn, BU_rxn, m') \<Rightarrow>
          (let m1 = add_constraint m' SimultaneousUse (rxn_id rxn)
                      [(variable_of FU_rxn, 1), (variable_of BU_rxn, 1)] (Some 0) (Some 1);
               m2 = add_constraint m1 ForwardDirectionCoupling (rxn_id rxn)
                      [(forward_variable (rxn_id rxn), 1), (variable_of FU_rxn, - BIGM num)]
                      None (Some 0);
               m3 = add_constraint m2 BackwardDirectionCoupling (rxn_id rxn)
                      [(reverse_variable (rxn_id rxn), 1), (variable_of BU_rxn, - BIGM num)]
                      None (Some 0)
           in Inr m3)))))"

text \<open>The loops of \<open>convert\<close>.\<close>

fun check_bounds :: "real \<Rightarrow> reaction list \<Rightarrow> error + unit" where
  "check_bounds bigM [] = Inr ()"
| "check_bounds bigM (reaction # rest) =
     (if lower_bound reaction < - bigM \<or> upper_bound reaction > bigM
      then Inl FluxBoundsTooWide
      else check_bounds bigM rest)"

text \<open>
  Lines 574 to 581. Inside the \<open>try\<close>, a reaction without the attribute \<open>thermo\<close> raises,
  and the bare \<open>except\<close> turns that into the exception of line 580.
\<close>

fun check_isTrans :: "thermo_lib \<Rightarrow> metabolite list \<Rightarrow> reaction list \<Rightarrow> error + reaction list" where
  "check_isTrans lib mets [] = Inr []"
| "check_isTrans lib mets (reaction # rest) =
     (case rxn_thermo reaction of
        None \<Rightarrow> Inl ThermoDataMissing
      | Some th \<Rightarrow>
          (case check_isTrans lib mets rest of
             Inl e \<Rightarrow> Inl e
           | Inr rest' \<Rightarrow>
               Inr ((if isTrans th = None
                     then reaction\<lparr>rxn_thermo :=
                            Some (th\<lparr>isTrans := Some (check_transport_reaction lib mets reaction)\<rparr>)\<rparr>
                     else reaction) # rest')))"

text \<open>Lines 585 to 592: \<open>[\<close> and \<open>(\<close> become \<open>_\<close>, then \<open>]\<close> and \<open>)\<close> are removed.\<close>

definition replacements :: "string \<Rightarrow> string" where
  "replacements name =
     filter (\<lambda>c. c \<noteq> CHR '']'' \<and> c \<noteq> CHR '')'')
       (map (\<lambda>c. if c = CHR ''['' \<or> c = CHR ''('' then CHR ''_'' else c) name)"

fun convert_metabolites :: "numerics \<Rightarrow> thermo_model \<Rightarrow> metabolite list \<Rightarrow> bool \<Rightarrow> error + thermo_model" where
  "convert_metabolites num m [] add_potentials = Inr m"
| "convert_metabolites num m (met # rest) add_potentials =
     (case convert_metabolite num m met add_potentials of
        Inl e \<Rightarrow> Inl e
      | Inr m' \<Rightarrow> convert_metabolites num m' rest add_potentials)"

fun convert_reactions ::
  "thermo_lib \<Rightarrow> numerics \<Rightarrow> thermo_model \<Rightarrow> reaction list \<Rightarrow> bool \<Rightarrow> bool \<Rightarrow> error + thermo_model" where
  "convert_reactions lib num m [] add_potentials add_displacement = Inr m"
| "convert_reactions lib num m (rxn # rest) add_potentials add_displacement =
     (case convert_reaction lib num m rxn add_potentials add_displacement of
        Inl e \<Rightarrow> Inl e
      | Inr m' \<Rightarrow> convert_reactions lib num m' rest add_potentials add_displacement)"

definition convert :: "thermo_lib \<Rightarrow> numerics \<Rightarrow> thermo_model \<Rightarrow> bool \<Rightarrow> bool \<Rightarrow> error + thermo_model" where
  "convert lib num m add_potentials add_displacement =
     (case check_bounds (BIGM num) (reactions m) of
        Inl e \<Rightarrow> Inl e
      | Inr _ \<Rightarrow>
     (case check_isTrans lib (metabolites m) (reactions m) of
        Inl e \<Rightarrow> Inl e
      | Inr rs \<Rightarrow>
     (let m1 = m\<lparr>metabolites := map (\<lambda>item. item\<lparr>met_name := replacements (met_name item)\<rparr>)
                                   (metabolites m),
                 reactions := map (\<lambda>item. item\<lparr>rxn_name := replacements (rxn_name item)\<rparr>) rs,
                 LC_vars := Map.empty,
                 P_vars := Map.empty\<rparr>
      in case convert_metabolites num m1 (metabolites m1) add_potentials of
           Inl e \<Rightarrow> Inl e
         | Inr m2 \<Rightarrow> convert_reactions lib num m2 (reactions m2) add_potentials add_displacement)))"

section \<open>Example models\<close>

text \<open>
  A registry with one open-ended constraint and one two-sided constraint, and a solver
  that reports the radius at its upper bound, as the optimum is when no constraint
  mentions the radius, and that refuses to replace the two constraints that are named as
  the use variables are.
\<close>

definition example_constraints :: "(cons_name \<times> constraint) list" where
  "example_constraints =
     [((ForwardDirectionCoupling, ''R1''),
        \<lparr>c_kind = ForwardDirectionCoupling, c_hook = ''R1'',
         c_expr = [(forward_variable ''R1'', 1), (TVar ForwardUseVariable ''R1'', - 1000)],
         c_lb = None, c_ub = Some 0\<rparr>),
      ((SimultaneousUse, ''R1''),
        \<lparr>c_kind = SimultaneousUse, c_hook = ''R1'',
         c_expr = [(TVar ForwardUseVariable ''R1'', 1), (TVar BackwardUseVariable ''R1'', 1)],
         c_lb = Some 0, c_ub = Some 1\<rparr>)]"

definition example_model :: thermo_model where
  "example_model =
     \<lparr>reactions = [], metabolites = [], compartments = Map.empty, compounds_data = Map.empty,
      thermo_unit = ''kJ/mol'', TEMPERATURE = 298, MIN_pH = 3, MAX_pH = 9, Debye_Huckel_B = 1,
      RT = 2, var_dict = [], cons_dict = example_constraints,
      LC_vars = Map.empty, P_vars = Map.empty, proton_of = [],
      objective = None, objective_direction = ''max'',
      tol_feasibility = 1 / 1000000, tol_optimality = 1 / 1000000\<rparr>"

definition example_solver :: solver where
  "example_solver =
     \<lparr>variables_get = (\<lambda>m x. if x = ''R1'' then Some (forward_variable ''R1'') else None),
      solver_optimize = (\<lambda>m. Inr (\<lambda>v. if v = TVar ChebyshevRadius ''radius'' then 1000 else 0)),
      model_copy = (\<lambda>m. Inr m),
      change_expr_raises = (\<lambda>m c.
        if c_kind c = ForwardDeltaGCoupling \<or> c_kind c = BackwardDeltaGCoupling
        then Some ContainerAlreadyContains else None)\<rparr>"

section \<open>Notions used in the statements and proofs\<close>

text \<open>The fields of the model that conversion only reads.\<close>

definition same_inputs :: "thermo_model \<Rightarrow> thermo_model \<Rightarrow> bool" where
  "same_inputs m m' \<longleftrightarrow>
     metabolites m' = metabolites m \<and> reactions m' = reactions m
     \<and> compartments m' = compartments m \<and> LC_vars m' = LC_vars m \<and> P_vars m' = P_vars m
     \<and> RT m' = RT m \<and> tol_feasibility m' = tol_feasibility m"

text \<open>Lines 525 to 539, which every reaction reaches.\<close>

definition use_constraints :: "numerics \<Rightarrow> string \<Rightarrow> (cons_name \<times> constraint) list \<Rightarrow> (cons_name \<times> constraint) list" where
  "use_constraints num i cd =
           AList.update (BackwardDirectionCoupling, i)
             \<lparr>c_kind = BackwardDirectionCoupling, c_hook = i,
              c_expr = [(reverse_variable i, 1), (TVar BackwardUseVariable i, - BIGM num)],
              c_lb = None, c_ub = Some 0\<rparr>
          (AList.update (ForwardDirectionCoupling, i)
             \<lparr>c_kind = ForwardDirectionCoupling, c_hook = i,
              c_expr = [(forward_variable i, 1), (TVar ForwardUseVariable i, - BIGM num)],
              c_lb = None, c_ub = Some 0\<rparr>
          (AList.update (SimultaneousUse, i)
             \<lparr>c_kind = SimultaneousUse, c_hook = i,
              c_expr = [(TVar ForwardUseVariable i, 1), (TVar BackwardUseVariable i, 1)],
              c_lb = Some 0, c_ub = Some 1\<rparr>
          cd))"

text \<open>
  A registry is a dict keyed by the names of its entries: the keys are distinct, and the
  key of an entry is the name (class and hook id) of the entry.
\<close>

definition vars_ok :: "(var_name \<times> variable) list \<Rightarrow> bool" where
  "vars_ok al \<longleftrightarrow> distinct (map fst al) \<and> (\<forall>p \<in> set al. fst p = var_name (snd p))"

definition cons_ok :: "(cons_name \<times> constraint) list \<Rightarrow> bool" where
  "cons_ok al \<longleftrightarrow> distinct (map fst al) \<and> (\<forall>p \<in> set al. fst p = cons_name (snd p))"

text \<open>
  What a reaction with id \<open>i\<close> leaves in the registry: the use variables and the three
  constraints on them; the \<open>DeltaG\<close> variable and its two coupling constraints; the
  displacement variable and its constraint; the \<open>DeltaGstd\<close> variable and the
  \<open>NegativeDeltaG\<close> constraint.
\<close>

definition use_emitted :: "numerics \<Rightarrow> string \<Rightarrow> thermo_model \<Rightarrow> bool" where
  "use_emitted num i m \<longleftrightarrow>
     map_of (var_dict m) (ForwardUseVariable, i)
       = Some \<lparr>v_kind = ForwardUseVariable, v_hook = i, v_lb = None, v_ub = None\<rparr>
     \<and> map_of (var_dict m) (BackwardUseVariable, i)
       = Some \<lparr>v_kind = BackwardUseVariable, v_hook = i, v_lb = None, v_ub = None\<rparr>
     \<and> map_of (cons_dict m) (SimultaneousUse, i)
       = Some \<lparr>c_kind = SimultaneousUse, c_hook = i,
               c_expr = [(TVar ForwardUseVariable i, 1), (TVar BackwardUseVariable i, 1)],
               c_lb = Some 0, c_ub = Some 1\<rparr>
     \<and> map_of (cons_dict m) (ForwardDirectionCoupling, i)
       = Some \<lparr>c_kind = ForwardDirectionCoupling, c_hook = i,
               c_expr = [(forward_variable i, 1), (TVar ForwardUseVariable i, - BIGM num)],
               c_lb = None, c_ub = Some 0\<rparr>
     \<and> map_of (cons_dict m) (BackwardDirectionCoupling, i)
       = Some \<lparr>c_kind = BackwardDirectionCoupling, c_hook = i,
               c_expr = [(reverse_variable i, 1), (TVar BackwardUseVariable i, - BIGM num)],
               c_lb = None, c_ub = Some 0\<rparr>"

definition coupling_emitted :: "numerics \<Rightarrow> real \<Rightarrow> string \<Rightarrow> thermo_model \<Rightarrow> bool" where
  "coupling_emitted num eps i m \<longleftrightarrow>
     map_of (var_dict m) (DeltaG, i)
       = Some \<lparr>v_kind = DeltaG, v_hook = i,
               v_lb = Some (- BIGM_THERMO num), v_ub = Some (BIGM_THERMO num)\<rparr>
     \<and> map_of (cons_dict m) (ForwardDeltaGCoupling, i)
       = Some \<lparr>c_kind = ForwardDeltaGCoupling, c_hook = i,
               c_expr = [(TVar DeltaG i, 1), (TVar ForwardUseVariable i, BIGM_THERMO num)],
               c_lb = None, c_ub = Some (BIGM_THERMO num - eps)\<rparr>
     \<and> map_of (cons_dict m) (BackwardDeltaGCoupling, i)
       = Some \<lparr>c_kind = BackwardDeltaGCoupling, c_hook = i,
               c_expr = [(TVar BackwardUseVariable i, BIGM_THERMO num), (TVar DeltaG i, - 1)],
               c_lb = None, c_ub = Some (BIGM_THERMO num - eps)\<rparr>"

definition displacement_emitted :: "numerics \<Rightarrow> real \<Rightarrow> string \<Rightarrow> thermo_model \<Rightarrow> bool" where
  "displacement_emitted num rt i m \<longleftrightarrow>
     map_of (var_dict m) (ThermoDisplacement, i)
       = Some \<lparr>v_kind = ThermoDisplacement, v_hook = i,
               v_lb = Some (- BIGM_P num), v_ub = Some (BIGM_P num)\<rparr>
     \<and> map_of (cons_dict m) (DisplacementCoupling, i)
       = Some \<lparr>c_kind = DisplacementCoupling, c_hook = i,
               c_expr = [(TVar ThermoDisplacement i, 1), (TVar DeltaG i, - (1 / rt))],
               c_lb = Some 0, c_ub = Some 0\<rparr>"

definition balance_emitted :: "real \<Rightarrow> real \<Rightarrow> expr \<Rightarrow> expr \<Rightarrow> string \<Rightarrow> thermo_model \<Rightarrow> bool" where
  "balance_emitted dGR err LT LC i m \<longleftrightarrow>
     map_of (var_dict m) (DeltaGstd, i)
       = Some \<lparr>v_kind = DeltaGstd, v_hook = i, v_lb = Some (dGR - err), v_ub = Some (dGR + err)\<rparr>
     \<and> map_of (cons_dict m) (NegativeDeltaG, i)
       = Some \<lparr>c_kind = NegativeDeltaG, c_hook = i,
               c_expr = [(TVar DeltaGstd i, 1), (TVar DeltaG i, - 1)] @ LT @ LC,
               c_lb = Some 0, c_ub = Some 0\<rparr>"

text \<open>The variable that \<open>_convert_metabolite\<close> creates for a metabolite, if any.\<close>

definition LC_outcome :: "metabolite \<Rightarrow> met_thermo \<Rightarrow> compartment \<Rightarrow> variable option" where
  "LC_outcome met th cpt =
     (if formula met = ''H2O''
      then Some \<lparr>v_kind = LogConcentration, v_hook = met_id met, v_lb = Some 0, v_ub = Some 0\<rparr>
      else if formula met = ''H''
      then Some \<lparr>v_kind = LogConcentration, v_hook = met_id met,
                 v_lb = Some (ln (10 powr (- pH cpt))), v_ub = Some (ln (10 powr (- pH cpt)))\<rparr>
      else if seed_id met = Some ''cpd11416'' then None
      else if deltaGf_tr th < 10 ^ 6
      then Some \<lparr>v_kind = LogConcentration, v_hook = met_id met,
                 v_lb = Some (ln (c_min cpt)), v_ub = Some (ln (c_max cpt))\<rparr>
      else None)"

text \<open>
  A toy network: a conversion of \<open>A\<close> into \<open>B\<close> with flux bounds \<open>- BIGM\<close> and \<open>BIGM\<close>, a
  drain of \<open>A\<close>, and a proton; \<open>toy_prepared\<close> is what \<open>prepare\<close> makes of \<open>toy_model\<close>.
  \<open>toy_wide\<close> has a lower bound below \<open>- BIGM\<close>, and \<open>toy_water\<close> has water that the
  database does not know.
\<close>

definition toy_num :: numerics where
  "toy_num = \<lparr>BIGM = 1000, BIGM_THERMO = 1000, BIGM_DG = 1000, BIGM_P = 1000, EPSILON = 1 / 1000000\<rparr>"

definition toy_lib :: thermo_lib where
  "toy_lib =
     \<lparr>MetaboliteThermo = (\<lambda>metData cpH cI T lo hi dh unit.
          case metData of
            None \<Rightarrow> \<lparr>deltaGf_std = 10000000, deltaGf_tr = 10000000, deltaGf_err = 10000000\<rparr>
          | Some c \<Rightarrow> \<lparr>deltaGf_std = cpd_deltaGf_std c, deltaGf_tr = cpd_deltaGf_std c,
                       deltaGf_err = cpd_error c\<rparr>),
      check_reaction_balance = (\<lambda>mets r p. (''balanced'', rxn_metabolites r)),
      check_transport_reaction = (\<lambda>mets r. False),
      find_transported_mets = (\<lambda>mets r. []),
      calcDGtpt_rhs = (\<lambda>mets r. (0, 0)),
      calcDGR_cues = (\<lambda>mets r. 0)\<rparr>"

definition toy_model :: thermo_model where
  "toy_model =
     \<lparr>reactions =
        [\<lparr>rxn_id = ''R1'', rxn_name = ''A to B'', rxn_metabolites = [(''A_c'', - 1), (''B_c'', 1)],
          lower_bound = - 1000, upper_bound = 1000, rxn_compartment = None, rxn_thermo = None\<rparr>,
         \<lparr>rxn_id = ''EX_A'', rxn_name = ''A exchange'', rxn_metabolites = [(''A_c'', - 1)],
          lower_bound = 0, upper_bound = 10, rxn_compartment = None, rxn_thermo = None\<rparr>],
      metabolites =
        [\<lparr>met_id = ''A_c'', met_name = ''A[c]'', formula = ''C6H12O6'', met_compartment = ''c'',
          seed_id = Some ''cpd00027'', met_thermo = None\<rparr>,
         \<lparr>met_id = ''B_c'', met_name = ''B[c]'', formula = ''C6H12O6'', met_compartment = ''c'',
          seed_id = Some ''cpd00082'', met_thermo = None\<rparr>,
         \<lparr>met_id = ''h_c'', met_name = ''H+[c]'', formula = ''H'', met_compartment = ''c'',
          seed_id = Some ''cpd00067'', met_thermo = None\<rparr>],
      compartments = [''c'' \<mapsto> \<lparr>pH = 7, ionicStr = 0, c_min = 1 / 100000, c_max = 1 / 100\<rparr>],
      compounds_data =
        [''cpd00027'' \<mapsto> \<lparr>cpd_deltaGf_std = - 100, cpd_formula = ''C6H12O6'', cpd_charge = 0, cpd_error = 1\<rparr>,
         ''cpd00082'' \<mapsto> \<lparr>cpd_deltaGf_std = - 120, cpd_formula = ''C6H12O6'', cpd_charge = 0, cpd_error = 1\<rparr>,
         ''cpd00067'' \<mapsto> \<lparr>cpd_deltaGf_std = 0, cpd_formula = ''H'', cpd_charge = 1, cpd_error = 0\<rparr>],
      thermo_unit = ''kJ/mol'', TEMPERATURE = 298, MIN_pH = 3, MAX_pH = 9, Debye_Huckel_B = 1,
      RT = 2, var_dict = [], cons_dict = [],
      LC_vars = Map.empty, P_vars = Map.empty, proton_of = [],
      objective = None, objective_direction = ''max'',
      tol_feasibility = 1 / 1000000, tol_optimality = 1 / 1000000\<rparr>"

definition toy_prepared :: thermo_model where
  "toy_prepared = toy_model
     \<lparr>reactions :=
        [\<lparr>rxn_id = ''R1'', rxn_name = ''A to B'', rxn_metabolites = [(''A_c'', - 1), (''B_c'', 1)],
          lower_bound = - 1000, upper_bound = 1000, rxn_compartment = Some ''c'',
          rxn_thermo = Some \<lparr>isTrans = Some False, computed = Some True, deltaGR = Some (- 20),
                              deltaGRerr = Some 2, deltaGrxn = None\<rparr>\<rparr>,
         \<lparr>rxn_id = ''EX_A'', rxn_name = ''A exchange'', rxn_metabolites = [(''A_c'', - 1)],
          lower_bound = 0, upper_bound = 10, rxn_compartment = Some ''c'',
          rxn_thermo = Some \<lparr>isTrans = Some False, computed = Some False, deltaGR = Some 1000,
                              deltaGRerr = Some 1000, deltaGrxn = None\<rparr>\<rparr>],
      metabolites :=
        [\<lparr>met_id = ''A_c'', met_name = ''A[c]'', formula = ''C6H12O6'', met_compartment = ''c'',
          seed_id = Some ''cpd00027'',
          met_thermo = Some \<lparr>deltaGf_std = - 100, deltaGf_tr = - 100, deltaGf_err = 1\<rparr>\<rparr>,
         \<lparr>met_id = ''B_c'', met_name = ''B[c]'', formula = ''C6H12O6'', met_compartment = ''c'',
          seed_id = Some ''cpd00082'',
          met_thermo = Some \<lparr>deltaGf_std = - 120, deltaGf_tr = - 120, deltaGf_err = 1\<rparr>\<rparr>,
         \<lparr>met_id = ''h_c'', met_name = ''H+[c]'', formula = ''H'', met_compartment = ''c'',
          seed_id = Some ''cpd00067'',
          met_thermo = Some \<lparr>deltaGf_std = 0, deltaGf_tr = 0, deltaGf_err = 0\<rparr>\<rparr>],
      proton_of :=
        [(''c'', \<lparr>met_id = ''h_c'', met_name = ''H+[c]'', formula = ''H'', met_compartment = ''c'',
          seed_id = Some ''cpd00067'',
          met_thermo = Some \<lparr>deltaGf_std = 0, deltaGf_tr = 0, deltaGf_err = 0\<rparr>\<rparr>)]\<rparr>"

definition toy_solution :: "var \<Rightarrow> real" where
  "toy_solution v =
     (if v = TVar ThermoDisplacement ''R1'' then 1 else if v = TVar DeltaG ''R1'' then 2 else 0)"

definition toy_R1 :: reaction where
  "toy_R1 =
     \<lparr>rxn_id = ''R1'', rxn_name = ''A to B'', rxn_metabolites = [(''A_c'', - 1), (''B_c'', 1)],
      lower_bound = - 1000, upper_bound = 1000, rxn_compartment = Some ''c'',
      rxn_thermo = Some \<lparr>isTrans = Some False, computed = Some True, deltaGR = Some (- 20),
                          deltaGRerr = Some 2, deltaGrxn = None\<rparr>\<rparr>"

definition toy_wide :: thermo_model where
  "toy_wide = toy_prepared\<lparr>reactions := [toy_R1\<lparr>lower_bound := - 2000\<rparr>]\<rparr>"

definition toy_water :: thermo_model where
  "toy_water = toy_prepared
     \<lparr>metabolites := metabolites toy_prepared @
        [\<lparr>met_id = ''h2o_c'', met_name = ''H2O[c]'', formula = ''H2O'', met_compartment = ''c'',
          seed_id = Some ''cpd00001'',
          met_thermo = Some \<lparr>deltaGf_std = 10000000, deltaGf_tr = 10000000,
                             deltaGf_err = 10000000\<rparr>\<rparr>]\<rparr>"

text \<open>
  A network for the balance check, with two compartments and a proton in each. The balance
  check of \<open>balance_lib\<close> reports \<open>drain flux\<close> unless it is given the reaction as line 167
  has left it together with a proton of the compartment of the reaction; it then reports
  \<open>missing atoms\<close> for \<open>R3\<close>, adds a proton to \<open>R4\<close>, and finds every other reaction
  balanced. \<open>X\<close> is unknown to the database.
\<close>

definition balance_lib :: thermo_lib where
  "balance_lib = toy_lib
     \<lparr>check_reaction_balance := (\<lambda>mets r p.
        if rxn_thermo r = Some \<lparr>isTrans = Some False, computed = None, deltaGR = None,
                                 deltaGRerr = None, deltaGrxn = None\<rparr>
           \<and> (case p of
                 None \<Rightarrow> False
               | Some h \<Rightarrow> formula h = ''H'' \<and> Some (met_compartment h) = rxn_compartment r)
        then (if rxn_id r = ''R3'' then (''missing atoms'', rxn_metabolites r)
              else if rxn_id r = ''R4''
              then (''1 protons added to reaction'', rxn_metabolites r @ [(''h_c'', 1)])
              else (''balanced'', rxn_metabolites r))
        else (''drain flux'', rxn_metabolites r))\<rparr>"

definition balance_model :: thermo_model where
  "balance_model = toy_model
     \<lparr>reactions :=
        [\<lparr>rxn_id = ''R1'', rxn_name = ''A to B'', rxn_metabolites = [(''A_c'', - 1), (''B_c'', 1)],
          lower_bound = - 1000, upper_bound = 1000, rxn_compartment = None, rxn_thermo = None\<rparr>,
         \<lparr>rxn_id = ''EX_A'', rxn_name = ''A exchange'', rxn_metabolites = [(''A_c'', - 1)],
          lower_bound = 0, upper_bound = 10, rxn_compartment = None, rxn_thermo = None\<rparr>,
         \<lparr>rxn_id = ''R2'', rxn_name = ''A to X'', rxn_metabolites = [(''A_c'', - 1), (''X_c'', 1)],
          lower_bound = 0, upper_bound = 10, rxn_compartment = None, rxn_thermo = None\<rparr>,
         \<lparr>rxn_id = ''R3'', rxn_name = ''A to 2 B'', rxn_metabolites = [(''A_c'', - 1), (''B_c'', 2)],
          lower_bound = 0, upper_bound = 10, rxn_compartment = None, rxn_thermo = None\<rparr>,
         \<lparr>rxn_id = ''R4'', rxn_name = ''A to B and proton'',
          rxn_metabolites = [(''A_c'', - 1), (''B_c'', 1)],
          lower_bound = 0, upper_bound = 10, rxn_compartment = None, rxn_thermo = None\<rparr>,
         \<lparr>rxn_id = ''R5'', rxn_name = ''A uptake'', rxn_metabolites = [(''A_e'', - 1), (''A_c'', 1)],
          lower_bound = 0, upper_bound = 10, rxn_compartment = None, rxn_thermo = None\<rparr>,
         \<lparr>rxn_id = ''R6'', rxn_name = ''A to B outside'',
          rxn_metabolites = [(''A_e'', - 1), (''B_e'', 1)],
          lower_bound = 0, upper_bound = 10, rxn_compartment = None, rxn_thermo = None\<rparr>],
      metabolites := metabolites toy_model @
        [\<lparr>met_id = ''X_c'', met_name = ''X[c]'', formula = ''C2H6O'', met_compartment = ''c'',
          seed_id = Some ''cpd99999'', met_thermo = None\<rparr>,
         \<lparr>met_id = ''A_e'', met_name = ''A[e]'', formula = ''C6H12O6'', met_compartment = ''e'',
          seed_id = Some ''cpd00027'', met_thermo = None\<rparr>,
         \<lparr>met_id = ''B_e'', met_name = ''B[e]'', formula = ''C6H12O6'', met_compartment = ''e'',
          seed_id = Some ''cpd00082'', met_thermo = None\<rparr>,
         \<lparr>met_id = ''h_e'', met_name = ''H+[e]'', formula = ''H'', met_compartment = ''e'',
          seed_id = Some ''cpd00067'', met_thermo = None\<rparr>],
      compartments :=
        [''c'' \<mapsto> \<lparr>pH = 7, ionicStr = 0, c_min = 1 / 100000, c_max = 1 / 100\<rparr>,
         ''e'' \<mapsto> \<lparr>pH = 7, ionicStr = 0, c_min = 1 / 100000, c_max = 1 / 100\<rparr>]\<rparr>"

text \<open>
  A network with a transport: \<open>T1\<close> takes \<open>A\<close> and a proton from the compartment \<open>e\<close> into
  the compartment \<open>c\<close> and consumes \<open>B\<close>. \<open>transport_lib\<close> reports \<open>T1\<close> as a transport
  of \<open>A\<close> and of the proton, each with the coefficient \<open>1\<close>; \<open>transport_prepared\<close> is what
  \<open>prepare\<close> makes of \<open>transport_model\<close>.
\<close>

definition transport_lib :: thermo_lib where
  "transport_lib = toy_lib
     \<lparr>check_transport_reaction := (\<lambda>mets r. rxn_id r = ''T1''),
      find_transported_mets := (\<lambda>mets r.
        if rxn_id r = ''T1''
        then concat (map (\<lambda>(sid, a, b).
               case (get_by_id mets a, get_by_id mets b) of
                 (Some x, Some y) \<Rightarrow> [(sid, \<lparr>t_coeff = 1, t_reactant = x, t_product = y\<rparr>)]
               | _ \<Rightarrow> [])
             [(''cpd00027'', ''A_e'', ''A_c''), (''cpd00067'', ''h_e'', ''h_c'')])
        else []),
      calcDGtpt_rhs := (\<lambda>mets r. (- 5, 0))\<rparr>"

definition transport_model :: thermo_model where
  "transport_model = toy_model
     \<lparr>reactions :=
        [\<lparr>rxn_id = ''T1'', rxn_name = ''A uptake with B'',
          rxn_metabolites = [(''A_e'', - 1), (''h_e'', - 1), (''B_c'', - 1), (''A_c'', 1), (''h_c'', 1)],
          lower_bound = 0, upper_bound = 10, rxn_compartment = None, rxn_thermo = None\<rparr>],
      metabolites := metabolites toy_model @
        [\<lparr>met_id = ''A_e'', met_name = ''A[e]'', formula = ''C6H12O6'', met_compartment = ''e'',
          seed_id = Some ''cpd00027'', met_thermo = None\<rparr>,
         \<lparr>met_id = ''h_e'', met_name = ''H+[e]'', formula = ''H'', met_compartment = ''e'',
          seed_id = Some ''cpd00067'', met_thermo = None\<rparr>],
      compartments :=
        [''c'' \<mapsto> \<lparr>pH = 7, ionicStr = 0, c_min = 1 / 100000, c_max = 1 / 100\<rparr>,
         ''e'' \<mapsto> \<lparr>pH = 7, ionicStr = 0, c_min = 1 / 100000, c_max = 1 / 100\<rparr>]\<rparr>"

definition transport_prepared :: thermo_model where
  "transport_prepared = transport_model
     \<lparr>reactions :=
        [\<lparr>rxn_id = ''T1'', rxn_name = ''A uptake with B'',
          rxn_metabolites = [(''A_e'', - 1), (''h_e'', - 1), (''B_c'', - 1), (''A_c'', 1), (''h_c'', 1)],
          lower_bound = 0, upper_bound = 10, rxn_compartment = Some ''c'',
          rxn_thermo = Some \<lparr>isTrans = Some True, computed = Some True, deltaGR = Some (- 5),
                              deltaGRerr = Some 2, deltaGrxn = Some 0\<rparr>\<rparr>],
      metabolites :=
        [\<lparr>met_id = ''A_c'', met_name = ''A[c]'', formula = ''C6H12O6'', met_compartment = ''c'',
          seed_id = Some ''cpd00027'',
          met_thermo = Some \<lparr>deltaGf_std = - 100, deltaGf_tr = - 100, deltaGf_err = 1\<rparr>\<rparr>,
         \<lparr>met_id = ''B_c'', met_name = ''B[c]'', formula = ''C6H12O6'', met_compartment = ''c'',
          seed_id = Some ''cpd00082'',
          met_thermo = Some \<lparr>deltaGf_std = - 120, deltaGf_tr = - 120, deltaGf_err = 1\<rparr>\<rparr>,
         \<lparr>met_id = ''h_c'', met_name = ''H+[c]'', formula = ''H'', met_compartment = ''c'',
          seed_id = Some ''cpd00067'',
          met_thermo = Some \<lparr>deltaGf_std = 0, deltaGf_tr = 0, deltaGf_err = 0\<rparr>\<rparr>,
         \<lparr>met_id = ''A_e'', met_name = ''A[e]'', formula = ''C6H12O6'', met_compartment = ''e'',
          seed_id = Some ''cpd00027'',
          met_thermo = Some \<lparr>deltaGf_std = - 100, deltaGf_tr = - 100, deltaGf_err = 1\<rparr>\<rparr>,
         \<lparr>met_id = ''h_e'', met_name = ''H+[e]'', formula = ''H'', met_compartment = ''e'',
          seed_id = Some ''cpd00067'',
          met_thermo = Some \<lparr>deltaGf_std = 0, deltaGf_tr = 0, deltaGf_err = 0\<rparr>\<rparr>],
      proton_of :=
        [(''c'', \<lparr>met_id = ''h_c'', met_name = ''H+[c]'', formula = ''H'', met_compartment = ''c'',
          seed_id = Some ''cpd00067'',
          met_thermo = Some \<lparr>deltaGf_std = 0, deltaGf_tr = 0, deltaGf_err = 0\<rparr>\<rparr>),
         (''e'', \<lparr>met_id = ''h_e'', met_name = ''H+[e]'', formula = ''H'', met_compartment = ''e'',
          seed_id = Some ''cpd00067'',
          met_thermo = Some \<lparr>deltaGf_std = 0, deltaGf_tr = 0, deltaGf_err = 0\<rparr>\<rparr>)]\<rparr>"

definition transport_T1 :: reaction where
  "transport_T1 =
     \<lparr>rxn_id = ''T1'', rxn_name = ''A uptake with B'',
      rxn_metabolites = [(''A_e'', - 1), (''h_e'', - 1), (''B_c'', - 1), (''A_c'', 1), (''h_c'', 1)],
      lower_bound = 0, upper_bound = 10, rxn_compartment = Some ''c'',
      rxn_thermo = Some \<lparr>isTrans = Some True, computed = Some True, deltaGR = Some (- 5),
                          deltaGRerr = Some 2, deltaGrxn = Some 0\<rparr>\<rparr>"

section \<open>The log-concentration terms of \<open>NegativeDeltaG\<close>, in closed form\<close>

text \<open>
  These definitions are not translations of the source: they say what the loops of lines
  404 to 463 are to compute, and the proofs compare them with \<open>transport_terms\<close>,
  \<open>chem_terms\<close> and \<open>energy_terms\<close>.

  The transport terms: for every transported metabolite, in the order of
  \<open>find_transported_mets\<close>, the term \<open>- RT * coeff * LC\<close> of its reactant form and the term
  \<open>RT * coeff * LC\<close> of its product form, a form with the formula \<open>H\<close> being left out.
\<close>

definition transport_LC_terms :: "real \<Rightarrow> (string \<times> transported) list \<Rightarrow> expr" where
  "transport_LC_terms rt T =
     concat (map (\<lambda>p.
        (if formula (t_reactant (snd p)) \<noteq> ''H''
         then [(TVar LogConcentration (met_id (t_reactant (snd p))), rt * t_coeff (snd p) * (- 1))]
         else [])
      @ (if formula (t_product (snd p)) \<noteq> ''H''
         then [(TVar LogConcentration (met_id (t_product (snd p))), rt * t_coeff (snd p) * 1)]
         else [])) T)"

text \<open>
  The chemical stoichiometry of a transport reaction: the coefficient of each metabolite,
  plus the transport coefficients of the transported metabolites of which it is the
  reactant form, minus those of which it is the product form; the metabolites whose
  coefficient comes to zero are dropped.
\<close>

definition transported_balance :: "(string \<times> transported) list \<Rightarrow> string \<Rightarrow> real" where
  "transported_balance T i =
     sum_list (map (\<lambda>p. (if met_id (t_reactant (snd p)) = i then t_coeff (snd p) else 0)
                        - (if met_id (t_product (snd p)) = i then t_coeff (snd p) else 0)) T)"

definition chemical_stoichiometry ::
  "(string \<times> real) list \<Rightarrow> (string \<times> transported) list \<Rightarrow> (string \<times> real) list" where
  "chemical_stoichiometry S T =
     filter (\<lambda>kv. snd kv \<noteq> 0) (map (\<lambda>kv. (fst kv, snd kv + transported_balance T (fst kv))) S)"

text \<open>
  The chemical terms of a stoichiometry: the term \<open>RT * coefficient * LC\<close> of every
  metabolite whose formula is neither \<open>H\<close> nor \<open>H2O\<close>.
\<close>

definition chemical_LC_terms :: "metabolite list \<Rightarrow> real \<Rightarrow> (string \<times> real) list \<Rightarrow> expr" where
  "chemical_LC_terms mets rt S =
     concat (map (\<lambda>kv.
        case get_by_id mets (fst kv) of
          None \<Rightarrow> []
        | Some met \<Rightarrow>
            if formula met \<noteq> ''H'' \<and> formula met \<noteq> ''H2O''
            then [(TVar LogConcentration (fst kv), rt * snd kv)]
            else []) S)"

text \<open>
  \<open>LC_vars\<close> maps the id of a metabolite to a \<open>LogConcentration\<close> variable hooked to that
  metabolite.
\<close>

definition LC_ok :: "(string \<rightharpoonup> variable) \<Rightarrow> bool" where
  "LC_ok lc \<longleftrightarrow> (\<forall>i v. lc i = Some v \<longrightarrow> variable_of v = TVar LogConcentration i)"

section \<open>Properties of \<open>chebyshev_center\<close>\<close>

lemma find_constraints_mem:
  "x \<in> set (find_constraints incl excl vars cd) \<Longrightarrow> fst x \<in> fst ` set cd"
  by (induction incl excl vars cd rule: find_constraints.induct) (auto split: if_splits)

lemma find_constraints_keys:
  "set (map fst (find_constraints incl excl vars cd)) \<subseteq> set (map fst cd)"
  using find_constraints_mem by fastforce

lemma find_constraints_distinct:
  "distinct (map fst cd) \<Longrightarrow> distinct (map fst (find_constraints incl excl vars cd))"
proof (induction cd)
  case Nil then show ?case by simp
next
  case (Cons p cd)
  obtain n c where p: "p = (n, c)" by (cases p)
  have "n \<notin> set (map fst (find_constraints incl excl vars cd))"
    using Cons.prems find_constraints_keys[of incl excl vars cd] p by auto
  with Cons p show ?case by auto
qed

lemma map_of_find_constraints:
  "distinct (map fst cd) \<Longrightarrow>
   map_of (find_constraints incl excl vars cd) n =
     (case map_of cd n of
        None \<Rightarrow> None
      | Some c \<Rightarrow>
          if c_kind c \<notin> set excl \<and> c_kind c \<in> set incl \<and> is_inequality c
             \<and> var_intersection (c_expr c) vars \<noteq> []
          then Some (norm2 (map (coeff (c_expr c)) (var_intersection (c_expr c) vars)))
          else None)"
proof (induction cd)
  case Nil then show ?case by simp
next
  case (Cons p cd)
  obtain k c where p: "p = (k, c)" by (cases p)
  have notin: "k \<notin> set (map fst (find_constraints incl excl vars cd))"
    using Cons.prems find_constraints_keys[of incl excl vars cd] p by auto
  have none: "map_of (find_constraints incl excl vars cd) k = None"
    using notin by (simp add: map_of_eq_None_iff)
  show ?case
  proof (cases "n = k")
    case True
    then show ?thesis using p none by simp
  next
    case False
    then show ?thesis using p Cons by simp
  qed
qed

lemma edit_constraint_Inr:
  "edit_constraint sv m r a c = Inr c' \<longleftrightarrow>
     change_expr_raises sv m c = None
     \<and> c' = c\<lparr>c_expr := (if c_lb c = None then c_expr c @ [(r, a)]
                          else if c_ub c = None then c_expr c @ [(r, - a)]
                          else c_expr c)\<rparr>"
  by (auto simp: edit_constraint_def change_expr_def split: option.splits)

lemma edit_constraint_Inl:
  "edit_constraint sv m r a c = Inl e \<longleftrightarrow> change_expr_raises sv m c = Some e"
  by (auto simp: edit_constraint_def change_expr_def split: option.splits)

lemma map_of_edit_constraints:
  "distinct (map fst es) \<Longrightarrow> edit_constraints sv m r es cd = Inr cd' \<Longrightarrow>
   map_of cd' n =
     (case map_of cd n of
        None \<Rightarrow> None
      | Some c \<Rightarrow>
          Some (case map_of es n of
                  None \<Rightarrow> c
                | Some a \<Rightarrow> c\<lparr>c_expr := (if c_lb c = None then c_expr c @ [(r, a)]
                                         else if c_ub c = None then c_expr c @ [(r, - a)]
                                         else c_expr c)\<rparr>))"
proof (induction es arbitrary: cd)
  case Nil then show ?case by (simp split: option.splits)
next
  case (Cons p es)
  obtain k a where p: "p = (k, a)" by (cases p)
  have d: "distinct (map fst es)" and k: "k \<notin> set (map fst es)" using Cons.prems p by auto
  have none: "map_of es k = None" using k by (simp add: map_of_eq_None_iff)
  show ?case
  proof (cases "map_of cd k")
    case None
    then have "edit_constraints sv m r es cd = Inr cd'" using Cons.prems(2) p by simp
    from Cons.IH[OF d this] show ?thesis using p None by (auto split: option.splits)
  next
    case (Some c0)
    obtain c0' where e: "edit_constraint sv m r a c0 = Inr c0'"
      using Cons.prems(2) p Some by (cases "edit_constraint sv m r a c0") simp_all
    then have rest: "edit_constraints sv m r es (AList.update k c0' cd) = Inr cd'"
      using Cons.prems(2) p Some by simp
    have c0': "c0' = c0\<lparr>c_expr := (if c_lb c0 = None then c_expr c0 @ [(r, a)]
                          else if c_ub c0 = None then c_expr c0 @ [(r, - a)]
                          else c_expr c0)\<rparr>"
      using e by (simp add: edit_constraint_Inr)
    show ?thesis
      using Cons.IH[OF d rest] p none Some c0'
      by (cases "n = k") (simp_all add: update_conv' split: option.splits)
  qed
qed

lemma edit_constraints_isl:
  "distinct (map fst es) \<Longrightarrow>
   isl (edit_constraints sv m r es cd) \<longleftrightarrow>
     (\<exists>p \<in> set es. \<exists>c. map_of cd (fst p) = Some c \<and> change_expr_raises sv m c \<noteq> None)"
proof (induction es arbitrary: cd)
  case Nil then show ?case by simp
next
  case (Cons p es)
  obtain k a where p: "p = (k, a)" by (cases p)
  have d: "distinct (map fst es)" and k: "k \<notin> set (map fst es)" using Cons.prems p by auto
  show ?case
  proof (cases "map_of cd k")
    case None
    then show ?thesis using Cons.IH[OF d, of cd] p by auto
  next
    case (Some c0)
    show ?thesis
    proof (cases "edit_constraint sv m r a c0")
      case (Inl e)
      then have "change_expr_raises sv m c0 = Some e" by (simp add: edit_constraint_Inl)
      then show ?thesis using p Some Inl by auto
    next
      case (Inr c0')
      then have ok: "change_expr_raises sv m c0 = None" by (simp add: edit_constraint_Inr)
      have same: "map_of (AList.update k c0' cd) (fst q) = map_of cd (fst q)" if "q \<in> set es" for q
        using that k by (auto simp: update_conv')
      have "isl (edit_constraints sv m r (p # es) cd)
          \<longleftrightarrow> isl (edit_constraints sv m r es (AList.update k c0' cd))"
        using p Some Inr by simp
      also have "\<dots> \<longleftrightarrow> (\<exists>q \<in> set es. \<exists>c. map_of cd (fst q) = Some c \<and> change_expr_raises sv m c \<noteq> None)"
        using Cons.IH[OF d, of "AList.update k c0' cd"] same by auto
      also have "\<dots> \<longleftrightarrow> (\<exists>q \<in> set (p # es). \<exists>c. map_of cd (fst q) = Some c \<and> change_expr_raises sv m c \<noteq> None)"
        using p Some ok by auto
      finally show ?thesis .
    qed
  qed
qed

lemma find_constraints_empty_include: "find_constraints [] excl vars cd = []"
  by (induction cd) auto

text \<open>
  When the reformulation returns, every constraint of the registry (a dict, so with
  distinct keys) is either rewritten or left as it was. It is rewritten exactly when its
  kind is in \<open>include\<close> and not in \<open>exclude\<close>, one of its bounds is open, and a target
  variable is among the free symbols of its expression. The rewrite appends the term
  \<open>norm * r\<close> when the lower bound is open, also when both bounds are open, and
  \<open>- norm * r\<close> when the lower bound is set and the upper bound is open, where \<open>norm\<close> is
  the Euclidean norm of the coefficients of the target variables that occur in the
  expression, and \<open>r\<close> is the radius variable.
\<close>

lemma chebyshev_reformulation_rewrites:
  assumes "distinct (map fst (cons_dict new))"
    and "(n, cons) \<in> set (cons_dict new)"
    and "chebyshev_reformulation sv new vars big_m incl excl = Inr (r, new')"
  shows "map_of (cons_dict new') n = Some
       (if (c_kind cons \<notin> set excl \<and> c_kind cons \<in> set incl)
           \<and> (c_lb cons = None \<or> c_ub cons = None)
           \<and> (\<exists>x \<in> set (free_symbols (c_expr cons)). Some x \<in> set vars)
        then (if c_lb cons = None
              then cons\<lparr>c_expr := c_expr cons @ [(variable_of r,
                      norm2 (map (coeff (c_expr cons)) (var_intersection (c_expr cons) vars)))]\<rparr>
              else cons\<lparr>c_expr := c_expr cons @ [(variable_of r,
                      - norm2 (map (coeff (c_expr cons)) (var_intersection (c_expr cons) vars)))]\<rparr>)
        else cons)"
    and "map_of (cons_dict new') n \<noteq> Some cons \<longleftrightarrow>
           (c_kind cons \<notin> set excl \<and> c_kind cons \<in> set incl)
           \<and> (c_lb cons = None \<or> c_ub cons = None)
           \<and> (\<exists>x \<in> set (free_symbols (c_expr cons)). Some x \<in> set vars)"
    and "variable_of r = TVar ChebyshevRadius ''radius''"
proof -
  let ?cd = "cons_dict new"
  let ?es = "find_constraints incl excl vars ?cd"
  let ?new1 = "snd (add_variable new ChebyshevRadius ''radius'' (Some 0) (Some big_m))"
  have cd1: "cons_dict ?new1 = ?cd" by (simp add: add_variable_def Let_def)
  have r: "r = \<lparr>v_kind = ChebyshevRadius, v_hook = ''radius'', v_lb = Some 0, v_ub = Some big_m\<rparr>"
    using assms(3)
    by (auto simp: chebyshev_reformulation_def add_variable_def Let_def split: sum.splits)
  have new': "edit_constraints sv ?new1 (variable_of r) ?es ?cd = Inr (cons_dict new')"
    using assms(3)
    by (auto simp: chebyshev_reformulation_def add_variable_def Let_def split: sum.splits)
  have look: "map_of ?cd n = Some cons" using assms(1,2) by simp
  have vi: "var_intersection (c_expr cons) vars \<noteq> [] \<longleftrightarrow>
        (\<exists>x \<in> set (free_symbols (c_expr cons)). Some x \<in> set vars)"
    by (auto simp: var_intersection_def filter_empty_conv)
  have d: "distinct (map fst ?es)" using assms(1) by (rule find_constraints_distinct)
  have eq: "map_of (cons_dict new') n =
      Some (case map_of ?es n of
              None \<Rightarrow> cons
            | Some a \<Rightarrow> cons\<lparr>c_expr := (if c_lb cons = None then c_expr cons @ [(variable_of r, a)]
                                         else if c_ub cons = None then c_expr cons @ [(variable_of r, - a)]
                                         else c_expr cons)\<rparr>)"
    using map_of_edit_constraints[OF d new', of n] look by simp
  have es: "map_of ?es n =
     (if c_kind cons \<notin> set excl \<and> c_kind cons \<in> set incl \<and> is_inequality cons
             \<and> var_intersection (c_expr cons) vars \<noteq> []
          then Some (norm2 (map (coeff (c_expr cons)) (var_intersection (c_expr cons) vars)))
          else None)"
    using map_of_find_constraints[OF assms(1), of incl excl vars n] look by simp
  show 1: "map_of (cons_dict new') n = Some
       (if (c_kind cons \<notin> set excl \<and> c_kind cons \<in> set incl)
           \<and> (c_lb cons = None \<or> c_ub cons = None)
           \<and> (\<exists>x \<in> set (free_symbols (c_expr cons)). Some x \<in> set vars)
        then (if c_lb cons = None
              then cons\<lparr>c_expr := c_expr cons @ [(variable_of r,
                      norm2 (map (coeff (c_expr cons)) (var_intersection (c_expr cons) vars)))]\<rparr>
              else cons\<lparr>c_expr := c_expr cons @ [(variable_of r,
                      - norm2 (map (coeff (c_expr cons)) (var_intersection (c_expr cons) vars)))]\<rparr>)
        else cons)"
    unfolding eq es using vi by (auto simp: is_inequality_def)
  have neq: "cons\<lparr>c_expr := c_expr cons @ [t]\<rparr> \<noteq> cons" for t
  proof
    assume "cons\<lparr>c_expr := c_expr cons @ [t]\<rparr> = cons"
    then have "c_expr (cons\<lparr>c_expr := c_expr cons @ [t]\<rparr>) = c_expr cons" by simp
    then show False by simp
  qed
  show "map_of (cons_dict new') n \<noteq> Some cons \<longleftrightarrow>
           (c_kind cons \<notin> set excl \<and> c_kind cons \<in> set incl)
           \<and> (c_lb cons = None \<or> c_ub cons = None)
           \<and> (\<exists>x \<in> set (free_symbols (c_expr cons)). Some x \<in> set vars)"
    unfolding 1 using neq by auto
  show "variable_of r = TVar ChebyshevRadius ''radius''" using r by (simp add: variable_of_def)
qed

text \<open>
  The reformulation raises exactly when \<open>change_expr\<close> raises for a constraint that is to
  be rewritten.
\<close>

lemma chebyshev_reformulation_raises:
  assumes "distinct (map fst (cons_dict new))"
  shows "isl (chebyshev_reformulation sv new vars big_m incl excl) \<longleftrightarrow>
     (\<exists>p \<in> set (cons_dict new).
        (c_kind (snd p) \<notin> set excl \<and> c_kind (snd p) \<in> set incl)
        \<and> (c_lb (snd p) = None \<or> c_ub (snd p) = None)
        \<and> (\<exists>x \<in> set (free_symbols (c_expr (snd p))). Some x \<in> set vars)
        \<and> change_expr_raises sv
             (snd (add_variable new ChebyshevRadius ''radius'' (Some 0) (Some big_m))) (snd p) \<noteq> None)"
proof -
  let ?cd = "cons_dict new"
  let ?es = "find_constraints incl excl vars ?cd"
  let ?new1 = "snd (add_variable new ChebyshevRadius ''radius'' (Some 0) (Some big_m))"
  let ?r = "fst (add_variable new ChebyshevRadius ''radius'' (Some 0) (Some big_m))"
  have cd1: "cons_dict ?new1 = ?cd" by (simp add: add_variable_def Let_def)
  have d: "distinct (map fst ?es)" using assms by (rule find_constraints_distinct)
  have "isl (chebyshev_reformulation sv new vars big_m incl excl)
      \<longleftrightarrow> isl (edit_constraints sv ?new1 (variable_of ?r) ?es ?cd)"
    by (simp add: chebyshev_reformulation_def cd1 Let_def split_beta split: sum.splits)
  also have "\<dots> \<longleftrightarrow> (\<exists>q \<in> set ?es. \<exists>c. map_of ?cd (fst q) = Some c \<and> change_expr_raises sv ?new1 c \<noteq> None)"
    by (rule edit_constraints_isl[OF d])
  also have "\<dots> \<longleftrightarrow> (\<exists>p \<in> set ?cd.
        (c_kind (snd p) \<notin> set excl \<and> c_kind (snd p) \<in> set incl)
        \<and> (c_lb (snd p) = None \<or> c_ub (snd p) = None)
        \<and> (\<exists>x \<in> set (free_symbols (c_expr (snd p))). Some x \<in> set vars)
        \<and> change_expr_raises sv ?new1 (snd p) \<noteq> None)" (is "?L \<longleftrightarrow> ?R")
  proof
    assume ?L
    then obtain q c where q: "q \<in> set ?es" and c: "map_of ?cd (fst q) = Some c"
      and raises: "change_expr_raises sv ?new1 c \<noteq> None" by blast
    have "map_of ?es (fst q) = Some (snd q)" using q d by simp
    then have "c_kind c \<notin> set excl \<and> c_kind c \<in> set incl \<and> is_inequality c
             \<and> var_intersection (c_expr c) vars \<noteq> []"
      using map_of_find_constraints[OF assms, of incl excl vars "fst q"] c
      by (simp split: if_splits)
    moreover have "(fst q, c) \<in> set ?cd" using c by (rule map_of_SomeD)
    ultimately show ?R using raises
      by (auto simp: is_inequality_def var_intersection_def filter_empty_conv intro!: bexI[of _ "(fst q, c)"])
  next
    assume ?R
    then obtain p where p: "p \<in> set ?cd"
      and q: "c_kind (snd p) \<notin> set excl \<and> c_kind (snd p) \<in> set incl"
         "c_lb (snd p) = None \<or> c_ub (snd p) = None"
         "\<exists>x \<in> set (free_symbols (c_expr (snd p))). Some x \<in> set vars"
      and raises: "change_expr_raises sv ?new1 (snd p) \<noteq> None" by blast
    have look: "map_of ?cd (fst p) = Some (snd p)" using p assms by simp
    have vi: "var_intersection (c_expr (snd p)) vars \<noteq> []"
      using q(3) by (auto simp: var_intersection_def filter_empty_conv)
    have "map_of ?es (fst p) \<noteq> None"
      using map_of_find_constraints[OF assms, of incl excl vars "fst p"] look q(1,2) vi
      by (simp add: is_inequality_def)
    then obtain a where "map_of ?es (fst p) = Some a" by blast
    then have "(fst p, a) \<in> set ?es" by (rule map_of_SomeD)
    then show ?L using look raises by (auto intro!: bexI[of _ "(fst p, a)"])
  qed
  finally show ?thesis .
qed



text \<open>
  On the example registry, with the target variable \<open>forward_variable R1\<close> and
  \<open>include = [ForwardDirectionCoupling]\<close>, the reformulation returns and the constraint
  \<open>forward - 1000 * ForwardUse \<le> 0\<close> gets the term \<open>+ 1 * r\<close>.
\<close>

lemma chebyshev_reformulation_example:
  "\<exists>r new'. chebyshev_reformulation example_solver example_model [Some (forward_variable ''R1'')] 1000
           [ForwardDirectionCoupling] [] = Inr (r, new')
     \<and> map_of (cons_dict new') (ForwardDirectionCoupling, ''R1'')
       = Some \<lparr>c_kind = ForwardDirectionCoupling, c_hook = ''R1'',
           c_expr = [(forward_variable ''R1'', 1), (TVar ForwardUseVariable ''R1'', - 1000),
                     (TVar ChebyshevRadius ''radius'', 1)],
           c_lb = None, c_ub = Some 0\<rparr>"
proof -
  have d: "distinct (map fst (cons_dict example_model))"
    by (simp add: example_model_def example_constraints_def)
  have "\<not> isl (chebyshev_reformulation example_solver example_model [Some (forward_variable ''R1'')] 1000
           [ForwardDirectionCoupling] [])"
    unfolding chebyshev_reformulation_raises[OF d]
    by (simp add: example_model_def example_constraints_def example_solver_def)
  then obtain r new' where
    e: "chebyshev_reformulation example_solver example_model [Some (forward_variable ''R1'')] 1000
           [ForwardDirectionCoupling] [] = Inr (r, new')"
    by (cases "chebyshev_reformulation example_solver example_model [Some (forward_variable ''R1'')] 1000
           [ForwardDirectionCoupling] []") auto
  have mem: "((ForwardDirectionCoupling, ''R1''),
        \<lparr>c_kind = ForwardDirectionCoupling, c_hook = ''R1'',
         c_expr = [(forward_variable ''R1'', 1), (TVar ForwardUseVariable ''R1'', - 1000)],
         c_lb = None, c_ub = Some 0\<rparr>) \<in> set (cons_dict example_model)"
    by (simp add: example_model_def example_constraints_def)
  from chebyshev_reformulation_rewrites(1,3)[OF d mem e]
  have "map_of (cons_dict new') (ForwardDirectionCoupling, ''R1'')
       = Some \<lparr>c_kind = ForwardDirectionCoupling, c_hook = ''R1'',
           c_expr = [(forward_variable ''R1'', 1), (TVar ForwardUseVariable ''R1'', - 1000),
                     (TVar ChebyshevRadius ''radius'', 1)],
           c_lb = None, c_ub = Some 0\<rparr>"
    by (simp add: free_symbols_def coeff_def var_intersection_def norm2_def)
  with e show ?thesis by blast
qed

text \<open>
  C10. With the default \<open>include\<close>, the empty list, the kind filter of line 84 rejects
  every constraint: \<open>cons_to_edit\<close> stays empty, \<open>change_expr\<close> is never called, the
  reformulation returns and leaves \<open>_cons_dict\<close> as it was, and the radius variable has
  the bounds \<open>[0, big_m]\<close> and nothing else.
\<close>

theorem chebyshev_default_include_rewrites_nothing: "find_constraints [] excl vars cd = [] \<and>
   (\<exists>new'. chebyshev_reformulation sv new vars big_m [] excl
       = Inr (\<lparr>v_kind = ChebyshevRadius, v_hook = ''radius'', v_lb = Some 0, v_ub = Some big_m\<rparr>, new')
     \<and> cons_dict new' = cons_dict new)"
  by (simp add: chebyshev_reformulation_def add_variable_def find_constraints_empty_include Let_def)

text \<open>
  C6. The radius variable is created with the bounds \<open>[0, big_m]\<close>, but the warning that
  the routine is meant to give when the radius reaches \<open>big_m\<close> cannot be given: \<open>warn\<close>
  is not defined in the module, so the call raises \<open>NameError\<close> and the routine returns
  nothing. Here the radius comes back at \<open>big_m = 1000\<close>.
\<close>

theorem chebyshev_center_warn_raises_NameError: "chebyshev_center example_solver example_model (Names [''R1'']) True 1000 [] [] = Inl NameError"
  by (simp add: chebyshev_center_def example_solver_def example_model_def resolve_variables_def
        chebyshev_reformulation_def add_variable_def find_constraints_empty_include variable_of_def Let_def)

section \<open>Properties of \<open>convert\<close>\<close>

lemma add_variable_simps [simp]:
  "fst (add_variable m k h l u) = \<lparr>v_kind = k, v_hook = h, v_lb = l, v_ub = u\<rparr>"
  "var_dict (snd (add_variable m k h l u))
     = AList.update (k, h) \<lparr>v_kind = k, v_hook = h, v_lb = l, v_ub = u\<rparr> (var_dict m)"
  "cons_dict (snd (add_variable m k h l u)) = cons_dict m"
  "metabolites (snd (add_variable m k h l u)) = metabolites m"
  "reactions (snd (add_variable m k h l u)) = reactions m"
  "compartments (snd (add_variable m k h l u)) = compartments m"
  "LC_vars (snd (add_variable m k h l u)) = LC_vars m"
  "P_vars (snd (add_variable m k h l u)) = P_vars m"
  "RT (snd (add_variable m k h l u)) = RT m"
  "tol_feasibility (snd (add_variable m k h l u)) = tol_feasibility m"
  by (simp_all add: add_variable_def var_name_def Let_def)

lemma add_constraint_simps [simp]:
  "cons_dict (add_constraint m k h e l u)
     = AList.update (k, h) \<lparr>c_kind = k, c_hook = h, c_expr = e, c_lb = l, c_ub = u\<rparr> (cons_dict m)"
  "var_dict (add_constraint m k h e l u) = var_dict m"
  "metabolites (add_constraint m k h e l u) = metabolites m"
  "reactions (add_constraint m k h e l u) = reactions m"
  "compartments (add_constraint m k h e l u) = compartments m"
  "LC_vars (add_constraint m k h e l u) = LC_vars m"
  "P_vars (add_constraint m k h e l u) = P_vars m"
  "RT (add_constraint m k h e l u) = RT m"
  "tol_feasibility (add_constraint m k h e l u) = tol_feasibility m"
  by (simp_all add: add_constraint_def cons_name_def Let_def)

lemma thermo_constraints_Inr:
  assumes "thermo_constraints lib num m rxn th ap ad = Inr (FU, BU, m')"
  shows "\<exists>dGR err tr LT LC.
     deltaGR th = Some dGR \<and> deltaGRerr th = Some err \<and> isTrans th = Some tr
     \<and> energy_terms lib (metabolites m) (LC_vars m) (P_vars m) (RT m) rxn ap tr = Inr (LT, LC)
     \<and> (ad \<longrightarrow> RT m \<noteq> 0)
     \<and> FU = \<lparr>v_kind = ForwardUseVariable, v_hook = rxn_id rxn, v_lb = None, v_ub = None\<rparr>
     \<and> BU = \<lparr>v_kind = BackwardUseVariable, v_hook = rxn_id rxn, v_lb = None, v_ub = None\<rparr>
     \<and> same_inputs m m'
     \<and> var_dict m' =
           AList.update (BackwardUseVariable, rxn_id rxn)
             \<lparr>v_kind = BackwardUseVariable, v_hook = rxn_id rxn, v_lb = None, v_ub = None\<rparr>
          (AList.update (ForwardUseVariable, rxn_id rxn)
             \<lparr>v_kind = ForwardUseVariable, v_hook = rxn_id rxn, v_lb = None, v_ub = None\<rparr>
          ((if ad then AList.update (ThermoDisplacement, rxn_id rxn)
             \<lparr>v_kind = ThermoDisplacement, v_hook = rxn_id rxn,
              v_lb = Some (- BIGM_P num), v_ub = Some (BIGM_P num)\<rparr> else id)
          (AList.update (DeltaGstd, rxn_id rxn)
             \<lparr>v_kind = DeltaGstd, v_hook = rxn_id rxn,
              v_lb = Some (dGR - err), v_ub = Some (dGR + err)\<rparr>
          (AList.update (DeltaG, rxn_id rxn)
             \<lparr>v_kind = DeltaG, v_hook = rxn_id rxn,
              v_lb = Some (- BIGM_THERMO num), v_ub = Some (BIGM_THERMO num)\<rparr>
          (var_dict m)))))
     \<and> cons_dict m' =
           AList.update (BackwardDeltaGCoupling, rxn_id rxn)
             \<lparr>c_kind = BackwardDeltaGCoupling, c_hook = rxn_id rxn,
              c_expr = [(TVar BackwardUseVariable (rxn_id rxn), BIGM_THERMO num),
                        (TVar DeltaG (rxn_id rxn), - 1)],
              c_lb = None, c_ub = Some (BIGM_THERMO num - tol_feasibility m)\<rparr>
          (AList.update (ForwardDeltaGCoupling, rxn_id rxn)
             \<lparr>c_kind = ForwardDeltaGCoupling, c_hook = rxn_id rxn,
              c_expr = [(TVar DeltaG (rxn_id rxn), 1),
                        (TVar ForwardUseVariable (rxn_id rxn), BIGM_THERMO num)],
              c_lb = None, c_ub = Some (BIGM_THERMO num - tol_feasibility m)\<rparr>
          ((if ad then AList.update (DisplacementCoupling, rxn_id rxn)
             \<lparr>c_kind = DisplacementCoupling, c_hook = rxn_id rxn,
              c_expr = [(TVar ThermoDisplacement (rxn_id rxn), 1),
                        (TVar DeltaG (rxn_id rxn), - (1 / RT m))],
              c_lb = Some 0, c_ub = Some 0\<rparr> else id)
          (AList.update (NegativeDeltaG, rxn_id rxn)
             \<lparr>c_kind = NegativeDeltaG, c_hook = rxn_id rxn,
              c_expr = [(TVar DeltaGstd (rxn_id rxn), 1), (TVar DeltaG (rxn_id rxn), - 1)] @ LT @ LC,
              c_lb = Some 0, c_ub = Some 0\<rparr>
          (cons_dict m))))"
proof -
  note defs = thermo_constraints_def Let_def split_beta variable_of_def
  obtain err where 1: "deltaGRerr th = Some err"
    using assms by (cases "deltaGRerr th") (simp_all add: defs)
  obtain dGR where 2: "deltaGR th = Some dGR"
    using assms 1 by (cases "deltaGR th") (simp_all add: defs)
  obtain tr where 3: "isTrans th = Some tr"
    using assms 1 2 by (cases "isTrans th") (simp_all add: defs)
  obtain LT LC where 4:
    "energy_terms lib (metabolites m) (LC_vars m) (P_vars m) (RT m) rxn ap tr = Inr (LT, LC)"
    using assms 1 2 3
    by (cases "energy_terms lib (metabolites m) (LC_vars m) (P_vars m) (RT m) rxn ap tr")
       (auto simp add: defs)
  have 5: "ad \<longrightarrow> RT m \<noteq> 0"
    using assms 1 2 3 4 by (auto simp add: defs)
  show ?thesis
  proof (cases ad)
    case True
    with 5 have rt: "RT m \<noteq> 0" by simp
    show ?thesis using assms 1 2 3 4 True rt
      by (auto simp add: defs same_inputs_def)
  next
    case False
    show ?thesis using assms 1 2 3 4 False
      by (auto simp add: defs same_inputs_def)
  qed
qed

lemma convert_reaction_start:
  assumes "convert_reaction lib num m rxn ap ad = Inr m'"
  obtains th cmp h2ot where "rxn_thermo rxn = Some th" "computed th = Some cmp"
    "H2OtRxns (metabolites m) rxn = Inr h2ot"
proof -
  note defs = convert_reaction_def Let_def split_beta variable_of_def
  obtain h2ot where 1: "H2OtRxns (metabolites m) rxn = Inr h2ot"
    using assms by (cases "H2OtRxns (metabolites m) rxn") (simp_all add: defs)
  obtain th where 2: "rxn_thermo rxn = Some th"
    using assms 1 by (cases "rxn_thermo rxn") (simp_all add: defs)
  obtain cmp where 3: "computed th = Some cmp"
    using assms 1 2 by (cases "computed th") (simp_all add: defs)
  from 1 2 3 that show thesis by blast
qed

lemma convert_reaction_thermo:
  assumes "convert_reaction lib num m rxn ap ad = Inr m'"
    and "rxn_thermo rxn = Some th" "computed th = Some True"
    and "H2OtRxns (metabolites m) rxn = Inr False"
  obtains m0 where
    "thermo_constraints lib num m rxn th ap ad =
        Inr (\<lparr>v_kind = ForwardUseVariable, v_hook = rxn_id rxn, v_lb = None, v_ub = None\<rparr>,
             \<lparr>v_kind = BackwardUseVariable, v_hook = rxn_id rxn, v_lb = None, v_ub = None\<rparr>, m0)"
    "same_inputs m0 m'" "var_dict m' = var_dict m0"
    "cons_dict m' = use_constraints num (rxn_id rxn) (cons_dict m0)"
proof -
  note defs = convert_reaction_def Let_def split_beta variable_of_def
  obtain x where 4: "thermo_constraints lib num m rxn th ap ad = Inr x"
    using assms by (cases "thermo_constraints lib num m rxn th ap ad") (simp_all add: defs)
  obtain FU BU m0 where x: "x = (FU, BU, m0)" by (cases x)
  from thermo_constraints_Inr[OF 4[unfolded x]]
  have FU: "FU = \<lparr>v_kind = ForwardUseVariable, v_hook = rxn_id rxn, v_lb = None, v_ub = None\<rparr>"
    and BU: "BU = \<lparr>v_kind = BackwardUseVariable, v_hook = rxn_id rxn, v_lb = None, v_ub = None\<rparr>"
    by blast+
  have m': "m' = add_constraint
       (add_constraint
         (add_constraint m0 SimultaneousUse (rxn_id rxn)
            [(TVar ForwardUseVariable (rxn_id rxn), 1), (TVar BackwardUseVariable (rxn_id rxn), 1)]
            (Some 0) (Some 1))
         ForwardDirectionCoupling (rxn_id rxn)
         [(forward_variable (rxn_id rxn), 1), (TVar ForwardUseVariable (rxn_id rxn), - BIGM num)]
         None (Some 0))
       BackwardDirectionCoupling (rxn_id rxn)
       [(reverse_variable (rxn_id rxn), 1), (TVar BackwardUseVariable (rxn_id rxn), - BIGM num)]
       None (Some 0)"
    using assms 4 x FU BU by (simp add: defs)
  show thesis
    by (rule that[of m0]) (use 4 x FU BU in \<open>simp_all add: m' same_inputs_def use_constraints_def\<close>)
qed

lemma convert_reaction_plain:
  assumes "convert_reaction lib num m rxn ap ad = Inr m'"
    and "rxn_thermo rxn = Some th" "computed th = Some cmp"
    and "H2OtRxns (metabolites m) rxn = Inr h2ot" "\<not> (cmp \<and> \<not> h2ot)"
  shows "same_inputs m m'"
    and "var_dict m' =
           AList.update (BackwardUseVariable, rxn_id rxn)
             \<lparr>v_kind = BackwardUseVariable, v_hook = rxn_id rxn, v_lb = None, v_ub = None\<rparr>
          (AList.update (ForwardUseVariable, rxn_id rxn)
             \<lparr>v_kind = ForwardUseVariable, v_hook = rxn_id rxn, v_lb = None, v_ub = None\<rparr>
          (var_dict m))"
    and "cons_dict m' = use_constraints num (rxn_id rxn) (cons_dict m)"
proof -
  note defs = convert_reaction_def Let_def split_beta variable_of_def
  have m': "m' = add_constraint
       (add_constraint
         (add_constraint
            (snd (add_variable (snd (add_variable m ForwardUseVariable (rxn_id rxn) None None))
                    BackwardUseVariable (rxn_id rxn) None None))
            SimultaneousUse (rxn_id rxn)
            [(TVar ForwardUseVariable (rxn_id rxn), 1), (TVar BackwardUseVariable (rxn_id rxn), 1)]
            (Some 0) (Some 1))
         ForwardDirectionCoupling (rxn_id rxn)
         [(forward_variable (rxn_id rxn), 1), (TVar ForwardUseVariable (rxn_id rxn), - BIGM num)]
         None (Some 0))
       BackwardDirectionCoupling (rxn_id rxn)
       [(reverse_variable (rxn_id rxn), 1), (TVar BackwardUseVariable (rxn_id rxn), - BIGM num)]
       None (Some 0)"
    using assms by (auto simp add: defs)
  show "same_inputs m m'" by (simp add: m' same_inputs_def)
  show "var_dict m' =
           AList.update (BackwardUseVariable, rxn_id rxn)
             \<lparr>v_kind = BackwardUseVariable, v_hook = rxn_id rxn, v_lb = None, v_ub = None\<rparr>
          (AList.update (ForwardUseVariable, rxn_id rxn)
             \<lparr>v_kind = ForwardUseVariable, v_hook = rxn_id rxn, v_lb = None, v_ub = None\<rparr>
          (var_dict m))" by (simp add: m')
  show "cons_dict m' = use_constraints num (rxn_id rxn) (cons_dict m)"
    by (simp add: m' use_constraints_def)
qed

lemma set_update_subset: "set (AList.update k v al) \<subseteq> insert (k, v) (set al)"
  by (induction al) auto

lemma vars_ok_update:
  "vars_ok al \<Longrightarrow> vars_ok (AList.update (k, h) \<lparr>v_kind = k, v_hook = h, v_lb = l, v_ub = u\<rparr> al)"
  unfolding vars_ok_def
  using set_update_subset[of "(k, h)" "\<lparr>v_kind = k, v_hook = h, v_lb = l, v_ub = u\<rparr>" al]
  by (auto simp: distinct_update var_name_def)

lemma cons_ok_update:
  "cons_ok al \<Longrightarrow>
   cons_ok (AList.update (k, h) \<lparr>c_kind = k, c_hook = h, c_expr = e, c_lb = l, c_ub = u\<rparr> al)"
  unfolding cons_ok_def
  using set_update_subset[of "(k, h)" "\<lparr>c_kind = k, c_hook = h, c_expr = e, c_lb = l, c_ub = u\<rparr>" al]
  by (auto simp: distinct_update cons_name_def)

lemma filter_by_name:
  assumes "distinct (map fst al)" and "\<forall>p \<in> set al. fst p = nm (snd p)" and "map_of al k = Some v"
  shows "filter (\<lambda>p. nm (snd p) = k) al = [(k, v)]"
  using assms
proof (induction al)
  case Nil
  then show ?case by simp
next
  case (Cons p al)
  show ?case
  proof (cases "fst p = k")
    case True
    then have p: "p = (k, v)" using Cons.prems(3) by (cases p) auto
    have "filter (\<lambda>q. nm (snd q) = k) al = []"
    proof (rule ccontr)
      assume "filter (\<lambda>q. nm (snd q) = k) al \<noteq> []"
      then obtain q where "q \<in> set al" "nm (snd q) = k"
        by (auto simp: filter_empty_conv)
      then have "fst q = k" "q \<in> set al" using Cons.prems(2) by auto
      then have "k \<in> fst ` set al" by force
      then show False using Cons.prems(1) True by simp
    qed
    then show ?thesis using p Cons.prems(2) by simp
  next
    case False
    then have "map_of al k = Some v" using Cons.prems(3) by (cases p) auto
    then have "filter (\<lambda>p. nm (snd p) = k) al = [(k, v)]"
      using Cons.IH Cons.prems by simp
    moreover have "nm (snd p) \<noteq> k" using False Cons.prems(2) by auto
    ultimately show ?thesis by simp
  qed
qed

lemma vars_ok_filter:
  "vars_ok al \<Longrightarrow> map_of al (k, h) = Some v \<Longrightarrow>
   filter (\<lambda>p. v_kind (snd p) = k \<and> v_hook (snd p) = h) al = [((k, h), v)]"
  using filter_by_name[of al var_name "(k, h)" v] by (simp add: vars_ok_def var_name_def)

lemma cons_ok_filter:
  "cons_ok al \<Longrightarrow> map_of al (k, h) = Some c \<Longrightarrow>
   filter (\<lambda>p. c_kind (snd p) = k \<and> c_hook (snd p) = h) al = [((k, h), c)]"
  using filter_by_name[of al cons_name "(k, h)" c] by (simp add: cons_ok_def cons_name_def)

lemma convert_reaction_step:
  assumes "convert_reaction lib num m rxn ap ad = Inr m'"
  shows "same_inputs m m'"
    and "vars_ok (var_dict m) \<Longrightarrow> vars_ok (var_dict m')"
    and "cons_ok (cons_dict m) \<Longrightarrow> cons_ok (cons_dict m')"
    and "use_emitted num (rxn_id rxn) m'"
    and "use_emitted num i m \<Longrightarrow> use_emitted num i m'"
    and "coupling_emitted num (tol_feasibility m) i m \<Longrightarrow> coupling_emitted num (tol_feasibility m) i m'"
    and "displacement_emitted num (RT m) i m \<Longrightarrow> displacement_emitted num (RT m) i m'"
    and "i \<noteq> rxn_id rxn \<Longrightarrow> balance_emitted dGR err LT LC i m \<Longrightarrow> balance_emitted dGR err LT LC i m'"
    and "map_of (var_dict m') (LogConcentration, h) = map_of (var_dict m) (LogConcentration, h)"
proof -
  from assms obtain th cmp h2ot where
    th: "rxn_thermo rxn = Some th" and cmp: "computed th = Some cmp"
    and h2ot: "H2OtRxns (metabolites m) rxn = Inr h2ot"
    by (rule convert_reaction_start)
  have "same_inputs m m'
    \<and> (vars_ok (var_dict m) \<longrightarrow> vars_ok (var_dict m'))
    \<and> (cons_ok (cons_dict m) \<longrightarrow> cons_ok (cons_dict m'))
    \<and> use_emitted num (rxn_id rxn) m'
    \<and> (use_emitted num i m \<longrightarrow> use_emitted num i m')
    \<and> (coupling_emitted num (tol_feasibility m) i m \<longrightarrow> coupling_emitted num (tol_feasibility m) i m')
    \<and> (displacement_emitted num (RT m) i m \<longrightarrow> displacement_emitted num (RT m) i m')
    \<and> (i \<noteq> rxn_id rxn \<longrightarrow> balance_emitted dGR err LT LC i m \<longrightarrow> balance_emitted dGR err LT LC i m')
    \<and> map_of (var_dict m') (LogConcentration, h) = map_of (var_dict m) (LogConcentration, h)"
  proof (cases "cmp \<and> \<not> h2ot")
    case True
    then have c: "computed th = Some True" and w: "H2OtRxns (metabolites m) rxn = Inr False"
      using cmp h2ot by auto
    from convert_reaction_thermo[OF assms th c w] obtain m0 where
      tc: "thermo_constraints lib num m rxn th ap ad =
        Inr (\<lparr>v_kind = ForwardUseVariable, v_hook = rxn_id rxn, v_lb = None, v_ub = None\<rparr>,
             \<lparr>v_kind = BackwardUseVariable, v_hook = rxn_id rxn, v_lb = None, v_ub = None\<rparr>, m0)"
      and si: "same_inputs m0 m'" and vd: "var_dict m' = var_dict m0"
      and cd: "cons_dict m' = use_constraints num (rxn_id rxn) (cons_dict m0)"
      by blast
    from thermo_constraints_Inr[OF tc] obtain dGR' err' tr LT' LC' where
      si0: "same_inputs m m0"
      and vd0: "var_dict m0 =
           AList.update (BackwardUseVariable, rxn_id rxn)
             \<lparr>v_kind = BackwardUseVariable, v_hook = rxn_id rxn, v_lb = None, v_ub = None\<rparr>
          (AList.update (ForwardUseVariable, rxn_id rxn)
             \<lparr>v_kind = ForwardUseVariable, v_hook = rxn_id rxn, v_lb = None, v_ub = None\<rparr>
          ((if ad then AList.update (ThermoDisplacement, rxn_id rxn)
             \<lparr>v_kind = ThermoDisplacement, v_hook = rxn_id rxn,
              v_lb = Some (- BIGM_P num), v_ub = Some (BIGM_P num)\<rparr> else id)
          (AList.update (DeltaGstd, rxn_id rxn)
             \<lparr>v_kind = DeltaGstd, v_hook = rxn_id rxn,
              v_lb = Some (dGR' - err'), v_ub = Some (dGR' + err')\<rparr>
          (AList.update (DeltaG, rxn_id rxn)
             \<lparr>v_kind = DeltaG, v_hook = rxn_id rxn,
              v_lb = Some (- BIGM_THERMO num), v_ub = Some (BIGM_THERMO num)\<rparr>
          (var_dict m)))))"
      and cd0: "cons_dict m0 =
           AList.update (BackwardDeltaGCoupling, rxn_id rxn)
             \<lparr>c_kind = BackwardDeltaGCoupling, c_hook = rxn_id rxn,
              c_expr = [(TVar BackwardUseVariable (rxn_id rxn), BIGM_THERMO num),
                        (TVar DeltaG (rxn_id rxn), - 1)],
              c_lb = None, c_ub = Some (BIGM_THERMO num - tol_feasibility m)\<rparr>
          (AList.update (ForwardDeltaGCoupling, rxn_id rxn)
             \<lparr>c_kind = ForwardDeltaGCoupling, c_hook = rxn_id rxn,
              c_expr = [(TVar DeltaG (rxn_id rxn), 1),
                        (TVar ForwardUseVariable (rxn_id rxn), BIGM_THERMO num)],
              c_lb = None, c_ub = Some (BIGM_THERMO num - tol_feasibility m)\<rparr>
          ((if ad then AList.update (DisplacementCoupling, rxn_id rxn)
             \<lparr>c_kind = DisplacementCoupling, c_hook = rxn_id rxn,
              c_expr = [(TVar ThermoDisplacement (rxn_id rxn), 1),
                        (TVar DeltaG (rxn_id rxn), - (1 / RT m))],
              c_lb = Some 0, c_ub = Some 0\<rparr> else id)
          (AList.update (NegativeDeltaG, rxn_id rxn)
             \<lparr>c_kind = NegativeDeltaG, c_hook = rxn_id rxn,
              c_expr = [(TVar DeltaGstd (rxn_id rxn), 1), (TVar DeltaG (rxn_id rxn), - 1)] @ LT' @ LC',
              c_lb = Some 0, c_ub = Some 0\<rparr>
          (cons_dict m))))"
      by blast
    have 1: "same_inputs m m'" using si si0 by (simp add: same_inputs_def)
    have 2: "vars_ok (var_dict m) \<longrightarrow> vars_ok (var_dict m')"
      unfolding vd vd0 by (cases ad) (simp_all add: vars_ok_update)
    have 3: "cons_ok (cons_dict m) \<longrightarrow> cons_ok (cons_dict m')"
      unfolding cd cd0 use_constraints_def by (cases ad) (simp_all add: cons_ok_update)
    have 4: "use_emitted num (rxn_id rxn) m'"
      unfolding use_emitted_def vd vd0 cd use_constraints_def
      by (simp add: update_conv')
    have 5: "use_emitted num i m \<longrightarrow> use_emitted num i m'"
      unfolding use_emitted_def vd vd0 cd cd0 use_constraints_def
      by (cases ad) (simp_all add: update_conv')
    have 6: "coupling_emitted num (tol_feasibility m) i m \<longrightarrow> coupling_emitted num (tol_feasibility m) i m'"
      unfolding coupling_emitted_def vd vd0 cd cd0 use_constraints_def
      by (cases ad) (simp_all add: update_conv')
    have 7: "displacement_emitted num (RT m) i m \<longrightarrow> displacement_emitted num (RT m) i m'"
      unfolding displacement_emitted_def vd vd0 cd cd0 use_constraints_def
      by (cases ad) (simp_all add: update_conv')
    have 8: "i \<noteq> rxn_id rxn \<longrightarrow> balance_emitted dGR err LT LC i m \<longrightarrow> balance_emitted dGR err LT LC i m'"
      unfolding balance_emitted_def vd vd0 cd cd0 use_constraints_def
      by (cases ad) (simp_all add: update_conv')
    have 9: "map_of (var_dict m') (LogConcentration, h) = map_of (var_dict m) (LogConcentration, h)"
      unfolding vd vd0 by (cases ad) (simp_all add: update_conv')
    from 1 2 3 4 5 6 7 8 9 show ?thesis by blast
  next
    case False
    note p = convert_reaction_plain[OF assms th cmp h2ot False]
    have 1: "same_inputs m m'" by (rule p(1))
    have 2: "vars_ok (var_dict m) \<longrightarrow> vars_ok (var_dict m')"
      unfolding p(2) by (simp add: vars_ok_update)
    have 3: "cons_ok (cons_dict m) \<longrightarrow> cons_ok (cons_dict m')"
      unfolding p(3) use_constraints_def by (simp add: cons_ok_update)
    have 4: "use_emitted num (rxn_id rxn) m'"
      unfolding use_emitted_def p(2) p(3) use_constraints_def by (simp add: update_conv')
    have 5: "use_emitted num i m \<longrightarrow> use_emitted num i m'"
      unfolding use_emitted_def p(2) p(3) use_constraints_def by (simp add: update_conv')
    have 6: "coupling_emitted num (tol_feasibility m) i m \<longrightarrow> coupling_emitted num (tol_feasibility m) i m'"
      unfolding coupling_emitted_def p(2) p(3) use_constraints_def by (simp add: update_conv')
    have 7: "displacement_emitted num (RT m) i m \<longrightarrow> displacement_emitted num (RT m) i m'"
      unfolding displacement_emitted_def p(2) p(3) use_constraints_def by (simp add: update_conv')
    have 8: "i \<noteq> rxn_id rxn \<longrightarrow> balance_emitted dGR err LT LC i m \<longrightarrow> balance_emitted dGR err LT LC i m'"
      unfolding balance_emitted_def p(2) p(3) use_constraints_def by (simp add: update_conv')
    have 9: "map_of (var_dict m') (LogConcentration, h) = map_of (var_dict m) (LogConcentration, h)"
      unfolding p(2) by (simp add: update_conv')
    from 1 2 3 4 5 6 7 8 9 show ?thesis by blast
  qed
  then show "same_inputs m m'"
    and "vars_ok (var_dict m) \<Longrightarrow> vars_ok (var_dict m')"
    and "cons_ok (cons_dict m) \<Longrightarrow> cons_ok (cons_dict m')"
    and "use_emitted num (rxn_id rxn) m'"
    and "use_emitted num i m \<Longrightarrow> use_emitted num i m'"
    and "coupling_emitted num (tol_feasibility m) i m \<Longrightarrow> coupling_emitted num (tol_feasibility m) i m'"
    and "displacement_emitted num (RT m) i m \<Longrightarrow> displacement_emitted num (RT m) i m'"
    and "i \<noteq> rxn_id rxn \<Longrightarrow> balance_emitted dGR err LT LC i m \<Longrightarrow> balance_emitted dGR err LT LC i m'"
    and "map_of (var_dict m') (LogConcentration, h) = map_of (var_dict m) (LogConcentration, h)"
    by blast+
qed

lemma convert_reaction_thermo_emitted:
  assumes "convert_reaction lib num m rxn ap ad = Inr m'"
    and th: "rxn_thermo rxn = Some th" and c: "computed th = Some True"
    and w: "H2OtRxns (metabolites m) rxn = Inr False"
  shows "coupling_emitted num (tol_feasibility m) (rxn_id rxn) m'"
    and "ad \<Longrightarrow> displacement_emitted num (RT m) (rxn_id rxn) m' \<and> RT m \<noteq> 0"
    and "\<exists>dGR err tr LT LC. deltaGR th = Some dGR \<and> deltaGRerr th = Some err \<and> isTrans th = Some tr
          \<and> energy_terms lib (metabolites m) (LC_vars m) (P_vars m) (RT m) rxn ap tr = Inr (LT, LC)
          \<and> balance_emitted dGR err LT LC (rxn_id rxn) m'"
proof -
  from convert_reaction_thermo[OF assms(1) th c w] obtain m0 where
      tc: "thermo_constraints lib num m rxn th ap ad =
        Inr (\<lparr>v_kind = ForwardUseVariable, v_hook = rxn_id rxn, v_lb = None, v_ub = None\<rparr>,
             \<lparr>v_kind = BackwardUseVariable, v_hook = rxn_id rxn, v_lb = None, v_ub = None\<rparr>, m0)"
      and vd: "var_dict m' = var_dict m0"
      and cd: "cons_dict m' = use_constraints num (rxn_id rxn) (cons_dict m0)"
      by blast
  from thermo_constraints_Inr[OF tc] obtain dGR err tr LT LC where
      e: "deltaGR th = Some dGR" "deltaGRerr th = Some err" "isTrans th = Some tr"
         "energy_terms lib (metabolites m) (LC_vars m) (P_vars m) (RT m) rxn ap tr = Inr (LT, LC)"
      and rt: "ad \<longrightarrow> RT m \<noteq> 0"
      and vd0: "var_dict m0 =
           AList.update (BackwardUseVariable, rxn_id rxn)
             \<lparr>v_kind = BackwardUseVariable, v_hook = rxn_id rxn, v_lb = None, v_ub = None\<rparr>
          (AList.update (ForwardUseVariable, rxn_id rxn)
             \<lparr>v_kind = ForwardUseVariable, v_hook = rxn_id rxn, v_lb = None, v_ub = None\<rparr>
          ((if ad then AList.update (ThermoDisplacement, rxn_id rxn)
             \<lparr>v_kind = ThermoDisplacement, v_hook = rxn_id rxn,
              v_lb = Some (- BIGM_P num), v_ub = Some (BIGM_P num)\<rparr> else id)
          (AList.update (DeltaGstd, rxn_id rxn)
             \<lparr>v_kind = DeltaGstd, v_hook = rxn_id rxn,
              v_lb = Some (dGR - err), v_ub = Some (dGR + err)\<rparr>
          (AList.update (DeltaG, rxn_id rxn)
             \<lparr>v_kind = DeltaG, v_hook = rxn_id rxn,
              v_lb = Some (- BIGM_THERMO num), v_ub = Some (BIGM_THERMO num)\<rparr>
          (var_dict m)))))"
      and cd0: "cons_dict m0 =
           AList.update (BackwardDeltaGCoupling, rxn_id rxn)
             \<lparr>c_kind = BackwardDeltaGCoupling, c_hook = rxn_id rxn,
              c_expr = [(TVar BackwardUseVariable (rxn_id rxn), BIGM_THERMO num),
                        (TVar DeltaG (rxn_id rxn), - 1)],
              c_lb = None, c_ub = Some (BIGM_THERMO num - tol_feasibility m)\<rparr>
          (AList.update (ForwardDeltaGCoupling, rxn_id rxn)
             \<lparr>c_kind = ForwardDeltaGCoupling, c_hook = rxn_id rxn,
              c_expr = [(TVar DeltaG (rxn_id rxn), 1),
                        (TVar ForwardUseVariable (rxn_id rxn), BIGM_THERMO num)],
              c_lb = None, c_ub = Some (BIGM_THERMO num - tol_feasibility m)\<rparr>
          ((if ad then AList.update (DisplacementCoupling, rxn_id rxn)
             \<lparr>c_kind = DisplacementCoupling, c_hook = rxn_id rxn,
              c_expr = [(TVar ThermoDisplacement (rxn_id rxn), 1),
                        (TVar DeltaG (rxn_id rxn), - (1 / RT m))],
              c_lb = Some 0, c_ub = Some 0\<rparr> else id)
          (AList.update (NegativeDeltaG, rxn_id rxn)
             \<lparr>c_kind = NegativeDeltaG, c_hook = rxn_id rxn,
              c_expr = [(TVar DeltaGstd (rxn_id rxn), 1), (TVar DeltaG (rxn_id rxn), - 1)] @ LT @ LC,
              c_lb = Some 0, c_ub = Some 0\<rparr>
          (cons_dict m))))"
      by blast
  show "coupling_emitted num (tol_feasibility m) (rxn_id rxn) m'"
    unfolding coupling_emitted_def vd vd0 cd cd0 use_constraints_def
    by (cases ad) (simp_all add: update_conv')
  show "ad \<Longrightarrow> displacement_emitted num (RT m) (rxn_id rxn) m' \<and> RT m \<noteq> 0"
    using rt unfolding displacement_emitted_def vd vd0 cd cd0 use_constraints_def
    by (simp add: update_conv')
  have "balance_emitted dGR err LT LC (rxn_id rxn) m'"
    unfolding balance_emitted_def vd vd0 cd cd0 use_constraints_def
    by (cases ad) (simp_all add: update_conv')
  with e show "\<exists>dGR err tr LT LC. deltaGR th = Some dGR \<and> deltaGRerr th = Some err \<and> isTrans th = Some tr
          \<and> energy_terms lib (metabolites m) (LC_vars m) (P_vars m) (RT m) rxn ap tr = Inr (LT, LC)
          \<and> balance_emitted dGR err LT LC (rxn_id rxn) m'"
    by blast
qed

lemma same_inputs_trans: "same_inputs a b \<Longrightarrow> same_inputs b c \<Longrightarrow> same_inputs a c"
  by (simp add: same_inputs_def)

lemma same_inputs_refl [simp]: "same_inputs a a"
  by (simp add: same_inputs_def)

lemma convert_reactions_frame:
  assumes "convert_reactions lib num m rs ap ad = Inr m'"
  shows "same_inputs m m'
    \<and> (vars_ok (var_dict m) \<longrightarrow> vars_ok (var_dict m'))
    \<and> (cons_ok (cons_dict m) \<longrightarrow> cons_ok (cons_dict m'))
    \<and> (use_emitted num i m \<longrightarrow> use_emitted num i m')
    \<and> (coupling_emitted num (tol_feasibility m) i m \<longrightarrow> coupling_emitted num (tol_feasibility m) i m')
    \<and> (displacement_emitted num (RT m) i m \<longrightarrow> displacement_emitted num (RT m) i m')
    \<and> (i \<notin> set (map rxn_id rs) \<longrightarrow> balance_emitted dGR err LT LC i m \<longrightarrow> balance_emitted dGR err LT LC i m')
    \<and> map_of (var_dict m') (LogConcentration, h) = map_of (var_dict m) (LogConcentration, h)"
  using assms
proof (induction rs arbitrary: m)
  case Nil
  then show ?case by simp
next
  case (Cons rxn rs)
  from Cons.prems obtain m1 where
    1: "convert_reaction lib num m rxn ap ad = Inr m1"
    and 2: "convert_reactions lib num m1 rs ap ad = Inr m'"
    by (auto split: sum.splits)
  note s = convert_reaction_step[OF 1]
  have eq: "tol_feasibility m1 = tol_feasibility m" "RT m1 = RT m"
    using s(1) by (simp_all add: same_inputs_def)
  note ih = Cons.IH[OF 2, unfolded eq]
  have a: "same_inputs m m'" using s(1) ih same_inputs_trans by blast
  have b: "vars_ok (var_dict m) \<longrightarrow> vars_ok (var_dict m')" using s(2) ih by blast
  have c: "cons_ok (cons_dict m) \<longrightarrow> cons_ok (cons_dict m')" using s(3) ih by blast
  have d: "use_emitted num i m \<longrightarrow> use_emitted num i m'" using s(5)[of i] ih by blast
  have e: "coupling_emitted num (tol_feasibility m) i m \<longrightarrow> coupling_emitted num (tol_feasibility m) i m'"
    using s(6)[of i] ih by blast
  have f: "displacement_emitted num (RT m) i m \<longrightarrow> displacement_emitted num (RT m) i m'"
    using s(7)[of i] ih by blast
  have g: "i \<notin> set (map rxn_id (rxn # rs)) \<longrightarrow> balance_emitted dGR err LT LC i m
             \<longrightarrow> balance_emitted dGR err LT LC i m'"
    using s(8)[of i dGR err LT LC] ih by auto
  have h: "map_of (var_dict m') (LogConcentration, h) = map_of (var_dict m) (LogConcentration, h)"
    using s(9)[of h] ih by simp
  from a b c d e f g h show ?case by blast
qed

lemma convert_reactions_emitted:
  assumes "convert_reactions lib num m rs ap ad = Inr m'" and "rxn \<in> set rs"
  shows "use_emitted num (rxn_id rxn) m'"
    and "\<exists>th cmp h2ot. rxn_thermo rxn = Some th \<and> computed th = Some cmp
           \<and> H2OtRxns (metabolites m) rxn = Inr h2ot"
    and "rxn_thermo rxn = Some th \<Longrightarrow> computed th = Some True
           \<Longrightarrow> H2OtRxns (metabolites m) rxn = Inr False
           \<Longrightarrow> coupling_emitted num (tol_feasibility m) (rxn_id rxn) m'
               \<and> (ad \<longrightarrow> displacement_emitted num (RT m) (rxn_id rxn) m' \<and> RT m \<noteq> 0)"
    and "rxn_thermo rxn = Some th \<Longrightarrow> computed th = Some True
           \<Longrightarrow> H2OtRxns (metabolites m) rxn = Inr False \<Longrightarrow> distinct (map rxn_id rs)
           \<Longrightarrow> \<exists>dGR err tr LT LC. deltaGR th = Some dGR \<and> deltaGRerr th = Some err
                 \<and> isTrans th = Some tr
                 \<and> energy_terms lib (metabolites m) (LC_vars m) (P_vars m) (RT m) rxn ap tr = Inr (LT, LC)
                 \<and> balance_emitted dGR err LT LC (rxn_id rxn) m'"
proof -
  have "use_emitted num (rxn_id rxn) m'
    \<and> (\<exists>th cmp h2ot. rxn_thermo rxn = Some th \<and> computed th = Some cmp
           \<and> H2OtRxns (metabolites m) rxn = Inr h2ot)
    \<and> (rxn_thermo rxn = Some th \<longrightarrow> computed th = Some True
           \<longrightarrow> H2OtRxns (metabolites m) rxn = Inr False
           \<longrightarrow> coupling_emitted num (tol_feasibility m) (rxn_id rxn) m'
               \<and> (ad \<longrightarrow> displacement_emitted num (RT m) (rxn_id rxn) m' \<and> RT m \<noteq> 0))
    \<and> (rxn_thermo rxn = Some th \<longrightarrow> computed th = Some True
           \<longrightarrow> H2OtRxns (metabolites m) rxn = Inr False \<longrightarrow> distinct (map rxn_id rs)
           \<longrightarrow> (\<exists>dGR err tr LT LC. deltaGR th = Some dGR \<and> deltaGRerr th = Some err
                 \<and> isTrans th = Some tr
                 \<and> energy_terms lib (metabolites m) (LC_vars m) (P_vars m) (RT m) rxn ap tr = Inr (LT, LC)
                 \<and> balance_emitted dGR err LT LC (rxn_id rxn) m'))"
    using assms
  proof (induction rs arbitrary: m)
    case Nil
    then show ?case by simp
  next
    case (Cons r rs)
    from Cons.prems(1) obtain m1 where
      1: "convert_reaction lib num m r ap ad = Inr m1"
      and 2: "convert_reactions lib num m1 rs ap ad = Inr m'"
      by (auto split: sum.splits)
    note s = convert_reaction_step[OF 1]
    have eq: "tol_feasibility m1 = tol_feasibility m" "RT m1 = RT m" "metabolites m1 = metabolites m"
      "LC_vars m1 = LC_vars m" "P_vars m1 = P_vars m"
      using s(1) by (simp_all add: same_inputs_def)
    show ?case
    proof (cases "rxn \<in> set rs")
      case True
      have d: "distinct (map rxn_id (r # rs)) \<Longrightarrow> distinct (map rxn_id rs)" by simp
      from Cons.IH[OF 2 True, unfolded eq] d show ?thesis by blast
    next
      case False
      then have r: "r = rxn" using Cons.prems(2) by simp
      note fr = convert_reactions_frame[OF 2, unfolded eq]
      have a: "use_emitted num (rxn_id rxn) m'"
        using s(4) fr[of "rxn_id rxn"] r by blast
      have b: "\<exists>th cmp h2ot. rxn_thermo rxn = Some th \<and> computed th = Some cmp
           \<and> H2OtRxns (metabolites m) rxn = Inr h2ot"
        using convert_reaction_start[OF 1] r by metis
      have c: "coupling_emitted num (tol_feasibility m) (rxn_id rxn) m'
               \<and> (ad \<longrightarrow> displacement_emitted num (RT m) (rxn_id rxn) m' \<and> RT m \<noteq> 0)"
        if "rxn_thermo rxn = Some th" "computed th = Some True"
           "H2OtRxns (metabolites m) rxn = Inr False"
        using convert_reaction_thermo_emitted(1,2)[OF 1[unfolded r] that] fr[of "rxn_id rxn"]
        by blast
      have d: "\<exists>dGR err tr LT LC. deltaGR th = Some dGR \<and> deltaGRerr th = Some err
                 \<and> isTrans th = Some tr
                 \<and> energy_terms lib (metabolites m) (LC_vars m) (P_vars m) (RT m) rxn ap tr = Inr (LT, LC)
                 \<and> balance_emitted dGR err LT LC (rxn_id rxn) m'"
        if t: "rxn_thermo rxn = Some th" "computed th = Some True"
           "H2OtRxns (metabolites m) rxn = Inr False" and dist: "distinct (map rxn_id (r # rs))"
      proof -
        from convert_reaction_thermo_emitted(3)[OF 1[unfolded r] t]
        obtain dGR err tr LT LC where
          e: "deltaGR th = Some dGR" "deltaGRerr th = Some err" "isTrans th = Some tr"
            "energy_terms lib (metabolites m) (LC_vars m) (P_vars m) (RT m) rxn ap tr = Inr (LT, LC)"
          and be: "balance_emitted dGR err LT LC (rxn_id rxn) m1" by blast
        have "rxn_id rxn \<notin> set (map rxn_id rs)" using dist r by simp
        then have "balance_emitted dGR err LT LC (rxn_id rxn) m'"
          using fr[of "rxn_id rxn" dGR err LT LC] be by blast
        with e show ?thesis by blast
      qed
      from a b c d show ?thesis by blast
    qed
  qed
  then show "use_emitted num (rxn_id rxn) m'"
    and "\<exists>th cmp h2ot. rxn_thermo rxn = Some th \<and> computed th = Some cmp
           \<and> H2OtRxns (metabolites m) rxn = Inr h2ot"
    and "rxn_thermo rxn = Some th \<Longrightarrow> computed th = Some True
           \<Longrightarrow> H2OtRxns (metabolites m) rxn = Inr False
           \<Longrightarrow> coupling_emitted num (tol_feasibility m) (rxn_id rxn) m'
               \<and> (ad \<longrightarrow> displacement_emitted num (RT m) (rxn_id rxn) m' \<and> RT m \<noteq> 0)"
    and "rxn_thermo rxn = Some th \<Longrightarrow> computed th = Some True
           \<Longrightarrow> H2OtRxns (metabolites m) rxn = Inr False \<Longrightarrow> distinct (map rxn_id rs)
           \<Longrightarrow> \<exists>dGR err tr LT LC. deltaGR th = Some dGR \<and> deltaGRerr th = Some err
                 \<and> isTrans th = Some tr
                 \<and> energy_terms lib (metabolites m) (LC_vars m) (P_vars m) (RT m) rxn ap tr = Inr (LT, LC)
                 \<and> balance_emitted dGR err LT LC (rxn_id rxn) m'"
    by blast+
qed

lemma convert_metabolite_Inr:
  assumes "convert_metabolite num m met ap = Inr m'"
  shows "\<exists>th cpt. met_thermo met = Some th \<and> compartments m (met_compartment met) = Some cpt
     \<and> 0 < c_min cpt \<and> 0 < c_max cpt
     \<and> var_dict m' = (case LC_outcome met th cpt of
                        None \<Rightarrow> var_dict m
                      | Some v \<Rightarrow> AList.update (LogConcentration, met_id met) v (var_dict m))
     \<and> LC_vars m' = (case LC_outcome met th cpt of
                        None \<Rightarrow> LC_vars m
                      | Some v \<Rightarrow> (LC_vars m)(met_id met \<mapsto> v))
     \<and> cons_dict m' = cons_dict m \<and> metabolites m' = metabolites m \<and> reactions m' = reactions m
     \<and> compartments m' = compartments m \<and> P_vars m' = P_vars m \<and> RT m' = RT m
     \<and> tol_feasibility m' = tol_feasibility m"
proof -
  note defs = convert_metabolite_def Let_def split_beta
  obtain th where 1: "met_thermo met = Some th"
    using assms by (cases "met_thermo met") (simp_all add: defs)
  obtain cpt where 2: "compartments m (met_compartment met) = Some cpt"
    using assms 1 by (cases "compartments m (met_compartment met)") (simp_all add: defs)
  have 3: "0 < c_min cpt \<and> 0 < c_max cpt"
    using assms 1 2 by (auto simp add: defs split: if_splits)
  have 4: "\<not> (c_min cpt \<le> 0 \<or> c_max cpt \<le> 0)" using 3 by auto
  consider (w) "formula met = ''H2O''"
    | (h) "formula met \<noteq> ''H2O''" "formula met = ''H''"
    | (b) "formula met \<noteq> ''H2O''" "formula met \<noteq> ''H''" "seed_id met = Some ''cpd11416''"
    | (r) "formula met \<noteq> ''H2O''" "formula met \<noteq> ''H''" "seed_id met \<noteq> Some ''cpd11416''"
          "deltaGf_tr th < 10 ^ 6"
    | (n) "formula met \<noteq> ''H2O''" "formula met \<noteq> ''H''" "seed_id met \<noteq> Some ''cpd11416''"
          "\<not> deltaGf_tr th < 10 ^ 6"
    by blast
  then show ?thesis
  proof cases
    case w
    have "m' = (snd (add_variable m LogConcentration (met_id met) (Some 0) (Some 0)))
       \<lparr>LC_vars := (LC_vars m)(met_id met \<mapsto>
           \<lparr>v_kind = LogConcentration, v_hook = met_id met, v_lb = Some 0, v_ub = Some 0\<rparr>)\<rparr>"
      using assms 1 2 4 w by (simp add: defs)
    then show ?thesis using 1 2 3 w by (simp add: LC_outcome_def)
  next
    case h
    have "m' = (snd (add_variable m LogConcentration (met_id met)
                   (Some (ln (10 powr (- pH cpt)))) (Some (ln (10 powr (- pH cpt))))))
       \<lparr>LC_vars := (LC_vars m)(met_id met \<mapsto>
           \<lparr>v_kind = LogConcentration, v_hook = met_id met,
            v_lb = Some (ln (10 powr (- pH cpt))), v_ub = Some (ln (10 powr (- pH cpt)))\<rparr>)\<rparr>"
      using assms 1 2 4 h by (simp add: defs)
    then show ?thesis using 1 2 3 h by (simp add: LC_outcome_def)
  next
    case b
    have "m' = m" using assms 1 2 4 b by (simp add: defs)
    then show ?thesis using 1 2 3 b by (simp add: LC_outcome_def)
  next
    case r
    have ap: "\<not> ap" using assms 1 2 4 r by (auto simp add: defs split: if_splits)
    have "m' = (snd (add_variable m LogConcentration (met_id met)
                   (Some (ln (c_min cpt))) (Some (ln (c_max cpt)))))
       \<lparr>LC_vars := (LC_vars m)(met_id met \<mapsto>
           \<lparr>v_kind = LogConcentration, v_hook = met_id met,
            v_lb = Some (ln (c_min cpt)), v_ub = Some (ln (c_max cpt))\<rparr>)\<rparr>"
      using assms 1 2 4 r ap by (simp add: defs)
    then show ?thesis using 1 2 3 r by (simp add: LC_outcome_def)
  next
    case n
    have "m' = m" using assms 1 2 4 n by (simp add: defs)
    then show ?thesis using 1 2 3 n by (simp add: LC_outcome_def)
  qed
qed

lemma convert_metabolites_frame:
  assumes "convert_metabolites num m mets ap = Inr m'"
  shows "cons_dict m' = cons_dict m \<and> metabolites m' = metabolites m \<and> reactions m' = reactions m
     \<and> compartments m' = compartments m \<and> P_vars m' = P_vars m \<and> RT m' = RT m
     \<and> tol_feasibility m' = tol_feasibility m
     \<and> (vars_ok (var_dict m) \<longrightarrow> vars_ok (var_dict m'))
     \<and> (i \<notin> set (map met_id mets) \<longrightarrow>
          map_of (var_dict m') (LogConcentration, i) = map_of (var_dict m) (LogConcentration, i)
          \<and> LC_vars m' i = LC_vars m i)"
  using assms
proof (induction mets arbitrary: m)
  case Nil
  then show ?case by simp
next
  case (Cons met mets)
  from Cons.prems obtain m1 where
    1: "convert_metabolite num m met ap = Inr m1"
    and 2: "convert_metabolites num m1 mets ap = Inr m'"
    by (auto split: sum.splits)
  from convert_metabolite_Inr[OF 1] obtain th cpt where
    vd: "var_dict m1 = (case LC_outcome met th cpt of
                        None \<Rightarrow> var_dict m
                      | Some v \<Rightarrow> AList.update (LogConcentration, met_id met) v (var_dict m))"
    and lc: "LC_vars m1 = (case LC_outcome met th cpt of
                        None \<Rightarrow> LC_vars m
                      | Some v \<Rightarrow> (LC_vars m)(met_id met \<mapsto> v))"
    and fr: "cons_dict m1 = cons_dict m" "metabolites m1 = metabolites m" "reactions m1 = reactions m"
      "compartments m1 = compartments m" "P_vars m1 = P_vars m" "RT m1 = RT m"
      "tol_feasibility m1 = tol_feasibility m"
    by blast
  have ok: "vars_ok (var_dict m) \<longrightarrow> vars_ok (var_dict m1)"
    unfolding vd LC_outcome_def by (simp add: vars_ok_update)
  have other: "i \<noteq> met_id met \<longrightarrow>
      map_of (var_dict m1) (LogConcentration, i) = map_of (var_dict m) (LogConcentration, i)
      \<and> LC_vars m1 i = LC_vars m i"
    unfolding vd lc by (simp add: update_conv' split: option.splits)
  from Cons.IH[OF 2] fr ok other show ?case by auto
qed

lemma convert_metabolites_emitted:
  assumes "convert_metabolites num m mets ap = Inr m'" and "met \<in> set mets"
    and "distinct (map met_id mets)"
  shows "\<exists>th cpt. met_thermo met = Some th \<and> compartments m (met_compartment met) = Some cpt
     \<and> 0 < c_min cpt \<and> 0 < c_max cpt
     \<and> map_of (var_dict m') (LogConcentration, met_id met)
          = (case LC_outcome met th cpt of
               None \<Rightarrow> map_of (var_dict m) (LogConcentration, met_id met)
             | Some v \<Rightarrow> Some v)
     \<and> LC_vars m' (met_id met)
          = (case LC_outcome met th cpt of None \<Rightarrow> LC_vars m (met_id met) | Some v \<Rightarrow> Some v)"
  using assms
proof (induction mets arbitrary: m)
  case Nil
  then show ?case by simp
next
  case (Cons x mets)
  from Cons.prems(1) obtain m1 where
    1: "convert_metabolite num m x ap = Inr m1"
    and 2: "convert_metabolites num m1 mets ap = Inr m'"
    by (auto split: sum.splits)
  from convert_metabolite_Inr[OF 1] obtain th cpt where
    t: "met_thermo x = Some th" "compartments m (met_compartment x) = Some cpt"
       "0 < c_min cpt \<and> 0 < c_max cpt"
    and vd: "var_dict m1 = (case LC_outcome x th cpt of
                        None \<Rightarrow> var_dict m
                      | Some v \<Rightarrow> AList.update (LogConcentration, met_id x) v (var_dict m))"
    and lc: "LC_vars m1 = (case LC_outcome x th cpt of
                        None \<Rightarrow> LC_vars m
                      | Some v \<Rightarrow> (LC_vars m)(met_id x \<mapsto> v))"
    and cp: "compartments m1 = compartments m"
    by blast
  show ?case
  proof (cases "met = x")
    case True
    have notin: "met_id met \<notin> set (map met_id mets)" using Cons.prems(3) True by simp
    from convert_metabolites_frame[OF 2, of "met_id met"] notin
    have keep: "map_of (var_dict m') (LogConcentration, met_id met)
                  = map_of (var_dict m1) (LogConcentration, met_id met)"
      "LC_vars m' (met_id met) = LC_vars m1 (met_id met)" by auto
    show ?thesis
      apply (rule exI[of _ th], rule exI[of _ cpt])
      using t True unfolding keep vd lc
      by (simp add: update_conv' split: option.splits)
  next
    case False
    then have mem: "met \<in> set mets" using Cons.prems(2) by simp
    have d: "distinct (map met_id mets)" using Cons.prems(3) by simp
    have "met_id met \<in> met_id ` set mets" using mem by (rule imageI)
    then have ne: "met_id met \<noteq> met_id x" using Cons.prems(3) by auto
    have same: "map_of (var_dict m1) (LogConcentration, met_id met)
                  = map_of (var_dict m) (LogConcentration, met_id met)"
      "LC_vars m1 (met_id met) = LC_vars m (met_id met)"
      unfolding vd lc using ne by (simp_all add: update_conv' split: option.splits)
    from Cons.IH[OF 2 mem d] show ?thesis unfolding cp same by simp
  qed
qed

lemma convert_Inr:
  assumes "convert lib num m ap ad = Inr m'"
  obtains rs m2 where
    "check_bounds (BIGM num) (reactions m) = Inr ()"
    "check_isTrans lib (metabolites m) (reactions m) = Inr rs"
    "convert_metabolites num
       (m\<lparr>metabolites := map (\<lambda>item. item\<lparr>met_name := replacements (met_name item)\<rparr>) (metabolites m),
          reactions := map (\<lambda>item. item\<lparr>rxn_name := replacements (rxn_name item)\<rparr>) rs,
          LC_vars := Map.empty, P_vars := Map.empty\<rparr>)
       (map (\<lambda>item. item\<lparr>met_name := replacements (met_name item)\<rparr>) (metabolites m)) ap = Inr m2"
    "convert_reactions lib num m2
       (map (\<lambda>item. item\<lparr>rxn_name := replacements (rxn_name item)\<rparr>) rs) ap ad = Inr m'"
proof -
  have 1: "check_bounds (BIGM num) (reactions m) = Inr ()"
    using assms by (cases "check_bounds (BIGM num) (reactions m)") (simp_all add: convert_def)
  obtain rs where 2: "check_isTrans lib (metabolites m) (reactions m) = Inr rs"
    using assms 1 by (cases "check_isTrans lib (metabolites m) (reactions m)")
      (simp_all add: convert_def)
  let ?m1 = "m\<lparr>metabolites := map (\<lambda>item. item\<lparr>met_name := replacements (met_name item)\<rparr>) (metabolites m),
          reactions := map (\<lambda>item. item\<lparr>rxn_name := replacements (rxn_name item)\<rparr>) rs,
          LC_vars := Map.empty, P_vars := Map.empty\<rparr>"
  obtain m2 where 3: "convert_metabolites num ?m1
       (map (\<lambda>item. item\<lparr>met_name := replacements (met_name item)\<rparr>) (metabolites m)) ap = Inr m2"
    using assms 1 2
    by (cases "convert_metabolites num ?m1
       (map (\<lambda>item. item\<lparr>met_name := replacements (met_name item)\<rparr>) (metabolites m)) ap")
      (simp_all add: convert_def Let_def)
  have r2: "reactions m2 = map (\<lambda>item. item\<lparr>rxn_name := replacements (rxn_name item)\<rparr>) rs"
    using convert_metabolites_frame[OF 3] by simp
  have 4: "convert_reactions lib num m2
       (map (\<lambda>item. item\<lparr>rxn_name := replacements (rxn_name item)\<rparr>) rs) ap ad = Inr m'"
    using assms 1 2 3 r2 by (simp add: convert_def Let_def)
  from 1 2 3 4 that show thesis by blast
qed

lemma toy_prepare: "prepare toy_lib toy_num toy_model = Inr toy_prepared"
  by (simp add: prepare_def toy_model_def toy_prepared_def toy_lib_def toy_num_def
        prepare_metabolite_def prepare_reaction_def reaction_start_def
        get_by_id_def Let_def)

lemma toy_convert_ok: "\<not> isl (convert toy_lib toy_num toy_prepared False True)"
  by (simp add: convert_def toy_prepared_def toy_model_def toy_lib_def toy_num_def
        convert_metabolite_def convert_reaction_def thermo_constraints_def energy_terms_def
        H2OtRxns_def reactants_def get_by_id_def add_variable_def add_constraint_def
        Let_def replacements_def)

lemma convert_facts:
  assumes "convert lib num m ap ad = Inr m'"
  obtains m2 where
    "convert_reactions lib num m2 (reactions m') ap ad = Inr m'"
    "reactions m2 = reactions m'" "metabolites m2 = metabolites m'"
    "metabolites m' = map (\<lambda>item. item\<lparr>met_name := replacements (met_name item)\<rparr>) (metabolites m)"
    "LC_vars m2 = LC_vars m'" "P_vars m2 = P_vars m'" "RT m2 = RT m'" "RT m' = RT m"
    "tol_feasibility m2 = tol_feasibility m'" "tol_feasibility m' = tol_feasibility m"
    "compartments m' = compartments m"
    "cons_dict m2 = cons_dict m"
    "vars_ok (var_dict m) \<Longrightarrow> vars_ok (var_dict m2)"
    "convert_metabolites num
       (m\<lparr>metabolites := metabolites m', reactions := reactions m',
          LC_vars := Map.empty, P_vars := Map.empty\<rparr>) (metabolites m') ap = Inr m2"
proof -
  from convert_Inr[OF assms] obtain rs m2 where
    3: "convert_metabolites num
       (m\<lparr>metabolites := map (\<lambda>item. item\<lparr>met_name := replacements (met_name item)\<rparr>) (metabolites m),
          reactions := map (\<lambda>item. item\<lparr>rxn_name := replacements (rxn_name item)\<rparr>) rs,
          LC_vars := Map.empty, P_vars := Map.empty\<rparr>)
       (map (\<lambda>item. item\<lparr>met_name := replacements (met_name item)\<rparr>) (metabolites m)) ap = Inr m2"
    and 4: "convert_reactions lib num m2
       (map (\<lambda>item. item\<lparr>rxn_name := replacements (rxn_name item)\<rparr>) rs) ap ad = Inr m'"
    by blast
  note f3 = convert_metabolites_frame[OF 3]
  note f4 = convert_reactions_frame[OF 4]
  have si: "same_inputs m2 m'" using f4 by blast
  have r: "reactions m' = map (\<lambda>item. item\<lparr>rxn_name := replacements (rxn_name item)\<rparr>) rs"
    using si f3 by (simp add: same_inputs_def)
  have mm: "metabolites m' = map (\<lambda>item. item\<lparr>met_name := replacements (met_name item)\<rparr>) (metabolites m)"
    using si f3 by (simp add: same_inputs_def)
  show thesis
  proof (rule that[of m2])
    show "convert_reactions lib num m2 (reactions m') ap ad = Inr m'" using 4 r by simp
    show "reactions m2 = reactions m'" using si by (simp add: same_inputs_def)
    show "metabolites m2 = metabolites m'" using si by (simp add: same_inputs_def)
    show "metabolites m' = map (\<lambda>item. item\<lparr>met_name := replacements (met_name item)\<rparr>) (metabolites m)"
      by (rule mm)
    show "LC_vars m2 = LC_vars m'" using si by (simp add: same_inputs_def)
    show "P_vars m2 = P_vars m'" using si by (simp add: same_inputs_def)
    show "RT m2 = RT m'" using si by (simp add: same_inputs_def)
    show "RT m' = RT m" using si f3 by (simp add: same_inputs_def)
    show "tol_feasibility m2 = tol_feasibility m'" using si by (simp add: same_inputs_def)
    show "tol_feasibility m' = tol_feasibility m" using si f3 by (simp add: same_inputs_def)
    show "compartments m' = compartments m" using si f3 by (simp add: same_inputs_def)
    show "cons_dict m2 = cons_dict m" using f3 by simp
    show "vars_ok (var_dict m) \<Longrightarrow> vars_ok (var_dict m2)" using f3 by simp
    show "convert_metabolites num
       (m\<lparr>metabolites := metabolites m', reactions := reactions m',
          LC_vars := Map.empty, P_vars := Map.empty\<rparr>) (metabolites m') ap = Inr m2"
      using 3 r mm by simp
  qed
qed

lemma expr_value_two [simp]: "expr_value sol [(x, a), (y, b)] = a * sol x + b * sol y"
  by (simp add: expr_value_def)

lemma toy_convert_Inr:
  "convert toy_lib toy_num toy_prepared False True
     = Inr (projr (convert toy_lib toy_num toy_prepared False True))"
  using toy_convert_ok by simp

lemmas toy_defs = convert_def toy_prepared_def toy_model_def toy_lib_def toy_num_def
        convert_metabolite_def convert_reaction_def thermo_constraints_def energy_terms_def
        H2OtRxns_def reactants_def get_by_id_def add_variable_def add_constraint_def
        Let_def replacements_def var_name_def cons_name_def variable_of_def

lemma toy_R1_mem: "toy_R1 \<in> set (reactions (projr (convert toy_lib toy_num toy_prepared False True)))"
  by (simp add: toy_defs toy_R1_def)

lemma toy_R1_H2Ot:
  "H2OtRxns (metabolites (projr (convert toy_lib toy_num toy_prepared False True))) toy_R1 = Inr False"
  by (simp add: toy_defs toy_R1_def)

lemma toy_R1_thermo:
  "rxn_thermo toy_R1 = Some \<lparr>isTrans = Some False, computed = Some True, deltaGR = Some (- 20),
                          deltaGRerr = Some 2, deltaGrxn = None\<rparr>"
  "computed \<lparr>isTrans = Some False, computed = Some True, deltaGR = Some (- 20),
                          deltaGRerr = Some 2, deltaGrxn = None\<rparr> = Some True"
  by (simp_all add: toy_R1_def)

lemma toy_num_simps:
  "BIGM toy_num = 1000" "BIGM_THERMO toy_num = 1000" "BIGM_DG toy_num = 1000"
  "BIGM_P toy_num = 1000"
  by (simp_all add: toy_num_def)

lemma toy_registry: "vars_ok (var_dict toy_prepared)" "cons_ok (cons_dict toy_prepared)"
  by (simp_all add: vars_ok_def cons_ok_def toy_prepared_def toy_model_def)

lemma toy_distinct:
  "distinct (map rxn_id (reactions (projr (convert toy_lib toy_num toy_prepared False True))))"
  by (simp add: toy_defs)

text \<open>
  C1. After a conversion that returns, every reaction with \<open>computed = True\<close> that is not
  a single-reactant water transport has the \<open>ForwardDeltaGCoupling\<close> constraint
  \<open>DeltaG + BIGM_THERMO * ForwardUse \<le> BIGM_THERMO - epsilon\<close> and the
  \<open>BackwardDeltaGCoupling\<close> constraint \<open>BIGM_THERMO * BackwardUse - DeltaG \<le> BIGM_THERMO - epsilon\<close>,
  with \<open>epsilon\<close> the feasibility tolerance of the solver. Hence every solution that
  satisfies the constraints of the model has \<open>DeltaG \<le> - epsilon\<close> when \<open>ForwardUse = 1\<close>
  and \<open>DeltaG \<ge> epsilon\<close> when \<open>BackwardUse = 1\<close>.
\<close>

theorem convert_emits_deltaG_coupling:
  assumes "convert lib num m add_potentials add_displacement = Inr m'"
    and "rxn \<in> set (reactions m')"
    and "rxn_thermo rxn = Some th" and "computed th = Some True"
    and "H2OtRxns (metabolites m') rxn = Inr False"
  shows
    "map_of (cons_dict m') (ForwardDeltaGCoupling, rxn_id rxn)
       = Some \<lparr>c_kind = ForwardDeltaGCoupling, c_hook = rxn_id rxn,
               c_expr = [(TVar DeltaG (rxn_id rxn), 1),
                         (TVar ForwardUseVariable (rxn_id rxn), BIGM_THERMO num)],
               c_lb = None, c_ub = Some (BIGM_THERMO num - tol_feasibility m')\<rparr>
     \<and> map_of (cons_dict m') (BackwardDeltaGCoupling, rxn_id rxn)
       = Some \<lparr>c_kind = BackwardDeltaGCoupling, c_hook = rxn_id rxn,
               c_expr = [(TVar BackwardUseVariable (rxn_id rxn), BIGM_THERMO num),
                         (TVar DeltaG (rxn_id rxn), - 1)],
               c_lb = None, c_ub = Some (BIGM_THERMO num - tol_feasibility m')\<rparr>
     \<and> (\<forall>sol. (\<forall>p \<in> set (cons_dict m'). satisfies sol (snd p)) \<longrightarrow>
           (sol (TVar ForwardUseVariable (rxn_id rxn)) = 1
              \<longrightarrow> sol (TVar DeltaG (rxn_id rxn)) \<le> - tol_feasibility m')
         \<and> (sol (TVar BackwardUseVariable (rxn_id rxn)) = 1
              \<longrightarrow> sol (TVar DeltaG (rxn_id rxn)) \<ge> tol_feasibility m'))"
proof -
  from convert_facts[OF assms(1)] obtain m2 where
    cr: "convert_reactions lib num m2 (reactions m') add_potentials add_displacement = Inr m'"
    and mm: "metabolites m2 = metabolites m'"
    and tf: "tol_feasibility m2 = tol_feasibility m'"
    by metis
  from convert_reactions_emitted(3)[OF cr assms(2,3,4), unfolded mm tf, OF assms(5)]
  have ce: "coupling_emitted num (tol_feasibility m') (rxn_id rxn) m'" by blast
  let ?fc = "\<lparr>c_kind = ForwardDeltaGCoupling, c_hook = rxn_id rxn,
               c_expr = [(TVar DeltaG (rxn_id rxn), 1),
                         (TVar ForwardUseVariable (rxn_id rxn), BIGM_THERMO num)],
               c_lb = None, c_ub = Some (BIGM_THERMO num - tol_feasibility m')\<rparr>"
  let ?bc = "\<lparr>c_kind = BackwardDeltaGCoupling, c_hook = rxn_id rxn,
               c_expr = [(TVar BackwardUseVariable (rxn_id rxn), BIGM_THERMO num),
                         (TVar DeltaG (rxn_id rxn), - 1)],
               c_lb = None, c_ub = Some (BIGM_THERMO num - tol_feasibility m')\<rparr>"
  have f: "map_of (cons_dict m') (ForwardDeltaGCoupling, rxn_id rxn) = Some ?fc"
    and b: "map_of (cons_dict m') (BackwardDeltaGCoupling, rxn_id rxn) = Some ?bc"
    using ce by (simp_all add: coupling_emitted_def)
  have fin: "((ForwardDeltaGCoupling, rxn_id rxn), ?fc) \<in> set (cons_dict m')"
    using f by (rule map_of_SomeD)
  have bin: "((BackwardDeltaGCoupling, rxn_id rxn), ?bc) \<in> set (cons_dict m')"
    using b by (rule map_of_SomeD)
  have sat: "(sol (TVar ForwardUseVariable (rxn_id rxn)) = 1
              \<longrightarrow> sol (TVar DeltaG (rxn_id rxn)) \<le> - tol_feasibility m')
         \<and> (sol (TVar BackwardUseVariable (rxn_id rxn)) = 1
              \<longrightarrow> sol (TVar DeltaG (rxn_id rxn)) \<ge> tol_feasibility m')"
    if all: "\<forall>p \<in> set (cons_dict m'). satisfies sol (snd p)" for sol
  proof -
    have "satisfies sol ?fc" "satisfies sol ?bc" using all fin bin by force+
    then show ?thesis by (auto simp add: satisfies_def)
  qed
  from f b sat show ?thesis by blast
qed

theorem convert_emits_deltaG_coupling_witness:
  "toy_R1 \<in> set (reactions (projr (convert toy_lib toy_num toy_prepared False True)))
   \<and> H2OtRxns (metabolites (projr (convert toy_lib toy_num toy_prepared False True))) toy_R1
       = Inr False
   \<and> map_of (cons_dict (projr (convert toy_lib toy_num toy_prepared False True)))
       (ForwardDeltaGCoupling, ''R1'')
       = Some \<lparr>c_kind = ForwardDeltaGCoupling, c_hook = ''R1'',
               c_expr = [(TVar DeltaG ''R1'', 1), (TVar ForwardUseVariable ''R1'', 1000)],
               c_lb = None, c_ub = Some (1000 - 1 / 1000000)\<rparr>"
proof -
  have tf: "tol_feasibility (projr (convert toy_lib toy_num toy_prepared False True)) = 1 / 1000000"
    by (simp add: toy_defs)
  show ?thesis
    using convert_emits_deltaG_coupling[OF toy_convert_Inr toy_R1_mem toy_R1_thermo toy_R1_H2Ot] toy_R1_mem toy_R1_H2Ot
    by (simp add: toy_R1_def toy_num_simps tf)
qed

lemma update_existing:
  "distinct (map fst cs) \<Longrightarrow> map_of cs k = Some v \<Longrightarrow>
   AList.update k w cs = map (\<lambda>p. if fst p = k then (k, w) else p) cs"
proof (induction cs)
  case Nil then show ?case by simp
next
  case (Cons q cs)
  obtain k' v' where q: "q = (k', v')" by (cases q)
  show ?case
  proof (cases "k' = k")
    case True
    then have "k \<notin> fst ` set cs" using Cons.prems(1) q by auto
    then have "map (\<lambda>p. if fst p = k then (k, w) else p) cs = cs"
      by (intro map_idI) auto
    then show ?thesis using True q by simp
  next
    case False
    then show ?thesis using Cons q by simp
  qed
qed

lemma map_of_shifted:
  "distinct (map fst S) \<Longrightarrow> map_of (map (\<lambda>p. (fst p, snd p + a (fst p))) S) k = Some v \<Longrightarrow>
   p \<in> set S \<Longrightarrow> fst p = k \<Longrightarrow> snd p + a k = v"
  by (induction S) (auto split: if_splits simp: rev_image_eqI)

lemma transport_type_Inr:
  assumes "transport_type lc rt t r (L, cs) = Inr (L1, cs1)" and "LC_ok lc"
    and met: "met = (if r then t_reactant t else t_product t)"
  shows "L1 = L @ (if formula met \<noteq> ''H''
                   then [(TVar LogConcentration (met_id met), rt * t_coeff t * (if r then - 1 else 1))]
                   else [])"
    and "\<exists>v. map_of cs (met_id met) = Some v
           \<and> cs1 = AList.update (met_id met) (v + t_coeff t * (if r then 1 else - 1)) cs"
proof -
  have u: "transport_type lc rt t r (L, cs) =
     (case (if formula met \<noteq> ''H''
               then (case lc (met_id met) of
                       None \<Rightarrow> Inl KeyError
                     | Some LC \<Rightarrow>
                         Inr (L @ [(variable_of LC, rt * t_coeff t * (if r then - 1 else 1))]))
               else Inr L) of
           Inl e \<Rightarrow> Inl e
         | Inr LX \<Rightarrow>
             (case map_of cs (met_id met) of
                None \<Rightarrow> Inl KeyError
              | Some v \<Rightarrow>
                  Inr (LX, AList.update (met_id met) (v + t_coeff t * (if r then 1 else - 1)) cs)))"
    by (cases r) (simp_all add: transport_type_def Let_def met cong: option.case_cong sum.case_cong)
  have "L1 = L @ (if formula met \<noteq> ''H''
                   then [(TVar LogConcentration (met_id met), rt * t_coeff t * (if r then - 1 else 1))]
                   else [])
      \<and> (\<exists>v. map_of cs (met_id met) = Some v
           \<and> cs1 = AList.update (met_id met) (v + t_coeff t * (if r then 1 else - 1)) cs)"
  proof (cases "formula met = ''H''")
    case True
    obtain v where v: "map_of cs (met_id met) = Some v"
      using assms(1) True unfolding u by (cases "map_of cs (met_id met)") simp_all
    show ?thesis using assms(1) True v unfolding u by simp
  next
    case False
    obtain LC where LC: "lc (met_id met) = Some LC"
      using assms(1) False unfolding u by (cases "lc (met_id met)") simp_all
    have vo: "variable_of LC = TVar LogConcentration (met_id met)"
      using LC assms(2) by (simp add: LC_ok_def)
    obtain v where v: "map_of cs (met_id met) = Some v"
      using assms(1) False LC unfolding u by (cases "map_of cs (met_id met)") simp_all
    show ?thesis using assms(1) False LC v vo unfolding u by simp
  qed
  then show "L1 = L @ (if formula met \<noteq> ''H''
                   then [(TVar LogConcentration (met_id met), rt * t_coeff t * (if r then - 1 else 1))]
                   else [])"
    and "\<exists>v. map_of cs (met_id met) = Some v
           \<and> cs1 = AList.update (met_id met) (v + t_coeff t * (if r then 1 else - 1)) cs"
    by blast+
qed

lemma transport_type_closed:
  assumes "transport_type lc rt t r (L, map (\<lambda>p. (fst p, snd p + a (fst p))) S) = Inr (L1, cs1)"
    and "distinct (map fst S)" and "LC_ok lc"
    and met: "met = (if r then t_reactant t else t_product t)"
  shows "L1 = L @ (if formula met \<noteq> ''H''
                   then [(TVar LogConcentration (met_id met), rt * t_coeff t * (if r then - 1 else 1))]
                   else [])"
    and "cs1 = map (\<lambda>p. (fst p, snd p + (a (fst p)
                 + (if fst p = met_id met then t_coeff t * (if r then 1 else - 1) else 0)))) S"
proof -
  let ?cs = "map (\<lambda>p. (fst p, snd p + a (fst p))) S"
  note i = transport_type_Inr[OF assms(1,3) met]
  show "L1 = L @ (if formula met \<noteq> ''H''
                   then [(TVar LogConcentration (met_id met), rt * t_coeff t * (if r then - 1 else 1))]
                   else [])" by (rule i(1))
  from i(2) obtain v where v: "map_of ?cs (met_id met) = Some v"
    and cs1: "cs1 = AList.update (met_id met) (v + t_coeff t * (if r then 1 else - 1)) ?cs"
    by blast
  have d: "distinct (map fst ?cs)" using assms(2) by (simp add: comp_def)
  have "cs1 = map (\<lambda>p. if fst p = met_id met
                        then (met_id met, v + t_coeff t * (if r then 1 else - 1)) else p) ?cs"
    unfolding cs1 by (rule update_existing[OF d v])
  also have "\<dots> = map (\<lambda>p. (fst p, snd p + (a (fst p)
                 + (if fst p = met_id met then t_coeff t * (if r then 1 else - 1) else 0)))) S"
    unfolding map_map comp_def
  proof (rule map_cong[OF refl])
    fix p assume p: "p \<in> set S"
    show "(if fst (fst p, snd p + a (fst p)) = met_id met
           then (met_id met, v + t_coeff t * (if r then 1 else - 1))
           else (fst p, snd p + a (fst p)))
        = (fst p, snd p + (a (fst p)
                 + (if fst p = met_id met then t_coeff t * (if r then 1 else - 1) else 0)))"
      using map_of_shifted[OF assms(2) v p] by (cases "fst p = met_id met") simp_all
  qed
  finally show "cs1 = map (\<lambda>p. (fst p, snd p + (a (fst p)
                 + (if fst p = met_id met then t_coeff t * (if r then 1 else - 1) else 0)))) S" .
qed

lemma transport_terms_closed:
  assumes "transport_terms lc rt T (L, map (\<lambda>p. (fst p, snd p + a (fst p))) S) = Inr (L', cs')"
    and "distinct (map fst S)" and "LC_ok lc"
  shows "L' = L @ transport_LC_terms rt T
       \<and> cs' = map (\<lambda>p. (fst p, snd p + (a (fst p) + transported_balance T (fst p)))) S"
  using assms(1)
proof (induction T arbitrary: L a)
  case Nil
  then show ?case by (simp add: transport_LC_terms_def transported_balance_def)
next
  case (Cons q T)
  obtain sid t where q: "q = (sid, t)" by (cases q)
  let ?cs = "map (\<lambda>p. (fst p, snd p + a (fst p))) S"
  obtain L1 cs1 where 1: "transport_type lc rt t True (L, ?cs) = Inr (L1, cs1)"
    using Cons.prems q by (cases "transport_type lc rt t True (L, ?cs)") auto
  obtain L2 cs2 where 2: "transport_type lc rt t False (L1, cs1) = Inr (L2, cs2)"
    using Cons.prems q 1 by (cases "transport_type lc rt t False (L1, cs1)") auto
  have 3: "transport_terms lc rt T (L2, cs2) = Inr (L', cs')"
    using Cons.prems q 1 2 by simp
  note c1 = transport_type_closed[OF 1 assms(2,3), of "t_reactant t"]
  let ?a1 = "\<lambda>i. a i + (if i = met_id (t_reactant t) then t_coeff t else 0)"
  have cs1: "cs1 = map (\<lambda>p. (fst p, snd p + ?a1 (fst p))) S" using c1(2) by simp
  note c2 = transport_type_closed[OF 2[unfolded cs1] assms(2,3), of "t_product t"]
  let ?a2 = "\<lambda>i. ?a1 i + (if i = met_id (t_product t) then - t_coeff t else 0)"
  have cs2: "cs2 = map (\<lambda>p. (fst p, snd p + ?a2 (fst p))) S" using c2(2) by simp
  from Cons.IH[OF 3[unfolded cs2]]
  have ih: "L' = L2 @ transport_LC_terms rt T"
    "cs' = map (\<lambda>p. (fst p, snd p + (?a2 (fst p) + transported_balance T (fst p)))) S"
    by blast+
  have "L' = L @ transport_LC_terms rt (q # T)"
    using ih(1) c1(1) c2(1) q by (simp add: transport_LC_terms_def)
  moreover have "cs' = map (\<lambda>p. (fst p, snd p + (a (fst p) + transported_balance (q # T) (fst p)))) S"
    unfolding ih(2) using q by (intro map_cong[OF refl]) (auto simp: transported_balance_def)
  ultimately show ?case by blast
qed

lemma chem_terms_closed:
  "chem_terms mets lc rt S acc = Inr R \<Longrightarrow> LC_ok lc \<Longrightarrow> R = acc @ chemical_LC_terms mets rt S"
proof (induction S arbitrary: acc)
  case Nil then show ?case by (simp add: chemical_LC_terms_def)
next
  case (Cons q S)
  obtain i v where q: "q = (i, v)" by (cases q)
  obtain met where met: "get_by_id mets i = Some met"
    using Cons.prems(1) q by (cases "get_by_id mets i") auto
  show ?case
  proof (cases "formula met \<noteq> ''H'' \<and> formula met \<noteq> ''H2O''")
    case True
    then obtain LC where LC: "lc i = Some LC" using Cons.prems(1) q met by (cases "lc i") auto
    have "chem_terms mets lc rt S (acc @ [(variable_of LC, rt * v)]) = Inr R"
      using Cons.prems(1) q met True LC by simp
    from Cons.IH[OF this Cons.prems(2)] LC Cons.prems(2) True q met show ?thesis
      by (simp add: chemical_LC_terms_def LC_ok_def)
  next
    case False
    then have "chem_terms mets lc rt S acc = Inr R" using Cons.prems(1) q met by auto
    from Cons.IH[OF this Cons.prems(2)] False q met show ?thesis
      by (auto simp add: chemical_LC_terms_def)
  qed
qed

lemma energy_terms_closed:
  assumes "energy_terms lib mets lc pv rt rxn ap tr = Inr (LT, LC)"
    and "distinct (map fst (rxn_metabolites rxn))" and "LC_ok lc"
  shows "LT = (if tr then transport_LC_terms rt (find_transported_mets lib mets rxn) else [])
     \<and> LC = (if tr
               then chemical_LC_terms mets rt
                      (chemical_stoichiometry (rxn_metabolites rxn) (find_transported_mets lib mets rxn))
               else if ap then []
               else chemical_LC_terms mets rt (rxn_metabolites rxn))"
proof (cases tr)
  case True
  let ?S = "rxn_metabolites rxn" and ?T = "find_transported_mets lib mets rxn"
  obtain L' cs' where 1: "transport_terms lc rt ?T ([], ?S) = Inr (L', cs')"
    using assms(1) True by (cases "transport_terms lc rt ?T ([], ?S)") (auto simp: energy_terms_def)
  then have 2: "chem_terms mets lc rt (filter (\<lambda>kv. snd kv \<noteq> 0) cs') [] = Inr LC" and LT: "LT = L'"
    using assms(1) True by (auto simp: energy_terms_def split: sum.splits)
  have t1: "transport_terms lc rt ?T ([], map (\<lambda>p. (fst p, snd p + (\<lambda>i. 0) (fst p))) ?S) = Inr (L', cs')"
    using 1 by simp
  from transport_terms_closed[OF t1 assms(2,3)]
  have L': "L' = transport_LC_terms rt ?T"
    and cs': "cs' = map (\<lambda>p. (fst p, snd p + transported_balance ?T (fst p))) ?S" by simp_all
  from chem_terms_closed[OF 2 assms(3)] have "LC = chemical_LC_terms mets rt (filter (\<lambda>kv. snd kv \<noteq> 0) cs')"
    by simp
  then show ?thesis using True LT L' cs' by (simp add: chemical_stoichiometry_def)
next
  case False
  note ntr = False
  show ?thesis
  proof (cases ap)
    case True
    then show ?thesis using assms(1) ntr by (auto simp: energy_terms_def split: sum.splits)
  next
    case False
    then have c: "chem_terms mets lc rt (rxn_metabolites rxn) [] = Inr LC" and l: "LT = []"
      using assms(1) ntr by (auto simp: energy_terms_def split: sum.splits)
    from chem_terms_closed[OF c assms(3)] l ntr False show ?thesis by simp
  qed
qed

lemma convert_metabolites_LC_ok:
  "convert_metabolites num m mets ap = Inr m' \<Longrightarrow> LC_ok (LC_vars m) \<Longrightarrow> LC_ok (LC_vars m')"
proof (induction mets arbitrary: m)
  case Nil then show ?case by simp
next
  case (Cons met mets)
  from Cons.prems(1) obtain m1 where
    1: "convert_metabolite num m met ap = Inr m1"
    and 2: "convert_metabolites num m1 mets ap = Inr m'"
    by (auto split: sum.splits)
  from convert_metabolite_Inr[OF 1] obtain th cpt where
    lc: "LC_vars m1 = (case LC_outcome met th cpt of
                        None \<Rightarrow> LC_vars m
                      | Some v \<Rightarrow> (LC_vars m)(met_id met \<mapsto> v))"
    by blast
  have "LC_ok (LC_vars m1)"
    unfolding lc using Cons.prems(2)
    by (auto simp: LC_ok_def LC_outcome_def variable_of_def split: option.splits if_splits)
  from Cons.IH[OF 2 this] show ?case .
qed

lemma convert_LC_ok:
  assumes "convert lib num m ap ad = Inr m'"
  shows "LC_ok (LC_vars m')"
proof -
  from convert_facts[OF assms] obtain m2 where
    lc: "LC_vars m2 = LC_vars m'"
    and cm: "convert_metabolites num
       (m\<lparr>metabolites := metabolites m', reactions := reactions m',
          LC_vars := Map.empty, P_vars := Map.empty\<rparr>) (metabolites m') ap = Inr m2"
    by blast
  have "LC_ok (LC_vars m2)"
    by (rule convert_metabolites_LC_ok[OF cm]) (simp add: LC_ok_def)
  then show ?thesis using lc by simp
qed

lemma transport_prepare: "prepare transport_lib toy_num transport_model = Inr transport_prepared"
  by (simp add: prepare_def transport_model_def transport_prepared_def transport_lib_def
        toy_model_def toy_lib_def toy_num_def
        prepare_metabolite_def prepare_reaction_def reaction_start_def get_by_id_def Let_def)

lemmas transport_defs = convert_def transport_prepared_def transport_model_def transport_lib_def
        toy_model_def toy_lib_def toy_num_def transport_type_def
        convert_metabolite_def convert_reaction_def thermo_constraints_def energy_terms_def
        H2OtRxns_def reactants_def get_by_id_def add_variable_def add_constraint_def
        Let_def replacements_def var_name_def cons_name_def variable_of_def

lemma transport_convert_ok: "\<not> isl (convert transport_lib toy_num transport_prepared False False)"
  by (simp add: transport_defs)

lemma transport_convert_Inr:
  "convert transport_lib toy_num transport_prepared False False
     = Inr (projr (convert transport_lib toy_num transport_prepared False False))"
  using transport_convert_ok by simp

lemma transport_T1_mem:
  "transport_T1 \<in> set (reactions (projr (convert transport_lib toy_num transport_prepared False False)))"
  by (simp add: transport_defs transport_T1_def)

lemma transport_T1_H2Ot:
  "H2OtRxns (metabolites (projr (convert transport_lib toy_num transport_prepared False False))) transport_T1
     = Inr False"
  by (simp add: transport_defs transport_T1_def)

lemma transport_T1_thermo:
  "rxn_thermo transport_T1 = Some \<lparr>isTrans = Some True, computed = Some True, deltaGR = Some (- 5),
                          deltaGRerr = Some 2, deltaGrxn = Some 0\<rparr>"
  "computed \<lparr>isTrans = Some True, computed = Some True, deltaGR = Some (- 5),
                          deltaGRerr = Some 2, deltaGrxn = Some 0\<rparr> = Some True"
  by (simp_all add: transport_T1_def)

lemma transport_registry: "cons_ok (cons_dict transport_prepared)"
  by (simp add: cons_ok_def transport_prepared_def transport_model_def toy_model_def)

lemma transport_distinct:
  "distinct (map rxn_id (reactions (projr (convert transport_lib toy_num transport_prepared False False))))"
  by (simp add: transport_defs)

lemma toy_R1_terms:
  "rxn_id toy_R1 = ''R1''"
  "chemical_LC_terms (metabolites (projr (convert toy_lib toy_num toy_prepared False True)))
      (RT (projr (convert toy_lib toy_num toy_prepared False True))) (rxn_metabolites toy_R1)
     = [(TVar LogConcentration ''A_c'', - 2), (TVar LogConcentration ''B_c'', 2)]"
  by (simp_all add: toy_defs toy_R1_def chemical_LC_terms_def)

lemma transport_T1_terms:
  "rxn_id transport_T1 = ''T1''"
  "transport_LC_terms (RT (projr (convert transport_lib toy_num transport_prepared False False)))
      (find_transported_mets transport_lib
         (metabolites (projr (convert transport_lib toy_num transport_prepared False False)))
         transport_T1)
     = [(TVar LogConcentration ''A_e'', - 2), (TVar LogConcentration ''A_c'', 2)]"
  "chemical_LC_terms (metabolites (projr (convert transport_lib toy_num transport_prepared False False)))
      (RT (projr (convert transport_lib toy_num transport_prepared False False)))
      (chemical_stoichiometry (rxn_metabolites transport_T1)
         (find_transported_mets transport_lib
            (metabolites (projr (convert transport_lib toy_num transport_prepared False False)))
            transport_T1))
     = [(TVar LogConcentration ''B_c'', - 2)]"
  by (simp_all add: transport_defs transport_T1_def chemical_LC_terms_def chemical_stoichiometry_def
        transported_balance_def transport_LC_terms_def)


text \<open>
  C2. After a conversion that returns, for a model whose reactions have distinct ids,
  every reaction that takes the thermo-constrained branch has a \<open>DeltaG\<close> variable with
  bounds \<open>[- BIGM_THERMO, BIGM_THERMO]\<close>, a \<open>DeltaGstd\<close> variable with bounds
  \<open>[deltaGR - deltaGRerr, deltaGR + deltaGRerr]\<close>, and exactly one \<open>NegativeDeltaG\<close>
  constraint, with both bounds \<open>0\<close>: \<open>DeltaGstd - DeltaG\<close> followed by the transport and the
  chemical log-concentration terms. For a transport reaction these are the terms
  \<open>- RT * coeff * LC\<close> and \<open>RT * coeff * LC\<close> of the reactant and the product form of every
  transported metabolite (protons left out), and the terms \<open>RT * coefficient * LC\<close> of the
  chemical stoichiometry, from which the transported amounts are taken out. For any other
  reaction there are no transport terms, and the chemical terms are the terms
  \<open>RT * coefficient * LC\<close> of the metabolites of the reaction that are neither \<open>H\<close> nor
  \<open>H2O\<close>, or nothing at all with \<open>add_potentials\<close>. The metabolites of a reaction are the
  keys of a dict, so they are distinct.
\<close>

theorem convert_emits_negative_deltaG:
  assumes "convert lib num m add_potentials add_displacement = Inr m'"
    and "rxn \<in> set (reactions m')"
    and "rxn_thermo rxn = Some th" and "computed th = Some True"
    and "H2OtRxns (metabolites m') rxn = Inr False"
    and "distinct (map rxn_id (reactions m'))"
    and "cons_ok (cons_dict m)"
    and "distinct (map fst (rxn_metabolites rxn))"
  shows
    "\<exists>dGR err tr.
       deltaGR th = Some dGR \<and> deltaGRerr th = Some err \<and> isTrans th = Some tr
       \<and> map_of (var_dict m') (DeltaG, rxn_id rxn)
            = Some \<lparr>v_kind = DeltaG, v_hook = rxn_id rxn,
                    v_lb = Some (- BIGM_THERMO num), v_ub = Some (BIGM_THERMO num)\<rparr>
       \<and> map_of (var_dict m') (DeltaGstd, rxn_id rxn)
            = Some \<lparr>v_kind = DeltaGstd, v_hook = rxn_id rxn,
                    v_lb = Some (dGR - err), v_ub = Some (dGR + err)\<rparr>
       \<and> filter (\<lambda>p. c_kind (snd p) = NegativeDeltaG \<and> c_hook (snd p) = rxn_id rxn) (cons_dict m')
            = [((NegativeDeltaG, rxn_id rxn),
                \<lparr>c_kind = NegativeDeltaG, c_hook = rxn_id rxn,
                 c_expr = [(TVar DeltaGstd (rxn_id rxn), 1), (TVar DeltaG (rxn_id rxn), - 1)]
                   @ (if tr
                      then transport_LC_terms (RT m') (find_transported_mets lib (metabolites m') rxn)
                      else [])
                   @ (if tr
                      then chemical_LC_terms (metabolites m') (RT m')
                             (chemical_stoichiometry (rxn_metabolites rxn)
                                (find_transported_mets lib (metabolites m') rxn))
                      else if add_potentials then []
                      else chemical_LC_terms (metabolites m') (RT m') (rxn_metabolites rxn)),
                 c_lb = Some 0, c_ub = Some 0\<rparr>)]"
proof -
  from convert_facts[OF assms(1)] obtain m2 where
    cr: "convert_reactions lib num m2 (reactions m') add_potentials add_displacement = Inr m'"
    and eq: "metabolites m2 = metabolites m'" "tol_feasibility m2 = tol_feasibility m'"
      "LC_vars m2 = LC_vars m'" "P_vars m2 = P_vars m'" "RT m2 = RT m'"
    and cd2: "cons_dict m2 = cons_dict m"
    by metis
  note fr = convert_reactions_frame[OF cr]
  have co: "cons_ok (cons_dict m')" using fr cd2 assms(7) by simp
  from convert_reactions_emitted(3)[OF cr assms(2,3,4), unfolded eq, OF assms(5)]
  have ce: "coupling_emitted num (tol_feasibility m') (rxn_id rxn) m'" by blast
  from convert_reactions_emitted(4)[OF cr assms(2,3,4), unfolded eq, OF assms(5,6)]
  obtain dGR err tr LT LC where
    e: "deltaGR th = Some dGR" "deltaGRerr th = Some err" "isTrans th = Some tr"
    and et: "energy_terms lib (metabolites m') (LC_vars m') (P_vars m') (RT m') rxn add_potentials tr
          = Inr (LT, LC)"
    and be: "balance_emitted dGR err LT LC (rxn_id rxn) m'"
    by blast
  note cl = energy_terms_closed[OF et assms(8) convert_LC_ok[OF assms(1)]]
  have LT: "LT = (if tr
                  then transport_LC_terms (RT m') (find_transported_mets lib (metabolites m') rxn)
                  else [])"
    using cl by blast
  have LC: "LC = (if tr
                      then chemical_LC_terms (metabolites m') (RT m')
                             (chemical_stoichiometry (rxn_metabolites rxn)
                                (find_transported_mets lib (metabolites m') rxn))
                      else if add_potentials then []
                      else chemical_LC_terms (metabolites m') (RT m') (rxn_metabolites rxn))"
    using cl by blast
  have "map_of (var_dict m') (DeltaG, rxn_id rxn)
            = Some \<lparr>v_kind = DeltaG, v_hook = rxn_id rxn,
                    v_lb = Some (- BIGM_THERMO num), v_ub = Some (BIGM_THERMO num)\<rparr>
       \<and> map_of (var_dict m') (DeltaGstd, rxn_id rxn)
            = Some \<lparr>v_kind = DeltaGstd, v_hook = rxn_id rxn,
                    v_lb = Some (dGR - err), v_ub = Some (dGR + err)\<rparr>
       \<and> filter (\<lambda>p. c_kind (snd p) = NegativeDeltaG \<and> c_hook (snd p) = rxn_id rxn) (cons_dict m')
            = [((NegativeDeltaG, rxn_id rxn),
                \<lparr>c_kind = NegativeDeltaG, c_hook = rxn_id rxn,
                 c_expr = [(TVar DeltaGstd (rxn_id rxn), 1), (TVar DeltaG (rxn_id rxn), - 1)]
                            @ LT @ LC,
                 c_lb = Some 0, c_ub = Some 0\<rparr>)]"
    using ce be unfolding coupling_emitted_def balance_emitted_def
    by (simp add: cons_ok_filter[OF co])
  note main = this
  show ?thesis
    apply (rule exI[of _ dGR], rule exI[of _ err], rule exI[of _ tr])
    using e main unfolding LT LC by simp
qed

theorem convert_emits_negative_deltaG_witness:
  "distinct (map rxn_id (reactions (projr (convert toy_lib toy_num toy_prepared False True))))
   \<and> map_of (var_dict (projr (convert toy_lib toy_num toy_prepared False True))) (DeltaGstd, ''R1'')
       = Some \<lparr>v_kind = DeltaGstd, v_hook = ''R1'', v_lb = Some (- 22), v_ub = Some (- 18)\<rparr>
   \<and> map_of (var_dict (projr (convert toy_lib toy_num toy_prepared False True))) (DeltaG, ''R1'')
       = Some \<lparr>v_kind = DeltaG, v_hook = ''R1'', v_lb = Some (- 1000), v_ub = Some 1000\<rparr>
   \<and> filter (\<lambda>p. c_kind (snd p) = NegativeDeltaG \<and> c_hook (snd p) = ''R1'')
        (cons_dict (projr (convert toy_lib toy_num toy_prepared False True)))
       = [((NegativeDeltaG, ''R1''),
           \<lparr>c_kind = NegativeDeltaG, c_hook = ''R1'',
            c_expr = [(TVar DeltaGstd ''R1'', 1), (TVar DeltaG ''R1'', - 1),
                      (TVar LogConcentration ''A_c'', - 2), (TVar LogConcentration ''B_c'', 2)],
            c_lb = Some 0, c_ub = Some 0\<rparr>)]
   \<and> filter (\<lambda>p. c_kind (snd p) = NegativeDeltaG \<and> c_hook (snd p) = ''T1'')
        (cons_dict (projr (convert transport_lib toy_num transport_prepared False False)))
       = [((NegativeDeltaG, ''T1''),
           \<lparr>c_kind = NegativeDeltaG, c_hook = ''T1'',
            c_expr = [(TVar DeltaGstd ''T1'', 1), (TVar DeltaG ''T1'', - 1),
                      (TVar LogConcentration ''A_e'', - 2), (TVar LogConcentration ''A_c'', 2),
                      (TVar LogConcentration ''B_c'', - 2)],
            c_lb = Some 0, c_ub = Some 0\<rparr>)]"
proof -
  have d1: "distinct (map fst (rxn_metabolites toy_R1))" by (simp add: toy_R1_def)
  have d2: "distinct (map fst (rxn_metabolites transport_T1))" by (simp add: transport_T1_def)
  note a = convert_emits_negative_deltaG[OF toy_convert_Inr toy_R1_mem toy_R1_thermo toy_R1_H2Ot
      toy_distinct toy_registry(2) d1]
  note b = convert_emits_negative_deltaG[OF transport_convert_Inr transport_T1_mem transport_T1_thermo
      transport_T1_H2Ot transport_distinct transport_registry d2]
  have A: "map_of (var_dict (projr (convert toy_lib toy_num toy_prepared False True))) (DeltaGstd, ''R1'')
       = Some \<lparr>v_kind = DeltaGstd, v_hook = ''R1'', v_lb = Some (- 22), v_ub = Some (- 18)\<rparr>
   \<and> map_of (var_dict (projr (convert toy_lib toy_num toy_prepared False True))) (DeltaG, ''R1'')
       = Some \<lparr>v_kind = DeltaG, v_hook = ''R1'', v_lb = Some (- 1000), v_ub = Some 1000\<rparr>
   \<and> filter (\<lambda>p. c_kind (snd p) = NegativeDeltaG \<and> c_hook (snd p) = ''R1'')
        (cons_dict (projr (convert toy_lib toy_num toy_prepared False True)))
       = [((NegativeDeltaG, ''R1''),
           \<lparr>c_kind = NegativeDeltaG, c_hook = ''R1'',
            c_expr = [(TVar DeltaGstd ''R1'', 1), (TVar DeltaG ''R1'', - 1),
                      (TVar LogConcentration ''A_c'', - 2), (TVar LogConcentration ''B_c'', 2)],
            c_lb = Some 0, c_ub = Some 0\<rparr>)]"
    using a by (auto simp add: toy_R1_terms toy_num_simps)
  have B: "filter (\<lambda>p. c_kind (snd p) = NegativeDeltaG \<and> c_hook (snd p) = ''T1'')
        (cons_dict (projr (convert transport_lib toy_num transport_prepared False False)))
       = [((NegativeDeltaG, ''T1''),
           \<lparr>c_kind = NegativeDeltaG, c_hook = ''T1'',
            c_expr = [(TVar DeltaGstd ''T1'', 1), (TVar DeltaG ''T1'', - 1),
                      (TVar LogConcentration ''A_e'', - 2), (TVar LogConcentration ''A_c'', 2),
                      (TVar LogConcentration ''B_c'', - 2)],
            c_lb = Some 0, c_ub = Some 0\<rparr>)]"
    using b by (auto simp add: transport_T1_terms toy_num_simps)
  from A B toy_distinct show ?thesis by blast
qed

text \<open>
  C3. After a conversion that returns, the registry (whose keys are the names of its
  entries, as for any registry built by \<open>add_variable\<close> and \<open>add_constraint\<close>) holds for
  every reaction of the model, thermo-constrained or not, exactly one
  \<open>ForwardUseVariable\<close>, exactly one \<open>BackwardUseVariable\<close>, exactly one \<open>SimultaneousUse\<close>
  constraint \<open>ForwardUse + BackwardUse\<close> with bounds \<open>[0, 1]\<close>, one
  \<open>ForwardDirectionCoupling\<close> constraint \<open>forward - BIGM * ForwardUse \<le> 0\<close> and one
  \<open>BackwardDirectionCoupling\<close> constraint \<open>reverse - BIGM * BackwardUse \<le> 0\<close>.
\<close>

theorem convert_emits_use_constraints:
  assumes "convert lib num m add_potentials add_displacement = Inr m'"
    and "rxn \<in> set (reactions m')"
    and "vars_ok (var_dict m)" and "cons_ok (cons_dict m)"
  shows
    "filter (\<lambda>p. v_kind (snd p) = ForwardUseVariable \<and> v_hook (snd p) = rxn_id rxn) (var_dict m')
       = [((ForwardUseVariable, rxn_id rxn),
           \<lparr>v_kind = ForwardUseVariable, v_hook = rxn_id rxn, v_lb = None, v_ub = None\<rparr>)]
     \<and> filter (\<lambda>p. v_kind (snd p) = BackwardUseVariable \<and> v_hook (snd p) = rxn_id rxn) (var_dict m')
       = [((BackwardUseVariable, rxn_id rxn),
           \<lparr>v_kind = BackwardUseVariable, v_hook = rxn_id rxn, v_lb = None, v_ub = None\<rparr>)]
     \<and> filter (\<lambda>p. c_kind (snd p) = SimultaneousUse \<and> c_hook (snd p) = rxn_id rxn) (cons_dict m')
       = [((SimultaneousUse, rxn_id rxn),
           \<lparr>c_kind = SimultaneousUse, c_hook = rxn_id rxn,
            c_expr = [(TVar ForwardUseVariable (rxn_id rxn), 1),
                      (TVar BackwardUseVariable (rxn_id rxn), 1)],
            c_lb = Some 0, c_ub = Some 1\<rparr>)]
     \<and> filter (\<lambda>p. c_kind (snd p) = ForwardDirectionCoupling \<and> c_hook (snd p) = rxn_id rxn)
         (cons_dict m')
       = [((ForwardDirectionCoupling, rxn_id rxn),
           \<lparr>c_kind = ForwardDirectionCoupling, c_hook = rxn_id rxn,
            c_expr = [(forward_variable (rxn_id rxn), 1),
                      (TVar ForwardUseVariable (rxn_id rxn), - BIGM num)],
            c_lb = None, c_ub = Some 0\<rparr>)]
     \<and> filter (\<lambda>p. c_kind (snd p) = BackwardDirectionCoupling \<and> c_hook (snd p) = rxn_id rxn)
         (cons_dict m')
       = [((BackwardDirectionCoupling, rxn_id rxn),
           \<lparr>c_kind = BackwardDirectionCoupling, c_hook = rxn_id rxn,
            c_expr = [(reverse_variable (rxn_id rxn), 1),
                      (TVar BackwardUseVariable (rxn_id rxn), - BIGM num)],
            c_lb = None, c_ub = Some 0\<rparr>)]"
proof -
  from convert_facts[OF assms(1)] obtain m2 where
    cr: "convert_reactions lib num m2 (reactions m') add_potentials add_displacement = Inr m'"
    and cd2: "cons_dict m2 = cons_dict m"
    and vo2: "vars_ok (var_dict m) \<Longrightarrow> vars_ok (var_dict m2)"
    by metis
  note fr = convert_reactions_frame[OF cr]
  have vo: "vars_ok (var_dict m')" using fr vo2 assms(3) by blast
  have co: "cons_ok (cons_dict m')" using fr cd2 assms(4) by simp
  have ue: "use_emitted num (rxn_id rxn) m'"
    by (rule convert_reactions_emitted(1)[OF cr assms(2)])
  show ?thesis
    using ue unfolding use_emitted_def
    by (simp add: vars_ok_filter[OF vo] cons_ok_filter[OF co])
qed

theorem convert_emits_use_constraints_witness:
  "vars_ok (var_dict toy_prepared) \<and> cons_ok (cons_dict toy_prepared)
   \<and> toy_R1 \<in> set (reactions (projr (convert toy_lib toy_num toy_prepared False True)))
   \<and> filter (\<lambda>p. c_kind (snd p) = SimultaneousUse \<and> c_hook (snd p) = ''R1'')
        (cons_dict (projr (convert toy_lib toy_num toy_prepared False True)))
       = [((SimultaneousUse, ''R1''),
           \<lparr>c_kind = SimultaneousUse, c_hook = ''R1'',
            c_expr = [(TVar ForwardUseVariable ''R1'', 1), (TVar BackwardUseVariable ''R1'', 1)],
            c_lb = Some 0, c_ub = Some 1\<rparr>)]"
  using convert_emits_use_constraints[OF toy_convert_Inr toy_R1_mem toy_registry] toy_R1_mem toy_registry
  by (simp add: toy_R1_def)

text \<open>
  C8, as the code has it. With \<open>add_displacement\<close>, after a conversion that returns, every
  thermo-constrained reaction has a \<open>ThermoDisplacement\<close> variable with bounds
  \<open>[- BIGM_P, BIGM_P]\<close> and a \<open>DisplacementCoupling\<close> constraint \<open>lnGamma - (1/RT) * DeltaG\<close>
  with both bounds \<open>0\<close>; \<open>RT\<close> is not zero, and a solution satisfies the constraint exactly
  when \<open>lnGamma = DeltaG / RT\<close>: the sign is that of the comment on line 483, not the
  \<open>- DeltaG / RT\<close> of the claim.
\<close>

theorem convert_emits_displacement_coupling:
  assumes "convert lib num m add_potentials True = Inr m'"
    and "rxn \<in> set (reactions m')"
    and "rxn_thermo rxn = Some th" and "computed th = Some True"
    and "H2OtRxns (metabolites m') rxn = Inr False"
  shows
    "map_of (var_dict m') (ThermoDisplacement, rxn_id rxn)
       = Some \<lparr>v_kind = ThermoDisplacement, v_hook = rxn_id rxn,
               v_lb = Some (- BIGM_P num), v_ub = Some (BIGM_P num)\<rparr>
     \<and> map_of (cons_dict m') (DisplacementCoupling, rxn_id rxn)
       = Some \<lparr>c_kind = DisplacementCoupling, c_hook = rxn_id rxn,
               c_expr = [(TVar ThermoDisplacement (rxn_id rxn), 1),
                         (TVar DeltaG (rxn_id rxn), - (1 / RT m'))],
               c_lb = Some 0, c_ub = Some 0\<rparr>
     \<and> RT m' \<noteq> 0
     \<and> (\<forall>sol. satisfies sol
                 \<lparr>c_kind = DisplacementCoupling, c_hook = rxn_id rxn,
                  c_expr = [(TVar ThermoDisplacement (rxn_id rxn), 1),
                            (TVar DeltaG (rxn_id rxn), - (1 / RT m'))],
                  c_lb = Some 0, c_ub = Some 0\<rparr>
               \<longleftrightarrow> sol (TVar ThermoDisplacement (rxn_id rxn))
                     = sol (TVar DeltaG (rxn_id rxn)) / RT m')"
proof -
  from convert_facts[OF assms(1)] obtain m2 where
    cr: "convert_reactions lib num m2 (reactions m') add_potentials True = Inr m'"
    and eq: "metabolites m2 = metabolites m'" "tol_feasibility m2 = tol_feasibility m'"
      "RT m2 = RT m'"
    by metis
  from convert_reactions_emitted(3)[OF cr assms(2,3,4), unfolded eq, OF assms(5)]
  have de: "displacement_emitted num (RT m') (rxn_id rxn) m'" and rt: "RT m' \<noteq> 0" by blast+
  have "satisfies sol
                 \<lparr>c_kind = DisplacementCoupling, c_hook = rxn_id rxn,
                  c_expr = [(TVar ThermoDisplacement (rxn_id rxn), 1),
                            (TVar DeltaG (rxn_id rxn), - (1 / RT m'))],
                  c_lb = Some 0, c_ub = Some 0\<rparr>
               \<longleftrightarrow> sol (TVar ThermoDisplacement (rxn_id rxn))
                     = sol (TVar DeltaG (rxn_id rxn)) / RT m'" for sol
    by (auto simp add: satisfies_def)
  then show ?thesis using de rt unfolding displacement_emitted_def by blast
qed

theorem convert_emits_displacement_coupling_witness:
  "toy_R1 \<in> set (reactions (projr (convert toy_lib toy_num toy_prepared False True)))
   \<and> map_of (var_dict (projr (convert toy_lib toy_num toy_prepared False True)))
       (ThermoDisplacement, ''R1'')
       = Some \<lparr>v_kind = ThermoDisplacement, v_hook = ''R1'',
               v_lb = Some (- 1000), v_ub = Some 1000\<rparr>"
  using convert_emits_displacement_coupling[OF toy_convert_Inr toy_R1_mem toy_R1_thermo toy_R1_H2Ot] toy_R1_mem
  by (simp add: toy_R1_def toy_num_simps)

text \<open>
  C8 as stated fails on the toy model: the \<open>DisplacementCoupling\<close> constraint of \<open>R1\<close> is
  satisfied by \<open>lnGamma = 1\<close>, \<open>DeltaG = 2\<close> with \<open>RT = 2\<close>, where \<open>- DeltaG / RT = - 1\<close>.
\<close>

theorem displacement_coupling_sign_counterexample:
  "map_of (cons_dict (projr (convert toy_lib toy_num toy_prepared False True)))
       (DisplacementCoupling, ''R1'')
     = Some \<lparr>c_kind = DisplacementCoupling, c_hook = ''R1'',
             c_expr = [(TVar ThermoDisplacement ''R1'', 1), (TVar DeltaG ''R1'', - (1 / 2))],
             c_lb = Some 0, c_ub = Some 0\<rparr>
   \<and> satisfies toy_solution
        \<lparr>c_kind = DisplacementCoupling, c_hook = ''R1'',
         c_expr = [(TVar ThermoDisplacement ''R1'', 1), (TVar DeltaG ''R1'', - (1 / 2))],
         c_lb = Some 0, c_ub = Some 0\<rparr>
   \<and> toy_solution (TVar ThermoDisplacement ''R1'')
        \<noteq> - toy_solution (TVar DeltaG ''R1'') / RT toy_prepared"
  by (simp add: toy_defs satisfies_def toy_solution_def)

section \<open>The flux-bounds check of \<open>convert\<close>\<close>

lemma check_bounds_Inl:
  "check_bounds bigM rs = Inl FluxBoundsTooWide \<longleftrightarrow>
     (\<exists>reaction \<in> set rs. lower_bound reaction < - bigM \<or> upper_bound reaction > bigM)"
  by (induction rs) auto

lemma check_bounds_cases:
  "check_bounds bigM rs = Inl FluxBoundsTooWide \<or> check_bounds bigM rs = Inr ()"
  by (induction rs) auto

lemma check_isTrans_err: "check_isTrans lib mets rs \<noteq> Inl FluxBoundsTooWide"
  by (induction rs) (auto split: option.splits sum.splits)

lemma transport_type_err: "transport_type lc rt t b acc \<noteq> Inl FluxBoundsTooWide"
  by (cases acc) (auto simp: transport_type_def Let_def split: option.splits sum.splits)

lemma transport_terms_err: "transport_terms lc rt l acc \<noteq> Inl FluxBoundsTooWide"
  by (induction lc rt l acc rule: transport_terms.induct)
     (auto simp: transport_type_err split: sum.splits)

lemma chem_terms_err: "chem_terms mets lc rt l acc \<noteq> Inl FluxBoundsTooWide"
  by (induction mets lc rt l acc rule: chem_terms.induct) (auto split: option.splits)

lemma potential_terms_err: "potential_terms mets pv l acc \<noteq> Inl FluxBoundsTooWide"
  by (induction mets pv l acc rule: potential_terms.induct) (auto split: option.splits)

lemma energy_terms_err: "energy_terms lib mets lc pv rt rxn ap tr \<noteq> Inl FluxBoundsTooWide"
  using transport_terms_err chem_terms_err potential_terms_err
  by (auto simp: energy_terms_def split: sum.splits prod.splits)

lemma H2OtRxns_err: "H2OtRxns mets rxn \<noteq> Inl FluxBoundsTooWide"
  by (auto simp: H2OtRxns_def split: option.splits list.splits)

lemma convert_metabolite_err: "convert_metabolite num m met ap \<noteq> Inl FluxBoundsTooWide"
  by (auto simp: convert_metabolite_def Let_def split: option.splits prod.splits)

lemma convert_metabolites_err: "convert_metabolites num m mets ap \<noteq> Inl FluxBoundsTooWide"
  by (induction mets arbitrary: m) (auto simp: convert_metabolite_err split: sum.splits)

lemma thermo_constraints_err:
  "thermo_constraints lib num m rxn th ap ad \<noteq> Inl FluxBoundsTooWide"
proof (cases "deltaGRerr th")
  case None
  then show ?thesis by (simp add: thermo_constraints_def Let_def split_beta)
next
  case (Some err)
  note 1 = this
  show ?thesis
  proof (cases "deltaGR th")
    case None
    then show ?thesis using 1 by (simp add: thermo_constraints_def Let_def split_beta)
  next
    case (Some dGR)
    note 2 = this
    show ?thesis
    proof (cases "isTrans th")
      case None
      then show ?thesis using 1 2 by (simp add: thermo_constraints_def Let_def split_beta)
    next
      case (Some tr)
      note 3 = this
      show ?thesis
      proof (cases "energy_terms lib (metabolites m) (LC_vars m) (P_vars m) (RT m) rxn ap tr")
        case (Inl e)
        then have "e \<noteq> FluxBoundsTooWide" using energy_terms_err by metis
        then show ?thesis using 1 2 3 Inl by (simp add: thermo_constraints_def Let_def split_beta)
      next
        case (Inr x)
        then show ?thesis using 1 2 3
          by (cases x) (simp add: thermo_constraints_def Let_def split_beta)
      qed
    qed
  qed
qed

lemma convert_reaction_err: "convert_reaction lib num m rxn ap ad \<noteq> Inl FluxBoundsTooWide"
proof (cases "H2OtRxns (metabolites m) rxn")
  case (Inl e)
  then have "e \<noteq> FluxBoundsTooWide" using H2OtRxns_err by metis
  then show ?thesis using Inl by (simp add: convert_reaction_def)
next
  case (Inr h2ot)
  note 1 = this
  show ?thesis
  proof (cases "rxn_thermo rxn")
    case None
    then show ?thesis using 1 by (simp add: convert_reaction_def)
  next
    case (Some th)
    note 2 = this
    show ?thesis
    proof (cases "computed th")
      case None
      then show ?thesis using 1 2 by (simp add: convert_reaction_def)
    next
      case (Some cmp)
      note 3 = this
      show ?thesis
      proof (cases "cmp \<and> \<not> h2ot")
        case True
        show ?thesis
        proof (cases "thermo_constraints lib num m rxn th ap ad")
          case (Inl e)
          then have "e \<noteq> FluxBoundsTooWide" using thermo_constraints_err by metis
          then show ?thesis using 1 2 3 True Inl by (simp add: convert_reaction_def)
        next
          case (Inr x)
          then show ?thesis using 1 2 3 True
            by (simp add: convert_reaction_def Let_def split_beta)
        qed
      next
        case False
        then show ?thesis using 1 2 3 by (auto simp add: convert_reaction_def Let_def split_beta)
      qed
    qed
  qed
qed

lemma convert_reactions_err: "convert_reactions lib num m rs ap ad \<noteq> Inl FluxBoundsTooWide"
  by (induction rs arbitrary: m) (auto simp: convert_reaction_err split: sum.splits)

text \<open>
  C7, as the code has it. \<open>convert\<close> raises the flux-bounds exception exactly when some
  reaction has \<open>lower_bound < - BIGM\<close> or \<open>upper_bound > BIGM\<close>; a bound equal to \<open>- BIGM\<close> or
  \<open>BIGM\<close> passes the check. The check is the first step, so that nothing has been added
  to the registry when the exception is raised.
\<close>

theorem convert_flux_bounds_check:
  "convert lib num m add_potentials add_displacement = Inl FluxBoundsTooWide \<longleftrightarrow>
     (\<exists>reaction \<in> set (reactions m).
        lower_bound reaction < - BIGM num \<or> upper_bound reaction > BIGM num)"
proof (cases "check_bounds (BIGM num) (reactions m) = Inl FluxBoundsTooWide")
  case True
  then have "convert lib num m add_potentials add_displacement = Inl FluxBoundsTooWide"
    by (simp add: convert_def)
  then show ?thesis using True check_bounds_Inl by blast
next
  case False
  then have ok: "check_bounds (BIGM num) (reactions m) = Inr ()"
    using check_bounds_cases by blast
  have "convert lib num m add_potentials add_displacement \<noteq> Inl FluxBoundsTooWide"
  proof (cases "check_isTrans lib (metabolites m) (reactions m)")
    case (Inl e)
    then have "e \<noteq> FluxBoundsTooWide" using check_isTrans_err by metis
    then show ?thesis using ok Inl by (simp add: convert_def)
  next
    case (Inr rs)
    show ?thesis
      using ok Inr convert_metabolites_err convert_reactions_err
      by (auto simp add: convert_def Let_def split: sum.splits)
  qed
  then show ?thesis using False check_bounds_Inl by blast
qed

theorem convert_flux_bounds_check_witness:
  "(\<exists>reaction \<in> set (reactions toy_wide).
        lower_bound reaction < - BIGM toy_num \<or> upper_bound reaction > BIGM toy_num)
   \<and> convert toy_lib toy_num toy_wide False False = Inl FluxBoundsTooWide"
proof -
  have h: "\<exists>reaction \<in> set (reactions toy_wide).
        lower_bound reaction < - BIGM toy_num \<or> upper_bound reaction > BIGM toy_num"
    by (simp add: toy_wide_def toy_R1_def toy_num_simps)
  with convert_flux_bounds_check[of toy_lib toy_num toy_wide False False] show ?thesis by blast
qed

text \<open>
  C7 as stated fails on the toy model: the bounds of \<open>R1\<close> are \<open>- BIGM\<close> and \<open>BIGM\<close>, which is
  not strictly inside \<open>[- BIGM, BIGM]\<close>, and the conversion returns.
\<close>

theorem flux_bounds_not_strict_counterexample:
  "toy_R1 \<in> set (reactions toy_prepared)
   \<and> \<not> (- BIGM toy_num < lower_bound toy_R1 \<and> upper_bound toy_R1 < BIGM toy_num)
   \<and> \<not> isl (convert toy_lib toy_num toy_prepared False True)"
proof -
  have 1: "toy_R1 \<in> set (reactions toy_prepared)" by (simp add: toy_prepared_def toy_R1_def)
  have 2: "\<not> (- BIGM toy_num < lower_bound toy_R1 \<and> upper_bound toy_R1 < BIGM toy_num)"
    by (simp add: toy_R1_def toy_num_simps)
  from 1 2 toy_convert_ok show ?thesis by blast
qed

section \<open>The variables of the metabolites\<close>

lemma toy_water_ok: "\<not> isl (convert toy_lib toy_num toy_water False False)"
  by (simp add: toy_defs toy_water_def)

text \<open>
  C9, as the code has it. The branches of \<open>_convert_metabolite\<close> are tried in order, so the
  later cases hold for the metabolites that no earlier case takes. After a conversion
  that returns, for a model whose metabolites have distinct ids: a metabolite with
  formula \<open>H2O\<close> has a \<open>LogConcentration\<close> variable with bounds \<open>[0, 0]\<close>; one with formula
  \<open>H\<close> has one with both bounds \<open>ln (10 ^ - pH)\<close> of its compartment; one with neither
  formula that is the biomass marker \<open>cpd11416\<close> gets no variable (its entry in the
  registry is what it was before, and it is not in \<open>LC_vars\<close>); so does one with neither
  formula, not the biomass marker, whose transformed energy of formation is at least
  \<open>10 ^ 6\<close>; every other metabolite has a \<open>LogConcentration\<close> variable bounded by the
  logarithms of \<open>c_min\<close> and \<open>c_max\<close> of its compartment. \<open>LogConcentration\<close> is the only
  kind of variable that \<open>convert\<close> hooks to a metabolite.
\<close>

theorem convert_metabolite_variables:
  assumes "convert lib num m add_potentials add_displacement = Inr m'"
    and "met \<in> set (metabolites m')"
    and "distinct (map met_id (metabolites m'))"
  shows
    "\<exists>th cpt. met_thermo met = Some th \<and> compartments m' (met_compartment met) = Some cpt
      \<and> (formula met = ''H2O'' \<longrightarrow>
           map_of (var_dict m') (LogConcentration, met_id met)
             = Some \<lparr>v_kind = LogConcentration, v_hook = met_id met, v_lb = Some 0, v_ub = Some 0\<rparr>)
      \<and> (formula met = ''H'' \<longrightarrow>
           map_of (var_dict m') (LogConcentration, met_id met)
             = Some \<lparr>v_kind = LogConcentration, v_hook = met_id met,
                     v_lb = Some (ln (10 powr (- pH cpt))), v_ub = Some (ln (10 powr (- pH cpt)))\<rparr>)
      \<and> (formula met \<noteq> ''H2O'' \<and> formula met \<noteq> ''H'' \<and> seed_id met = Some ''cpd11416'' \<longrightarrow>
           map_of (var_dict m') (LogConcentration, met_id met)
             = map_of (var_dict m) (LogConcentration, met_id met)
           \<and> LC_vars m' (met_id met) = None)
      \<and> (formula met \<noteq> ''H2O'' \<and> formula met \<noteq> ''H'' \<and> seed_id met \<noteq> Some ''cpd11416''
           \<and> deltaGf_tr th \<ge> 10 ^ 6 \<longrightarrow>
           map_of (var_dict m') (LogConcentration, met_id met)
             = map_of (var_dict m) (LogConcentration, met_id met)
           \<and> LC_vars m' (met_id met) = None)
      \<and> (formula met \<noteq> ''H2O'' \<and> formula met \<noteq> ''H'' \<and> seed_id met \<noteq> Some ''cpd11416''
           \<and> deltaGf_tr th < 10 ^ 6 \<longrightarrow>
           map_of (var_dict m') (LogConcentration, met_id met)
             = Some \<lparr>v_kind = LogConcentration, v_hook = met_id met,
                     v_lb = Some (ln (c_min cpt)), v_ub = Some (ln (c_max cpt))\<rparr>)"
proof -
  from convert_facts[OF assms(1)] obtain m2 where
    cr: "convert_reactions lib num m2 (reactions m') add_potentials add_displacement = Inr m'"
    and lc2: "LC_vars m2 = LC_vars m'"
    and cp: "compartments m' = compartments m"
    and cm: "convert_metabolites num
       (m\<lparr>metabolites := metabolites m', reactions := reactions m',
          LC_vars := Map.empty, P_vars := Map.empty\<rparr>) (metabolites m') add_potentials = Inr m2"
    by blast
  have keep: "map_of (var_dict m') (LogConcentration, met_id met)
                = map_of (var_dict m2) (LogConcentration, met_id met)"
    using convert_reactions_frame[OF cr] by blast
  let ?m1 = "m\<lparr>metabolites := metabolites m', reactions := reactions m',
          LC_vars := Map.empty, P_vars := Map.empty\<rparr>"
  from convert_metabolites_emitted[OF cm assms(2,3)] obtain th cpt where
    t1: "met_thermo met = Some th" and t0: "compartments ?m1 (met_compartment met) = Some cpt"
    and vd0: "map_of (var_dict m2) (LogConcentration, met_id met)
          = (case LC_outcome met th cpt of
               None \<Rightarrow> map_of (var_dict ?m1) (LogConcentration, met_id met)
             | Some v \<Rightarrow> Some v)"
    and lc0: "LC_vars m2 (met_id met)
          = (case LC_outcome met th cpt of None \<Rightarrow> LC_vars ?m1 (met_id met) | Some v \<Rightarrow> Some v)"
    by blast
  have t: "met_thermo met = Some th" "compartments m (met_compartment met) = Some cpt"
    using t1 t0 by simp_all
  have vd: "map_of (var_dict m2) (LogConcentration, met_id met)
          = (case LC_outcome met th cpt of
               None \<Rightarrow> map_of (var_dict m) (LogConcentration, met_id met)
             | Some v \<Rightarrow> Some v)"
    using vd0 by (simp split: option.splits)
  have lc: "LC_vars m2 (met_id met)
          = (case LC_outcome met th cpt of None \<Rightarrow> None | Some v \<Rightarrow> Some v)"
    using lc0 by (simp split: option.splits)
  have a: "compartments m' (met_compartment met) = Some cpt" using t cp by simp
  have b: "map_of (var_dict m') (LogConcentration, met_id met)
          = (case LC_outcome met th cpt of
               None \<Rightarrow> map_of (var_dict m) (LogConcentration, met_id met)
             | Some v \<Rightarrow> Some v)" using keep vd by simp
  have c: "LC_vars m' (met_id met)
          = (case LC_outcome met th cpt of None \<Rightarrow> None | Some v \<Rightarrow> Some v)"
    using lc lc2 by simp
  show ?thesis
    apply (rule exI[of _ th], rule exI[of _ cpt])
    unfolding b c
    using t(1) a by (simp add: LC_outcome_def)
qed

theorem convert_metabolite_variables_witness:
  "distinct (map met_id (metabolites (projr (convert toy_lib toy_num toy_water False False))))
   \<and> map_of (var_dict (projr (convert toy_lib toy_num toy_water False False)))
        (LogConcentration, ''A_c'')
       = Some \<lparr>v_kind = LogConcentration, v_hook = ''A_c'',
               v_lb = Some (ln (c_min \<lparr>pH = 7, ionicStr = 0, c_min = 1 / 100000, c_max = 1 / 100\<rparr>)),
               v_ub = Some (ln (c_max \<lparr>pH = 7, ionicStr = 0, c_min = 1 / 100000, c_max = 1 / 100\<rparr>))\<rparr>"
proof -
  let ?m' = "projr (convert toy_lib toy_num toy_water False False)"
  let ?A = "\<lparr>met_id = ''A_c'', met_name = ''A_c'', formula = ''C6H12O6'', met_compartment = ''c'',
          seed_id = Some ''cpd00027'',
          met_thermo = Some \<lparr>deltaGf_std = - 100, deltaGf_tr = - 100, deltaGf_err = 1\<rparr>\<rparr>"
  have c: "convert toy_lib toy_num toy_water False False = Inr ?m'"
    using toy_water_ok by simp
  have mem: "?A \<in> set (metabolites ?m')" by (simp add: toy_defs toy_water_def)
  have d: "distinct (map met_id (metabolites ?m'))" by (simp add: toy_defs toy_water_def)
  have cp: "compartments ?m' ''c'' = Some \<lparr>pH = 7, ionicStr = 0, c_min = 1 / 100000, c_max = 1 / 100\<rparr>"
    by (simp add: toy_defs toy_water_def)
  from convert_metabolite_variables[OF c mem d] obtain th cpt where
    1: "met_thermo ?A = Some th" and 2: "compartments ?m' (met_compartment ?A) = Some cpt"
    and 3: "formula ?A \<noteq> ''H2O'' \<and> formula ?A \<noteq> ''H'' \<and> seed_id ?A \<noteq> Some ''cpd11416''
           \<and> deltaGf_tr th < 10 ^ 6 \<longrightarrow>
           map_of (var_dict ?m') (LogConcentration, met_id ?A)
             = Some \<lparr>v_kind = LogConcentration, v_hook = met_id ?A,
                     v_lb = Some (ln (c_min cpt)), v_ub = Some (ln (c_max cpt))\<rparr>"
    by (elim exE conjE)
  have th: "th = \<lparr>deltaGf_std = - 100, deltaGf_tr = - 100, deltaGf_err = 1\<rparr>" using 1 by simp
  have cpt: "cpt = \<lparr>pH = 7, ionicStr = 0, c_min = 1 / 100000, c_max = 1 / 100\<rparr>"
    using 2 cp by simp
  have "map_of (var_dict ?m') (LogConcentration, ''A_c'')
             = Some \<lparr>v_kind = LogConcentration, v_hook = ''A_c'',
                     v_lb = Some (ln (c_min cpt)), v_ub = Some (ln (c_max cpt))\<rparr>"
    using 3 unfolding th by simp
  then show ?thesis using d unfolding cpt by blast
qed

text \<open>
  C9 as stated fails on water without usable data: the metabolite \<open>h2o_c\<close> has formula
  \<open>H2O\<close> and a transformed energy of formation of \<open>10 ^ 7\<close>, which the claim says receives
  no variable, and it receives a \<open>LogConcentration\<close> variable with bounds \<open>[0, 0]\<close>.
\<close>

theorem water_without_data_counterexample:
  "map_of (var_dict toy_water) (LogConcentration, ''h2o_c'') = None
   \<and> get_by_id (metabolites toy_water) ''h2o_c''
       = Some \<lparr>met_id = ''h2o_c'', met_name = ''H2O[c]'', formula = ''H2O'', met_compartment = ''c'',
          seed_id = Some ''cpd00001'',
          met_thermo = Some \<lparr>deltaGf_std = 10000000, deltaGf_tr = 10000000,
                             deltaGf_err = 10000000\<rparr>\<rparr>
   \<and> (10000000 :: real) \<ge> 10 ^ 6
   \<and> map_of (var_dict (projr (convert toy_lib toy_num toy_water False False)))
        (LogConcentration, ''h2o_c'')
       = Some \<lparr>v_kind = LogConcentration, v_hook = ''h2o_c'', v_lb = Some 0, v_ub = Some 0\<rparr>"
  by (simp add: toy_defs toy_water_def)

section \<open>The flag \<open>computed\<close> of \<open>prepare\<close>\<close>

lemma correctThermoValues_Inr:
  "correctThermoValues num mets = Inr c \<Longrightarrow>
   c \<longleftrightarrow> \<not> (\<exists>p \<in> set mets. \<exists>t. met_thermo (fst p) = Some t \<and> deltaGf_std t > 0.9 * BIGM_DG num)"
  by (induction num mets rule: correctThermoValues.induct) (auto split: option.splits if_splits)

lemma reaction_compartment_Some:
  "reaction_compartment ms (Some k)
     = (if \<forall>p \<in> set ms. met_compartment (fst p) = k then Some k else Some ''c'')"
proof (induction ms arbitrary: k)
  case Nil then show ?case by simp
next
  case (Cons p ms)
  obtain met v where p: "p = (met, v)" by (cases p)
  show ?case
  proof (cases "met_compartment met = k")
    case True
    then show ?thesis using Cons.IH[of k] p by simp
  next
    case False
    then show ?thesis using Cons.IH[of "''c''"] p by simp
  qed
qed

lemma reaction_compartment_None:
  "reaction_compartment ms None
     = (if ms = [] then None
        else if \<forall>p \<in> set ms. met_compartment (fst p) = met_compartment (fst (hd ms))
        then Some (met_compartment (fst (hd ms)))
        else Some ''c'')"
proof (cases ms)
  case Nil then show ?thesis by simp
next
  case (Cons p ms')
  obtain met v where p: "p = (met, v)" by (cases p)
  show ?thesis using Cons p reaction_compartment_Some[of ms' "met_compartment met"] by simp
qed

lemma map_of_find_protons:
  "map_of (find_protons mets acc) c
     = (case filter (\<lambda>met. met_compartment met = c
                       \<and> (formula met = ''H'' \<or> seed_id met = Some ''cpd00067'')) mets of
          [] \<Rightarrow> map_of acc c
        | ms \<Rightarrow> Some (last ms))"
proof (induction mets arbitrary: acc)
  case Nil then show ?case by simp
next
  case (Cons met mets)
  show ?case
    using Cons.IH[of "AList.update (met_compartment met) met acc"] Cons.IH[of acc]
    by (auto simp: update_conv' split: list.splits)
qed

lemma prepare_reaction_computed:
  assumes "prepare_reaction lib num m reaction = Inr reaction'"
  shows "\<exists>mets0 mets th balance.
     reaction_metabolites (metabolites m) (rxn_metabolites reaction) = Inr mets0
     \<and> rxn_compartment reaction' = reaction_compartment mets0 None
     \<and> check_reaction_balance lib (metabolites m)
          (reaction\<lparr>rxn_thermo := Some \<lparr>isTrans = Some False, computed = None, deltaGR = None,
                                         deltaGRerr = None, deltaGrxn = None\<rparr>,
                    rxn_compartment := reaction_compartment mets0 None\<rparr>)
          (case reaction_compartment mets0 None of
             None \<Rightarrow> None
           | Some c \<Rightarrow> map_of (proton_of m) c)
        = (balance, rxn_metabolites reaction')
     \<and> reaction_metabolites (metabolites m) (rxn_metabolites reaction') = Inr mets
     \<and> rxn_id reaction' = rxn_id reaction
     \<and> rxn_thermo reaction' = Some th
     \<and> computed th = Some (\<not> (length (rxn_metabolites reaction) = 1
          \<or> (\<exists>p \<in> set mets. \<exists>t. met_thermo (fst p) = Some t \<and> deltaGf_std t > 0.9 * BIGM_DG num)
          \<or> length (rxn_metabolites reaction') \<ge> 100
          \<or> balance \<in> {''missing atoms'', ''drain flux''}))"
proof -
  note defs = prepare_reaction_def Let_def reaction_start_def
  obtain mets0 where 1: "reaction_metabolites (metabolites m) (rxn_metabolites reaction) = Inr mets0"
    using assms by (cases "reaction_metabolites (metabolites m) (rxn_metabolites reaction)")
      (simp_all add: defs)
  let ?r0 = "reaction\<lparr>rxn_thermo := Some \<lparr>isTrans = Some False, computed = None, deltaGR = None,
                                         deltaGRerr = None, deltaGrxn = None\<rparr>,
                    rxn_compartment := reaction_compartment mets0 None\<rparr>"
  let ?p = "case reaction_compartment mets0 None of
             None \<Rightarrow> None
           | Some c \<Rightarrow> map_of (proton_of m) c"
  obtain b stoich where bal: "check_reaction_balance lib (metabolites m) ?r0 ?p = (b, stoich)"
    by (cases "check_reaction_balance lib (metabolites m) ?r0 ?p")
  obtain mets where 2: "reaction_metabolites (metabolites m) stoich = Inr mets"
    using assms 1 bal by (cases "reaction_metabolites (metabolites m) stoich") (simp_all add: defs)
  obtain c where 3: "correctThermoValues num mets = Inr c"
    using assms 1 bal 2 by (cases "correctThermoValues num mets") (simp_all add: defs)
  note c = correctThermoValues_Inr[OF 3]
  let ?C = "length (rxn_metabolites reaction) = 1
          \<or> (\<exists>p \<in> set mets. \<exists>t. met_thermo (fst p) = Some t \<and> deltaGf_std t > 0.9 * BIGM_DG num)
          \<or> length stoich \<ge> 100
          \<or> b \<in> {''missing atoms'', ''drain flux''}"
  have cond: "(\<not> length (rxn_metabolites reaction) \<noteq> 1 \<or> \<not> c
                \<or> length stoich \<ge> 100
                \<or> b \<in> set [''missing atoms'', ''drain flux'']) \<longleftrightarrow> ?C"
    using c by auto
  have fields: "rxn_metabolites reaction' = stoich
      \<and> rxn_compartment reaction' = reaction_compartment mets0 None
      \<and> rxn_id reaction' = rxn_id reaction
      \<and> (\<exists>th. rxn_thermo reaction' = Some th \<and> computed th = Some (\<not> ?C))"
  proof (cases ?C)
    case True
    then have t: "\<not> length (rxn_metabolites reaction) \<noteq> 1 \<or> \<not> c
                \<or> length stoich \<ge> 100
                \<or> b \<in> set [''missing atoms'', ''drain flux'']" using cond by blast
    have "rxn_metabolites reaction' = stoich
      \<and> rxn_compartment reaction' = reaction_compartment mets0 None
      \<and> rxn_id reaction' = rxn_id reaction
      \<and> (\<exists>th. rxn_thermo reaction' = Some th \<and> computed th = Some False)"
      using assms 1 bal 2 3 t by (auto simp add: defs)
    then show ?thesis using True by simp
  next
    case False
    then have f: "\<not> (\<not> length (rxn_metabolites reaction) \<noteq> 1 \<or> \<not> c
                \<or> length stoich \<ge> 100
                \<or> b \<in> set [''missing atoms'', ''drain flux''])" using cond by blast
    have "rxn_metabolites reaction' = stoich
      \<and> rxn_compartment reaction' = reaction_compartment mets0 None
      \<and> rxn_id reaction' = rxn_id reaction
      \<and> (\<exists>th. rxn_thermo reaction' = Some th \<and> computed th = Some True)"
      using assms 1 bal 2 3 f
      by (auto simp add: defs split_beta split: sum.splits if_splits)
    then show ?thesis using False by simp
  qed
  then obtain th where th: "rxn_thermo reaction' = Some th" "computed th = Some (\<not> ?C)"
    and st: "rxn_metabolites reaction' = stoich"
    and rest: "rxn_compartment reaction' = reaction_compartment mets0 None"
              "rxn_id reaction' = rxn_id reaction"
    by blast
  show ?thesis
    apply (rule exI[of _ mets0], rule exI[of _ mets], rule exI[of _ th], rule exI[of _ b])
    using 1 2 bal th st rest by simp
qed

lemma prepare_reactions_nth:
  "prepare_reactions lib num m rs = Inr rs' \<Longrightarrow>
   length rs' = length rs \<and> (\<forall>i < length rs. prepare_reaction lib num m (rs ! i) = Inr (rs' ! i))"
proof (induction rs arbitrary: rs')
  case Nil
  then show ?case by simp
next
  case (Cons r rs)
  from Cons.prems obtain r' rest where
    1: "prepare_reaction lib num m r = Inr r'"
    and 2: "prepare_reactions lib num m rs = Inr rest" and 3: "rs' = r' # rest"
    by (auto split: sum.splits)
  from Cons.IH[OF 2] 1 3 show ?case by (auto simp: nth_Cons split: nat.splits)
qed

lemma prepare_Inr:
  assumes "prepare lib num m = Inr m'"
  shows "prepare_reactions lib num
           (m\<lparr>metabolites := metabolites m', proton_of := proton_of m'\<rparr>) (reactions m)
         = Inr (reactions m')"
proof -
  obtain mets where 1: "prepare_metabolites lib m (metabolites m) = Inr mets"
    using assms by (cases "prepare_metabolites lib m (metabolites m)") (simp_all add: prepare_def)
  have 2: "find_protons mets [] \<noteq> []"
    using assms 1 by (auto simp add: prepare_def Let_def split: if_splits)
  let ?m2 = "m\<lparr>metabolites := mets, proton_of := find_protons mets []\<rparr>"
  obtain rs where 3: "prepare_reactions lib num ?m2 (reactions m) = Inr rs"
    using assms 1 2 by (cases "prepare_reactions lib num ?m2 (reactions m)")
      (simp_all add: prepare_def Let_def)
  have m': "m' = ?m2\<lparr>reactions := rs\<rparr>"
    using assms 1 2 3 by (simp add: prepare_def Let_def)
  show ?thesis using 3 by (simp add: m')
qed

lemma prepare_proton_of:
  assumes "prepare lib num m = Inr m'"
  shows "proton_of m' = find_protons (metabolites m') []"
proof -
  obtain mets where 1: "prepare_metabolites lib m (metabolites m) = Inr mets"
    using assms by (cases "prepare_metabolites lib m (metabolites m)") (simp_all add: prepare_def)
  have 2: "find_protons mets [] \<noteq> []"
    using assms 1 by (auto simp add: prepare_def Let_def split: if_splits)
  let ?m2 = "m\<lparr>metabolites := mets, proton_of := find_protons mets []\<rparr>"
  obtain rs where 3: "prepare_reactions lib num ?m2 (reactions m) = Inr rs"
    using assms 1 2 by (cases "prepare_reactions lib num ?m2 (reactions m)")
      (simp_all add: prepare_def Let_def)
  have m': "m' = ?m2\<lparr>reactions := rs\<rparr>"
    using assms 1 2 3 by (simp add: prepare_def Let_def)
  show ?thesis by (simp add: m')
qed

lemma balance_prepare_ok: "\<not> isl (prepare balance_lib toy_num balance_model)"
  by (simp add: prepare_def balance_model_def balance_lib_def toy_model_def toy_lib_def toy_num_def
        prepare_metabolite_def prepare_reaction_def reaction_start_def get_by_id_def Let_def)

text \<open>
  C4. After a \<open>prepare\<close> that returns, the thermo record of every reaction has
  \<open>computed = False\<close> exactly when the reaction had a single metabolite on entry, or the
  standard energy of formation of one of its metabolites is above \<open>0.9 * BIGM_DG\<close>, or it
  has at least 100 metabolites, or the balance check has reported \<open>missing atoms\<close> or
  \<open>drain flux\<close>; and \<open>computed = True\<close> in every other case. The balance check is called
  on the reaction with its thermo record set to \<open>{'isTrans': False}\<close> and its compartment
  set: the compartment of its metabolites if they share one, and \<open>c\<close> if they do not. It is
  given the proton of that compartment, which is the last metabolite of the model in that
  compartment with the formula \<open>H\<close> or the seed id \<open>cpd00067\<close>, if there is one. The call
  leaves the reaction with the metabolites it has after \<open>prepare\<close>, and it is these that
  the tests on the energies of formation and on the number of metabolites read; \<open>mets0\<close>
  are the metabolites of the reaction on entry and \<open>mets\<close> those after the balance check,
  as prepared.
\<close>

theorem prepare_computed_flag:
  assumes "prepare lib num m = Inr m'" and "i < length (reactions m)"
  shows "\<exists>mets0 mets th balance.
     reaction_metabolites (metabolites m') (rxn_metabolites (reactions m ! i)) = Inr mets0
     \<and> rxn_compartment (reactions m' ! i)
         = (if mets0 = [] then None
            else if \<forall>p \<in> set mets0. met_compartment (fst p) = met_compartment (fst (hd mets0))
            then Some (met_compartment (fst (hd mets0)))
            else Some ''c'')
     \<and> check_reaction_balance lib (metabolites m')
          ((reactions m ! i)\<lparr>rxn_thermo := Some \<lparr>isTrans = Some False, computed = None,
                                   deltaGR = None, deltaGRerr = None, deltaGrxn = None\<rparr>,
                              rxn_compartment := rxn_compartment (reactions m' ! i)\<rparr>)
          (case rxn_compartment (reactions m' ! i) of
             None \<Rightarrow> None
           | Some c \<Rightarrow>
               (case filter (\<lambda>met. met_compartment met = c
                               \<and> (formula met = ''H'' \<or> seed_id met = Some ''cpd00067''))
                       (metabolites m') of
                  [] \<Rightarrow> None
                | ms \<Rightarrow> Some (last ms)))
        = (balance, rxn_metabolites (reactions m' ! i))
     \<and> reaction_metabolites (metabolites m') (rxn_metabolites (reactions m' ! i)) = Inr mets
     \<and> rxn_id (reactions m' ! i) = rxn_id (reactions m ! i)
     \<and> rxn_thermo (reactions m' ! i) = Some th
     \<and> (computed th = Some False \<longleftrightarrow>
          length (rxn_metabolites (reactions m ! i)) = 1
          \<or> (\<exists>p \<in> set mets. \<exists>t. met_thermo (fst p) = Some t \<and> deltaGf_std t > 0.9 * BIGM_DG num)
          \<or> length (rxn_metabolites (reactions m' ! i)) \<ge> 100
          \<or> balance \<in> {''missing atoms'', ''drain flux''})
     \<and> (computed th = Some True \<longleftrightarrow>
          \<not> (length (rxn_metabolites (reactions m ! i)) = 1
          \<or> (\<exists>p \<in> set mets. \<exists>t. met_thermo (fst p) = Some t \<and> deltaGf_std t > 0.9 * BIGM_DG num)
          \<or> length (rxn_metabolites (reactions m' ! i)) \<ge> 100
          \<or> balance \<in> {''missing atoms'', ''drain flux''}))"
proof -
  let ?m2 = "m\<lparr>metabolites := metabolites m', proton_of := proton_of m'\<rparr>"
  let ?r = "reactions m ! i" and ?r' = "reactions m' ! i"
  let ?th0 = "\<lparr>isTrans = Some False, computed = None, deltaGR = None, deltaGRerr = None,
               deltaGrxn = None\<rparr>"
  from prepare_reactions_nth[OF prepare_Inr[OF assms(1)]] assms(2)
  have pr: "prepare_reaction lib num ?m2 ?r = Inr ?r'" by blast
  from prepare_reaction_computed[OF pr] obtain mets0 mets th b where
    1: "reaction_metabolites (metabolites ?m2) (rxn_metabolites ?r) = Inr mets0"
    and 2: "rxn_compartment ?r' = reaction_compartment mets0 None"
    and 3: "check_reaction_balance lib (metabolites ?m2)
          (?r\<lparr>rxn_thermo := Some ?th0, rxn_compartment := reaction_compartment mets0 None\<rparr>)
          (case reaction_compartment mets0 None of
             None \<Rightarrow> None
           | Some c \<Rightarrow> map_of (proton_of ?m2) c)
        = (b, rxn_metabolites ?r')"
    and 4: "reaction_metabolites (metabolites ?m2) (rxn_metabolites ?r') = Inr mets"
    and 5: "rxn_id ?r' = rxn_id ?r"
    and 6: "rxn_thermo ?r' = Some th"
    and 7: "computed th = Some (\<not> (length (rxn_metabolites ?r) = 1
          \<or> (\<exists>p \<in> set mets. \<exists>t. met_thermo (fst p) = Some t \<and> deltaGf_std t > 0.9 * BIGM_DG num)
          \<or> length (rxn_metabolites ?r') \<ge> 100
          \<or> b \<in> {''missing atoms'', ''drain flux''}))"
    by blast
  have a1: "reaction_metabolites (metabolites m') (rxn_metabolites ?r) = Inr mets0"
    using 1 by simp
  have a2: "rxn_compartment ?r'
         = (if mets0 = [] then None
            else if \<forall>p \<in> set mets0. met_compartment (fst p) = met_compartment (fst (hd mets0))
            then Some (met_compartment (fst (hd mets0)))
            else Some ''c'')"
    using 2 by (simp only: reaction_compartment_None)
  have proton: "map_of (proton_of m') c
      = (case filter (\<lambda>met. met_compartment met = c
                               \<and> (formula met = ''H'' \<or> seed_id met = Some ''cpd00067''))
                       (metabolites m') of
                  [] \<Rightarrow> None
                | ms \<Rightarrow> Some (last ms))" for c
    by (simp add: prepare_proton_of[OF assms(1)] map_of_find_protons split: list.splits)
  have a3: "check_reaction_balance lib (metabolites m')
          (?r\<lparr>rxn_thermo := Some ?th0, rxn_compartment := rxn_compartment ?r'\<rparr>)
          (case rxn_compartment ?r' of
             None \<Rightarrow> None
           | Some c \<Rightarrow>
               (case filter (\<lambda>met. met_compartment met = c
                               \<and> (formula met = ''H'' \<or> seed_id met = Some ''cpd00067''))
                       (metabolites m') of
                  [] \<Rightarrow> None
                | ms \<Rightarrow> Some (last ms)))
        = (b, rxn_metabolites ?r')"
    using 3 unfolding 2[symmetric] by (simp add: proton split: option.splits)
  have a4: "reaction_metabolites (metabolites m') (rxn_metabolites ?r') = Inr mets"
    using 4 by simp
  show ?thesis
    apply (rule exI[of _ mets0], rule exI[of _ mets], rule exI[of _ th], rule exI[of _ b])
    using a1 a2 a3 a4 5 6 unfolding 7 by simp
qed

theorem prepare_computed_flag_witness:
  "\<not> isl (prepare balance_lib toy_num balance_model)
   \<and> (1 :: nat) < length (reactions balance_model)
   \<and> length (rxn_metabolites (reactions balance_model ! 1)) = 1
   \<and> map (\<lambda>r. (rxn_id r, computed (the (rxn_thermo r))))
       (reactions (projr (prepare balance_lib toy_num balance_model)))
     = [(''R1'', Some True), (''EX_A'', Some False), (''R2'', Some False), (''R3'', Some False),
        (''R4'', Some True), (''R5'', Some True), (''R6'', Some True)]
   \<and> map (\<lambda>r. (rxn_id r, rxn_compartment r))
       (reactions (projr (prepare balance_lib toy_num balance_model)))
     = [(''R1'', Some ''c''), (''EX_A'', Some ''c''), (''R2'', Some ''c''), (''R3'', Some ''c''),
        (''R4'', Some ''c''), (''R5'', Some ''c''), (''R6'', Some ''e'')]
   \<and> rxn_metabolites (reactions (projr (prepare balance_lib toy_num balance_model)) ! 4)
     = [(''A_c'', - 1), (''B_c'', 1), (''h_c'', 1)]"
proof -
  have p: "prepare balance_lib toy_num balance_model
      = Inr (projr (prepare balance_lib toy_num balance_model))"
    using balance_prepare_ok by simp
  have l: "(1 :: nat) < length (reactions balance_model)" by (simp add: balance_model_def)
  have d: "length (rxn_metabolites (reactions balance_model ! 1)) = 1"
    by (simp add: balance_model_def)
  from prepare_computed_flag[OF p l] d
  have "computed (the (rxn_thermo (reactions (projr (prepare balance_lib toy_num balance_model)) ! 1)))
      = Some False"
    by auto
  moreover have "map (\<lambda>r. (rxn_id r, computed (the (rxn_thermo r))))
       (reactions (projr (prepare balance_lib toy_num balance_model)))
     = [(''R1'', Some True), (''EX_A'', Some False), (''R2'', Some False), (''R3'', Some False),
        (''R4'', Some True), (''R5'', Some True), (''R6'', Some True)]"
    by (simp add: prepare_def balance_model_def balance_lib_def toy_model_def toy_lib_def toy_num_def
        prepare_metabolite_def prepare_reaction_def reaction_start_def get_by_id_def Let_def)
  moreover have "map (\<lambda>r. (rxn_id r, rxn_compartment r))
       (reactions (projr (prepare balance_lib toy_num balance_model)))
     = [(''R1'', Some ''c''), (''EX_A'', Some ''c''), (''R2'', Some ''c''), (''R3'', Some ''c''),
        (''R4'', Some ''c''), (''R5'', Some ''c''), (''R6'', Some ''e'')]"
    by (simp add: prepare_def balance_model_def balance_lib_def toy_model_def toy_lib_def toy_num_def
        prepare_metabolite_def prepare_reaction_def reaction_start_def get_by_id_def Let_def)
  moreover have "rxn_metabolites (reactions (projr (prepare balance_lib toy_num balance_model)) ! 4)
     = [(''A_c'', - 1), (''B_c'', 1), (''h_c'', 1)]"
    by (simp add: prepare_def balance_model_def balance_lib_def toy_model_def toy_lib_def toy_num_def
        prepare_metabolite_def prepare_reaction_def reaction_start_def get_by_id_def Let_def)
  ultimately show ?thesis using balance_prepare_ok l d by blast
qed

section \<open>\<open>chebyshev_center\<close> on a converted model\<close>


end
